theory Spec2Isabelle
  imports Complex_Main
begin

section \<open>Hand-gesture control of the falling-piece game (src/hand-control.js)\<close>

text \<open>
  The class \<open>HandControl\<close> is embedded as a record of its fields and one function per
  method, each taking the state and returning the new state together with the calls
  it makes on its collaborators.

  Conventions of the embedding:
  \<^item> JavaScript numbers that hold coordinates, visibilities and statistics are real
    numbers. The additions and divisions of the calibration (lines 381-404), whose
    results are the baselines, are rounded as binary64 does (\<open>round64\<close> below); the
    comparisons with the thresholds and the statistics of the gesture step are
    computed without rounding. \<open>Date.now()\<close> is an integer number of milliseconds,
    read once per frame (field \<open>now\<close> of the frame);
  \<^item> \<open>results.poseLandmarks\<close> is a list of optional landmarks: an index past the end,
    a hole or a null entry is \<open>None\<close>, which is what the source's \<open>!landmark\<close> tests;
  \<^item> the strings \<open>'up'\<close>/\<open>'down'\<close> and \<open>''\<close>/\<open>'left'\<close>/\<open>'right'\<close>/\<open>'rotate'\<close> are datatypes;
  \<^item> drawing on the canvas and \<open>console.log\<close> have no effect on the fields and are left
    out, with one exception: the debug block of \<open>detectHandGestures\<close> (lines 518-524)
    reads \<open>areBothHandsUp\<close>, \<open>handHeightDifference\<close>, \<open>shouldRotate\<close> and
    \<open>maxHeightDifference\<close> before the \<open>const\<close> declarations of lines 545-551 in the same
    block, which throws (a ReferenceError) whenever \<open>frameCounter % 30 === 0\<close>; the
    \<open>catch\<close> of line 756 swallows it, and the rest of the method is skipped;
  \<^item> the callback scheduled by \<open>setTimeout\<close> at line 743 runs between frames; the frame
    says whether it has run since the previous frame (\<open>lastActionTimerFired\<close>).
\<close>

subsection \<open>Data\<close>

record landmark =
  lm_x :: real
  lm_y :: real
  lm_z :: real
  visibility :: real

text \<open>An entry of a history window: \<open>{x, y, timestamp}\<close>.\<close>

record sample =
  s_x :: real
  s_y :: real
  s_timestamp :: int

text \<open>A baseline point: \<open>{x, y, z}\<close>.\<close>

record point3 =
  p_x :: real
  p_y :: real
  p_z :: real

datatype hand_state = Up | Down

datatype hand = LeftHand | RightHand

datatype action = NoAction | ActLeft | ActRight | ActRotate

text \<open>
  What a cycle does to the outside: calls on the game (\<open>tetrisGame.movePiece(dx, dy)\<close>,
  \<open>tetrisGame.rotatePiece()\<close>) and on the host's two callbacks.
\<close>

datatype event =
    MovePiece int int
  | RotatePiece
  | CalibrationComplete
  | GestureStatusChange bool

text \<open>
  Modelled from the spec: the game collaborator (class \<open>TetrisGame\<close>) is not among the
  sources; section 6 of the spec gives its interface: \<open>isRunning() -> bool\<close>
  (\<open>gameRunning\<close>), \<open>currentPieceId() -> Identifier | none\<close> (\<open>currentPiece.id\<close>),
  \<open>attemptMove(dx, dy) -> bool\<close> (\<open>movePiece\<close>) and \<open>rotate()\<close>. A frame carries what the
  game answers during the cycle. Piece identifiers are natural numbers, \<open>0\<close> being the
  one JavaScript treats as false in \<open>currentPieceId && ...\<close>.
\<close>

record frame =
  poseLandmarks :: "landmark option list"
  now :: int
  gameRunning :: bool
  currentPiece :: "nat option"
  movePieceOk :: bool
  lastActionTimerFired :: bool

record state =
  isGestureDetected :: bool
  lastGestureDetectionStatus :: bool
  calibrationCompletedNotified :: bool
  lastAction :: action
  lastActionTime :: int
  leftHandState :: hand_state
  rightHandState :: hand_state
  lastLeftHandState :: hand_state
  lastRightHandState :: hand_state
  bothHandsVisible :: bool
  lastBothHandsVisible :: bool
  leftHandHistory :: "sample list"
  rightHandHistory :: "sample list"
  baselineLeftShoulder :: "point3 option"
  baselineRightShoulder :: "point3 option"
  baselineNose :: "point3 option"
  calibrationFrames :: nat
  headHistory :: "sample list"
  isHeadShaking :: bool
  consecutiveShakeFrames :: nat
  fastDropStartTime :: int
  lastFastDropTime :: int
  isFastDropTriggered :: bool
  currentPieceId :: "nat option"
  fastDropPieceId :: "nat option"
  continuousMoveStartTime :: int
  lastContinuousMoveTime :: int
  isInContinuousMode :: bool
  poseDetectionFailureCount :: nat
  lastSuccessfulDetection :: int
  recentDetectionHistory :: "bool list"
  calibrationCompleteTime :: int
  showCalibrationComplete :: bool
  frameCounter :: nat

subsection \<open>Control parameters (constructor, lines 14-75)\<close>

definition handRaiseThreshold :: real where "handRaiseThreshold = 12 / 100"
definition bothHandsVisibilityThreshold :: real where "bothHandsVisibilityThreshold = 6 / 10"
definition handStabilityThreshold :: real where "handStabilityThreshold = 1 / 100"
definition handStabilityFrames :: nat where "handStabilityFrames = 5"
definition actionCooldown :: int where "actionCooldown = 150"
definition handHistorySize :: nat where "handHistorySize = 10"
definition maxCalibrationFrames :: nat where "maxCalibrationFrames = 30"
definition headHistorySize :: nat where "headHistorySize = 20"
definition requiredShakeFrames :: nat where "requiredShakeFrames = 12"
definition fastDropTriggerDelay :: int where "fastDropTriggerDelay = 500"
definition fastDropInterval :: int where "fastDropInterval = 80"
definition continuousMoveThreshold :: int where "continuousMoveThreshold = 800"
definition continuousMoveInterval :: int where "continuousMoveInterval = 120"
definition maxFailureCount :: nat where "maxFailureCount = 30"
definition detectionHistorySize :: nat where "detectionHistorySize = 10"

lemmas params =
  handRaiseThreshold_def bothHandsVisibilityThreshold_def handStabilityThreshold_def
  handStabilityFrames_def actionCooldown_def handHistorySize_def maxCalibrationFrames_def
  headHistorySize_def requiredShakeFrames_def fastDropTriggerDelay_def fastDropInterval_def
  continuousMoveThreshold_def continuousMoveInterval_def maxFailureCount_def
  detectionHistorySize_def

text \<open>The object the constructor builds (lines 3-88), at time \<open>t\<close>.\<close>

definition constructed :: "int \<Rightarrow> state" where
  "constructed t = \<lparr>
     isGestureDetected = False,
     lastGestureDetectionStatus = False,
     calibrationCompletedNotified = False,
     lastAction = NoAction,
     lastActionTime = 0,
     leftHandState = Down,
     rightHandState = Down,
     lastLeftHandState = Down,
     lastRightHandState = Down,
     bothHandsVisible = False,
     lastBothHandsVisible = False,
     leftHandHistory = [],
     rightHandHistory = [],
     baselineLeftShoulder = None,
     baselineRightShoulder = None,
     baselineNose = None,
     calibrationFrames = 0,
     headHistory = [],
     isHeadShaking = False,
     consecutiveShakeFrames = 0,
     fastDropStartTime = 0,
     lastFastDropTime = 0,
     isFastDropTriggered = False,
     currentPieceId = None,
     fastDropPieceId = None,
     continuousMoveStartTime = 0,
     lastContinuousMoveTime = 0,
     isInContinuousMode = False,
     poseDetectionFailureCount = 0,
     lastSuccessfulDetection = t,
     recentDetectionHistory = [],
     calibrationCompleteTime = 0,
     showCalibrationComplete = False,
     frameCounter = 0 \<rparr>"

text \<open>\<open>resetCalibration\<close> (lines 423-466).\<close>

definition resetCalibration :: "state \<Rightarrow> int \<Rightarrow> state" where
  "resetCalibration s t = s\<lparr>
     calibrationFrames := 0,
     baselineLeftShoulder := None,
     baselineRightShoulder := None,
     baselineNose := None,
     leftHandState := Down,
     rightHandState := Down,
     bothHandsVisible := False,
     lastBothHandsVisible := False,
     lastLeftHandState := Down,
     lastRightHandState := Down,
     continuousMoveStartTime := 0,
     isInContinuousMode := False,
     isFastDropTriggered := False,
     fastDropStartTime := 0,
     currentPieceId := None,
     fastDropPieceId := None,
     lastAction := NoAction,
     lastActionTime := 0,
     headHistory := [],
     isHeadShaking := False,
     consecutiveShakeFrames := 0,
     leftHandHistory := [],
     rightHandHistory := [],
     calibrationCompleteTime := 0,
     showCalibrationComplete := False,
     isGestureDetected := False,
     lastGestureDetectionStatus := False,
     calibrationCompletedNotified := False,
     poseDetectionFailureCount := 0,
     lastSuccessfulDetection := t,
     recentDetectionHistory := [],
     frameCounter := 0 \<rparr>"

text \<open>\<open>resetDropSpeed\<close> (lines 912-918), the game's \<open>onPiecePlaced\<close> callback.\<close>

definition resetDropSpeed :: "state \<Rightarrow> state" where
  "resetDropSpeed s = s\<lparr>
     isFastDropTriggered := False,
     fastDropPieceId := None,
     fastDropStartTime := 0 \<rparr>"

subsection \<open>Landmarks and windows\<close>

text \<open>\<open>landmarks[i]\<close>: \<open>undefined\<close> past the end of the array.\<close>

definition lmAt :: "landmark option list \<Rightarrow> nat \<Rightarrow> landmark option" where
  "lmAt lms i = (if i < length lms then lms ! i else None)"

text \<open>\<open>history.push(e); if (history.length > cap) history.shift()\<close>.\<close>

definition pushWindow :: "nat \<Rightarrow> 'a \<Rightarrow> 'a list \<Rightarrow> 'a list" where
  "pushWindow cap e h = (let h' = h @ [e] in if length h' > cap then tl h' else h')"

text \<open>\<open>calculateVariance\<close> (lines 879-885).\<close>

definition calculateVariance :: "real list \<Rightarrow> real" where
  "calculateVariance values =
     (if length values = 0 then 0
      else
        let mean = foldl (+) 0 values / real (length values);
            squaredDiffs = map (\<lambda>val. (val - mean)\<^sup>2) values
        in foldl (+) 0 squaredDiffs / real (length values))"

text \<open>
  \<open>Math.min(...xs)\<close> and \<open>Math.max(...xs)\<close> on a list with an element; the caller
  (\<open>detectHeadShake\<close>) only reaches them with a full window.
\<close>

fun minOf :: "real list \<Rightarrow> real" where
  "minOf [] = 0"
| "minOf [x] = x"
| "minOf (x # xs) = min x (minOf xs)"

fun maxOf :: "real list \<Rightarrow> real" where
  "maxOf [] = 0"
| "maxOf [x] = x"
| "maxOf (x # xs) = max x (maxOf xs)"

text \<open>\<open>updateHeadHistory\<close> (lines 761-783).\<close>

definition updateHeadHistory :: "state \<Rightarrow> landmark \<Rightarrow> int \<Rightarrow> state" where
  "updateHeadHistory s nose t =
     s\<lparr>headHistory :=
         pushWindow headHistorySize
           \<lparr>s_x = lm_x nose, s_y = lm_y nose, s_timestamp = t\<rparr> (headHistory s)\<rparr>"

text \<open>\<open>updateHandHistory\<close> (lines 785-805).\<close>

definition updateHandHistory :: "state \<Rightarrow> landmark \<Rightarrow> landmark \<Rightarrow> int \<Rightarrow> state" where
  "updateHandHistory s leftWrist rightWrist t =
     s\<lparr>leftHandHistory :=
         pushWindow handHistorySize
           \<lparr>s_x = lm_x leftWrist, s_y = lm_y leftWrist, s_timestamp = t\<rparr> (leftHandHistory s),
       rightHandHistory :=
         pushWindow handHistorySize
           \<lparr>s_x = lm_x rightWrist, s_y = lm_y rightWrist, s_timestamp = t\<rparr> (rightHandHistory s)\<rparr>"

text \<open>\<open>isHandStable\<close> (lines 807-832); \<open>history.slice(-5)\<close> is the last five entries.\<close>

definition isHandStable :: "state \<Rightarrow> hand \<Rightarrow> bool" where
  "isHandStable s h =
     (let history = (if h = LeftHand then leftHandHistory s else rightHandHistory s) in
      if length history < handStabilityFrames then False
      else
        let recentFrames = drop (length history - handStabilityFrames) history;
            xVariance = calculateVariance (map s_x recentFrames);
            yVariance = calculateVariance (map s_y recentFrames)
        in xVariance < handStabilityThreshold \<and> yVariance < handStabilityThreshold)"

text \<open>\<open>detectHeadShake\<close> (lines 834-877).\<close>

definition detectHeadShake :: "state \<Rightarrow> state" where
  "detectHeadShake s =
     (if length (headHistory s) < headHistorySize
      then s\<lparr>isHeadShaking := False, consecutiveShakeFrames := 0\<rparr>
      else
        let xPositions = map s_x (headHistory s);
            xRange = maxOf xPositions - minOf xPositions;
            xVariance = calculateVariance xPositions;
            isCurrentFrameShaking = (xRange > 8 / 100 \<and> xVariance > 1 / 1000);
            n = (if isCurrentFrameShaking then consecutiveShakeFrames s + 1 else 0)
        in s\<lparr>consecutiveShakeFrames := n, isHeadShaking := (n \<ge> requiredShakeFrames)\<rparr>)"

subsection \<open>Binary64 arithmetic\<close>

text \<open>
  A JavaScript number is a binary64 value, and \<open>+\<close> and \<open>/\<close> return the exact result
  rounded to the nearest binary64 value, ties to the one with an even significand. A
  finite binary64 value is an integer multiple of 2 to the power \<open>e - 52\<close>, where 2 to
  the power \<open>e\<close> is the power of two at or below its magnitude and \<open>e\<close> is not below
  \<open>-1022\<close> (below that the values are subnormal and their spacing stays the same).
  Results of magnitude 2 to the power 1024 or more, which JavaScript turns into
  \<open>Infinity\<close>, are not represented: the coordinates of a pose are fractions of the
  image size, and the sums of 30 of them stay far below.
\<close>

text \<open>The nearest integer, ties to even.\<close>

definition rne :: "real \<Rightarrow> int" where
  "rne x =
     (if x - of_int \<lfloor>x\<rfloor> < 1 / 2 then \<lfloor>x\<rfloor>
      else if 1 / 2 < x - of_int \<lfloor>x\<rfloor> then \<lfloor>x\<rfloor> + 1
      else if even \<lfloor>x\<rfloor> then \<lfloor>x\<rfloor> else \<lfloor>x\<rfloor> + 1)"

text \<open>
  The exponent \<open>e\<close> of a magnitude \<open>x\<close>, with \<open>2 powi e \<le> x < 2 powi (e + 1)\<close>; it is \<open>-1022\<close>
  for a subnormal magnitude.
\<close>

function binadeUp :: "int \<Rightarrow> real \<Rightarrow> int" where
  "binadeUp e x = (if 2 \<le> x then binadeUp (e + 1) (x / 2) else e)"
  by pat_completeness auto
termination
proof (relation "measure (\<lambda>(e, x). nat \<lceil>x\<rceil>)")
  show "wf (measure (\<lambda>(e, x). nat \<lceil>x\<rceil>))" by simp
next
  fix e :: int and x :: real
  assume "2 \<le> x"
  then have "x / 2 \<le> x - 1" by simp
  then have "\<lceil>x / 2\<rceil> \<le> \<lceil>x - 1\<rceil>" by (rule ceiling_mono)
  moreover have "0 < \<lceil>x\<rceil>" using \<open>2 \<le> x\<close> by linarith
  ultimately show "((e + 1, x / 2), (e, x)) \<in> measure (\<lambda>(e, x). nat \<lceil>x\<rceil>)"
    by simp
qed

function binadeDown :: "int \<Rightarrow> real \<Rightarrow> int" where
  "binadeDown e x = (if x < 1 \<and> - 1022 < e then binadeDown (e - 1) (x * 2) else e)"
  by pat_completeness auto
termination
  by (relation "measure (\<lambda>(e, x). nat (e + 1022))") auto

definition binade :: "real \<Rightarrow> int" where
  "binade x = (if 2 \<le> \<bar>x\<bar> then binadeUp 0 \<bar>x\<bar> else binadeDown 0 \<bar>x\<bar>)"

text \<open>The spacing of the binary64 values around \<open>x\<close>, and \<open>x\<close> rounded to one of them.\<close>

definition ulp :: "real \<Rightarrow> real" where
  "ulp x = 2 powi (binade x - 52)"

definition round64 :: "real \<Rightarrow> real" where
  "round64 x = (if x = 0 then 0 else of_int (rne (x / ulp x)) * ulp x)"

text \<open>\<open>x + y\<close> and \<open>x / y\<close> of JavaScript, on finite numbers.\<close>

definition add64 :: "real \<Rightarrow> real \<Rightarrow> real" where
  "add64 x y = round64 (x + y)"

definition div64 :: "real \<Rightarrow> real \<Rightarrow> real" where
  "div64 x y = round64 (x / y)"

subsection \<open>Calibration\<close>

text \<open>Lines 381-391 (\<open>+=\<close> on the three coordinates) and 394-404 (\<open>/=\<close>).\<close>

definition addPoint :: "point3 \<Rightarrow> landmark \<Rightarrow> point3" where
  "addPoint b l =
     \<lparr>p_x = add64 (p_x b) (lm_x l), p_y = add64 (p_y b) (lm_y l), p_z = add64 (p_z b) (lm_z l)\<rparr>"

definition divPoint :: "point3 \<Rightarrow> real \<Rightarrow> point3" where
  "divPoint b n = \<lparr>p_x = div64 (p_x b) n, p_y = div64 (p_y b) n, p_z = div64 (p_z b) n\<rparr>"

definition zeroPoint :: point3 where
  "zeroPoint = \<lparr>p_x = 0, p_y = 0, p_z = 0\<rparr>"

text \<open>
  \<open>calibrateBaseline\<close> (lines 364-421). The three baselines are created together when
  the first is null (lines 375-379); were a later one null while the first is not, the
  \<open>+=\<close> on it throws and the \<open>catch\<close> of line 418 ends the method with what was added
  so far.
\<close>

definition calibrateBaseline :: "state \<Rightarrow> landmark option list \<Rightarrow> int \<Rightarrow> state \<times> event list" where
  "calibrateBaseline s landmarks t =
     (case (lmAt landmarks 11, lmAt landmarks 12, lmAt landmarks 0) of
        (Some leftShoulder, Some rightShoulder, Some nose) \<Rightarrow>
          let s1 = (if baselineLeftShoulder s = None
                    then s\<lparr>baselineLeftShoulder := Some zeroPoint,
                           baselineRightShoulder := Some zeroPoint,
                           baselineNose := Some zeroPoint\<rparr>
                    else s)
          in (case baselineLeftShoulder s1 of
                None \<Rightarrow> (s1, [])
              | Some bl \<Rightarrow>
                  let s2 = s1\<lparr>baselineLeftShoulder := Some (addPoint bl leftShoulder)\<rparr>
                  in (case baselineRightShoulder s2 of
                        None \<Rightarrow> (s2, [])
                      | Some br \<Rightarrow>
                          let s3 = s2\<lparr>baselineRightShoulder := Some (addPoint br rightShoulder)\<rparr>
                          in (case baselineNose s3 of
                                None \<Rightarrow> (s3, [])
                              | Some bn \<Rightarrow>
                                  let s4 = s3\<lparr>baselineNose := Some (addPoint bn nose)\<rparr>
                                  in if calibrationFrames s4 = maxCalibrationFrames - 1
                                     then
                                       (s4\<lparr>baselineLeftShoulder :=
                                              Some (divPoint (addPoint bl leftShoulder) (real maxCalibrationFrames)),
                                            baselineRightShoulder :=
                                              Some (divPoint (addPoint br rightShoulder) (real maxCalibrationFrames)),
                                            baselineNose :=
                                              Some (divPoint (addPoint bn nose) (real maxCalibrationFrames)),
                                            calibrationCompleteTime := t,
                                            showCalibrationComplete := True,
                                            calibrationCompletedNotified := True\<rparr>,
                                        [CalibrationComplete])
                                     else (s4, []))))
      | _ \<Rightarrow> (s, []))"

subsection \<open>The gesture step: \<open>detectHandGestures\<close> (lines 468-759)\<close>

text \<open>\<open>executeAction\<close> (lines 887-910): the calls it makes on the game.\<close>

definition executeAction :: "frame \<Rightarrow> action \<Rightarrow> event list" where
  "executeAction f a =
     (if \<not> gameRunning f then []
      else case a of
             ActLeft \<Rightarrow> [MovePiece (- 1) 0]
           | ActRight \<Rightarrow> [MovePiece 1 0]
           | ActRotate \<Rightarrow> [RotatePiece]
           | NoAction \<Rightarrow> [])"

text \<open>Lines 559-571: track the current piece, reset fast drop for a new piece.\<close>

definition trackPiece :: "state \<Rightarrow> frame \<Rightarrow> state" where
  "trackPiece s f =
     (case currentPiece f of
        None \<Rightarrow> s
      | Some pid \<Rightarrow>
          if currentPieceId s \<noteq> Some pid
          then
            let oldPieceId = currentPieceId s;
                s1 = s\<lparr>currentPieceId := Some pid\<rparr>
            in if isFastDropTriggered s1 \<and> fastDropPieceId s1 = oldPieceId
               then s1\<lparr>isFastDropTriggered := False,
                       fastDropPieceId := None,
                       fastDropStartTime := 0\<rparr>
               else s1
          else s)"

text \<open>Lines 573-614: head shake starts, arms and stops the fast drop.\<close>

definition headShakeFastDrop :: "state \<Rightarrow> frame \<Rightarrow> state" where
  "headShakeFastDrop s f =
     (if isHeadShaking s
      then
        if \<not> isFastDropTriggered s
        then
          if fastDropStartTime s = 0
          then s\<lparr>fastDropStartTime := now f\<rparr>
          else
            let elapsed = now f - fastDropStartTime s
            in if elapsed \<ge> fastDropTriggerDelay
               then (case currentPiece f of
                       None \<Rightarrow> s
                     | Some pid \<Rightarrow>
                         if pid \<noteq> 0 \<and> Some pid \<noteq> fastDropPieceId s
                         then s\<lparr>isFastDropTriggered := True,
                                fastDropPieceId := Some pid,
                                lastFastDropTime := 0\<rparr>
                         else s)
               else s
        else s
      else
        (let s1 = (if fastDropStartTime s > 0 \<or> isFastDropTriggered s
                   then s\<lparr>isFastDropTriggered := False, fastDropPieceId := None\<rparr>
                   else s)
         in s1\<lparr>fastDropStartTime := 0\<rparr>))"

text \<open>Lines 616-634: one fast-drop step.\<close>

definition executeFastDrop :: "state \<Rightarrow> frame \<Rightarrow> state \<times> event list" where
  "executeFastDrop s f =
     (if isFastDropTriggered s \<and> gameRunning f
      then
        if currentPiece f = fastDropPieceId s \<and> now f - lastFastDropTime s \<ge> fastDropInterval
        then
          if movePieceOk f
          then (s\<lparr>lastFastDropTime := now f\<rparr>, [MovePiece 0 1])
          else (s\<lparr>isFastDropTriggered := False, fastDropPieceId := None\<rparr>, [MovePiece 0 1])
        else (s, [])
      else (s, []))"

text \<open>Lines 644-666: a hand that has just been raised, the other one down.\<close>

definition singleHandMove :: "state \<Rightarrow> bool \<Rightarrow> int \<Rightarrow> action \<Rightarrow> state \<times> action" where
  "singleHandMove s shouldRotate t a =
     (if \<not> shouldRotate
      then
        if leftHandState s = Up \<and> lastLeftHandState s \<noteq> Up \<and> rightHandState s = Down
        then (s\<lparr>continuousMoveStartTime := t, isInContinuousMode := False\<rparr>, ActLeft)
        else if rightHandState s = Up \<and> lastRightHandState s \<noteq> Up \<and> leftHandState s = Down
        then (s\<lparr>continuousMoveStartTime := t, isInContinuousMode := False\<rparr>, ActRight)
        else (s, a)
      else (s, a))"

text \<open>Lines 671-686 and 689-704: one held hand \<open>h\<close>, moving in direction \<open>a\<close>.\<close>

definition heldHand :: "state \<Rightarrow> hand \<Rightarrow> action \<Rightarrow> int \<Rightarrow> action \<Rightarrow> state \<times> action" where
  "heldHand s h dir t a =
     (let holdTime = t - continuousMoveStartTime s;
          isStable = isHandStable s h
      in if holdTime \<ge> continuousMoveThreshold \<and> \<not> isInContinuousMode s \<and> isStable
         then (s\<lparr>isInContinuousMode := True, lastContinuousMoveTime := t\<rparr>, dir)
         else if isInContinuousMode s \<and> t - lastContinuousMoveTime s \<ge> continuousMoveInterval
                 \<and> isStable
         then (s\<lparr>lastContinuousMoveTime := t\<rparr>, dir)
         else if isInContinuousMode s \<and> \<not> isStable
         then (s\<lparr>isInContinuousMode := False, continuousMoveStartTime := 0\<rparr>, a)
         else (s, a))"

text \<open>Lines 668-721: continuous movement while a hand stays up.\<close>

definition continuousMove :: "state \<Rightarrow> bool \<Rightarrow> int \<Rightarrow> action \<Rightarrow> state \<times> action" where
  "continuousMove s shouldRotate t a =
     (if \<not> shouldRotate
      then
        if leftHandState s = Up \<and> lastLeftHandState s = Up \<and> rightHandState s = Down
        then heldHand s LeftHand ActLeft t a
        else if rightHandState s = Up \<and> lastRightHandState s = Up \<and> leftHandState s = Down
        then heldHand s RightHand ActRight t a
        else if leftHandState s = Down \<and> rightHandState s = Down
        then (s\<lparr>continuousMoveStartTime := 0, isInContinuousMode := False\<rparr>, a)
        else (s, a)
      else
        if isInContinuousMode s
        then (s\<lparr>isInContinuousMode := False, continuousMoveStartTime := 0\<rparr>, a)
        else (s, a))"

text \<open>Lines 728-755: execute the action and start the cooldown.\<close>

definition performAction :: "state \<Rightarrow> frame \<Rightarrow> action \<Rightarrow> state \<times> event list" where
  "performAction s f a =
     (if a \<noteq> NoAction
      then
        let isContinuousMove = isInContinuousMode s;
            shouldExecute = (a = ActRotate \<or> a \<noteq> lastAction s \<or> isContinuousMove)
        in if shouldExecute
           then
             if \<not> isContinuousMove
             then (s\<lparr>lastAction := a, lastActionTime := now f\<rparr>, executeAction f a)
             else (s, executeAction f a)
           else (s, [])
      else (s, []))"

text \<open>Lines 507-515: a wrist is visible and inside the frame margin.\<close>

definition handVisibleInFrame :: "landmark \<Rightarrow> bool" where
  "handVisibleInFrame w =
     (visibility w > bothHandsVisibilityThreshold
      \<and> lm_x w > 5 / 100 \<and> lm_x w < 95 / 100 \<and> lm_y w > 5 / 100 \<and> lm_y w < 95 / 100)"

text \<open>Lines 527-530: a wrist is raised above its shoulder.\<close>

definition isHandUp :: "landmark \<Rightarrow> landmark \<Rightarrow> bool" where
  "isHandUp shoulder wrist = (lm_y shoulder - lm_y wrist > handRaiseThreshold)"

text \<open>
  Lines 538-755, the part of the method after the debug block of lines 518-524.
\<close>

definition gestureBody ::
  "state \<Rightarrow> frame \<Rightarrow> landmark \<Rightarrow> landmark \<Rightarrow> landmark \<Rightarrow> landmark \<Rightarrow> state \<times> event list" where
  "gestureBody s f leftWrist rightWrist leftShoulder rightShoulder =
     (let areBothHandsVisible = (handVisibleInFrame leftWrist \<and> handVisibleInFrame rightWrist);
          isLeftHandUp = isHandUp leftShoulder leftWrist;
          isRightHandUp = isHandUp rightShoulder rightWrist;
          s2 = updateHandHistory s leftWrist rightWrist (now f);
          s3 = s2\<lparr>leftHandState := (if isLeftHandUp then Up else Down),
                  rightHandState := (if isRightHandUp then Up else Down)\<rparr>;
          areBothHandsUp = (isLeftHandUp \<and> isRightHandUp);
          shouldRotate = (areBothHandsVisible \<and> areBothHandsUp);
          bothHandsJustAppeared = (shouldRotate \<and> \<not> bothHandsVisible s3);
          s4 = s3\<lparr>bothHandsVisible := shouldRotate\<rparr>;
          s5 = trackPiece s4 f;
          s6 = headShakeFastDrop s5 f;
          (s7, drops) = executeFastDrop s6 f;
          a0 = (if bothHandsJustAppeared then ActRotate else NoAction);
          (s8, a1) = singleHandMove s7 shouldRotate (now f) a0;
          (s9, a2) = continuousMove s8 shouldRotate (now f) a1;
          s10 = s9\<lparr>lastBothHandsVisible := bothHandsVisible s9,
                   lastLeftHandState := leftHandState s9,
                   lastRightHandState := rightHandState s9\<rparr>;
          (s11, cmds) = performAction s10 f a2
      in (s11, drops @ cmds))"

text \<open>
  \<open>detectHandGestures\<close>. The gates of lines 469-480 and 490-495 return at once. When
  \<open>frameCounter % 30 === 0\<close> the debug block throws after the head window and the shake
  detector were updated, and nothing else of the method runs.
\<close>

definition detectHandGestures :: "state \<Rightarrow> frame \<Rightarrow> state \<times> event list" where
  "detectHandGestures s f =
     (if baselineLeftShoulder s = None \<or> baselineRightShoulder s = None \<or> baselineNose s = None
      then (s, [])
      else if now f - lastActionTime s < actionCooldown
      then (s, [])
      else
        let landmarks = poseLandmarks f in
        case (lmAt landmarks 15, lmAt landmarks 16, lmAt landmarks 11, lmAt landmarks 12,
              lmAt landmarks 0) of
          (Some leftWrist, Some rightWrist, Some leftShoulder, Some rightShoulder, Some nose) \<Rightarrow>
            let s1 = detectHeadShake (updateHeadHistory s nose (now f))
            in if frameCounter s mod 30 = 0
               then (s1, [])
               else gestureBody s1 f leftWrist rightWrist leftShoulder rightShoulder
        | _ \<Rightarrow> (s, []))"

subsection \<open>The frame handler: \<open>onResults\<close> (lines 226-362)\<close>

text \<open>Lines 343-351: notify a change of the detected status, count the frame.\<close>

definition notifyStatus :: "state \<Rightarrow> state \<times> event list" where
  "notifyStatus s =
     (let (s1, evs) =
            (if isGestureDetected s \<noteq> lastGestureDetectionStatus s
             then (s\<lparr>lastGestureDetectionStatus := isGestureDetected s\<rparr>,
                   [GestureStatusChange (isGestureDetected s)])
             else (s, []))
      in (s1\<lparr>frameCounter := frameCounter s1 + 1\<rparr>, evs))"

text \<open>The success rate of lines 317-318.\<close>

definition recentSuccessRate :: "bool list \<Rightarrow> real" where
  "recentSuccessRate h =
     (if length h > 0 then real (length (filter (\<lambda>x. x) h)) / real (length h) else 0)"

definition onResults :: "state \<Rightarrow> frame \<Rightarrow> state \<times> event list" where
  "onResults s f =
     (if poseLandmarks f \<noteq> []
      then
        let s1 = s\<lparr>poseDetectionFailureCount := 0,
                   lastSuccessfulDetection := now f,
                   isGestureDetected := True\<rparr>;
            s2 = s1\<lparr>recentDetectionHistory :=
                      pushWindow detectionHistorySize True (recentDetectionHistory s1)\<rparr>
        in if calibrationFrames s2 < maxCalibrationFrames
           then
             let (s3, evs) = calibrateBaseline s2 (poseLandmarks f) (now f)
             in (s3\<lparr>calibrationFrames := calibrationFrames s3 + 1\<rparr>, evs)
           else
             let s3 = (if showCalibrationComplete s2 \<and> now f - calibrationCompleteTime s2 \<ge> 5000
                       then s2\<lparr>showCalibrationComplete := False\<rparr>
                       else s2);
                 (s4, evs) = detectHandGestures s3 f;
                 (s5, evs') = notifyStatus s4
             in (s5, evs @ evs')
      else
        let s1 = s\<lparr>poseDetectionFailureCount := poseDetectionFailureCount s + 1\<rparr>;
            s2 = s1\<lparr>recentDetectionHistory :=
                      pushWindow detectionHistorySize False (recentDetectionHistory s1)\<rparr>;
            s3 = (if poseDetectionFailureCount s2 \<ge> maxFailureCount
                     \<and> recentSuccessRate (recentDetectionHistory s2) < 2 / 10
                  then s2\<lparr>isGestureDetected := False\<rparr>
                  else s2)
        in notifyStatus s3)"

text \<open>
  One cycle: the pending \<open>setTimeout\<close> callback of line 743 (\<open>lastAction = ''\<close>), if it
  has run since the previous frame, then \<open>onResults\<close>.
\<close>

definition clearLastAction :: "state \<Rightarrow> state" where
  "clearLastAction s = s\<lparr>lastAction := NoAction\<rparr>"

definition cycle :: "state \<Rightarrow> frame \<Rightarrow> state \<times> event list" where
  "cycle s f = onResults (if lastActionTimerFired f then clearLastAction s else s) f"

text \<open>A run of cycles: the final state and what each cycle emitted.\<close>

fun run :: "state \<Rightarrow> frame list \<Rightarrow> state \<times> event list list" where
  "run s [] = (s, [])"
| "run s (f # fs) =
     (let (s1, evs) = cycle s f;
          (s2, rest) = run s1 fs
      in (s2, evs # rest))"

subsection \<open>Notions the properties are stated with\<close>

text \<open>A call on the game, as opposed to a notification of the host.\<close>

definition isGameCommand :: "event \<Rightarrow> bool" where
  "isGameCommand e = (case e of MovePiece dx dy \<Rightarrow> True | RotatePiece \<Rightarrow> True | _ \<Rightarrow> False)"

text \<open>How many times a cycle called \<open>rotatePiece\<close>, and \<open>movePiece(0, 1)\<close>.\<close>

definition rotations :: "event list \<Rightarrow> nat" where
  "rotations evs = length (filter (\<lambda>e. e = RotatePiece) evs)"

definition dropSteps :: "event list \<Rightarrow> nat" where
  "dropSteps evs = length (filter (\<lambda>e. e = MovePiece 0 1) evs)"

text \<open>
  The Both-Hands-Up condition of a frame, \<open>shouldRotate\<close> of line 551 on a sample that has
  the five points: both wrists visible and inside the margin, both raised.
\<close>

definition bothHandsUp :: "frame \<Rightarrow> bool" where
  "bothHandsUp f =
     (case (lmAt (poseLandmarks f) 15, lmAt (poseLandmarks f) 16, lmAt (poseLandmarks f) 11,
            lmAt (poseLandmarks f) 12, lmAt (poseLandmarks f) 0) of
        (Some leftWrist, Some rightWrist, Some leftShoulder, Some rightShoulder, Some nose) \<Rightarrow>
          handVisibleInFrame leftWrist \<and> handVisibleInFrame rightWrist
          \<and> isHandUp leftShoulder leftWrist \<and> isHandUp rightShoulder rightWrist
      | _ \<Rightarrow> False)"

text \<open>
  The gesture step runs to its end: the baseline is there, the cooldown has elapsed, the
  sample has the five points, and the frame counter is not one of those at which the
  debug block throws.
\<close>

definition runsToEnd :: "state \<Rightarrow> frame \<Rightarrow> bool" where
  "runsToEnd s f =
     (baselineLeftShoulder s \<noteq> None \<and> baselineRightShoulder s \<noteq> None \<and> baselineNose s \<noteq> None
      \<and> now f - lastActionTime s \<ge> actionCooldown
      \<and> lmAt (poseLandmarks f) 15 \<noteq> None \<and> lmAt (poseLandmarks f) 16 \<noteq> None
      \<and> lmAt (poseLandmarks f) 11 \<noteq> None \<and> lmAt (poseLandmarks f) 12 \<noteq> None
      \<and> lmAt (poseLandmarks f) 0 \<noteq> None
      \<and> frameCounter s mod 30 \<noteq> 0)"

text \<open>The fields the gesture step works on.\<close>

definition gestureFields where
  "gestureFields s =
     (headHistory s, leftHandHistory s, rightHandHistory s, leftHandState s, rightHandState s,
      lastLeftHandState s, lastRightHandState s, bothHandsVisible s, lastBothHandsVisible s,
      isHeadShaking s, consecutiveShakeFrames s, fastDropStartTime s, lastFastDropTime s,
      isFastDropTriggered s, currentPieceId s, fastDropPieceId s, continuousMoveStartTime s,
      lastContinuousMoveTime s, isInContinuousMode s, lastAction s, lastActionTime s)"

text \<open>
  A calibration sample with the nose at (0.5, 0.3) and the shoulders at (0.4, 0.5) and
  (0.6, 0.5): its coordinates are the binary64 values that these decimals denote.
\<close>

definition calibSample :: "frame \<Rightarrow> bool" where
  "calibSample f =
     (case (lmAt (poseLandmarks f) 0, lmAt (poseLandmarks f) 11, lmAt (poseLandmarks f) 12) of
        (Some nose, Some leftShoulder, Some rightShoulder) \<Rightarrow>
          lm_x nose = round64 (5 / 10) \<and> lm_y nose = round64 (3 / 10)
          \<and> lm_x leftShoulder = round64 (4 / 10) \<and> lm_y leftShoulder = round64 (5 / 10)
          \<and> lm_x rightShoulder = round64 (6 / 10) \<and> lm_y rightShoulder = round64 (5 / 10)
      | _ \<Rightarrow> False)"

text \<open>A baseline read as a sum: a null baseline has accumulated nothing.\<close>

definition basePoint :: "point3 option \<Rightarrow> point3" where
  "basePoint b = (case b of None \<Rightarrow> zeroPoint | Some p \<Rightarrow> p)"

definition xy :: "point3 option \<Rightarrow> (real \<times> real) option" where
  "xy b = map_option (\<lambda>p. (p_x p, p_y p)) b"

text \<open>What \<open>k\<close> additions of \<open>v\<close> to a coordinate that starts at 0 leave in it.\<close>

primrec sum64 :: "nat \<Rightarrow> real \<Rightarrow> real" where
  "sum64 0 v = 0"
| "sum64 (Suc k) v = add64 (sum64 k v) v"

text \<open>
  After \<open>k\<close> such samples and no division: the frame counter is \<open>k\<close> and the baselines
  hold the sums of \<open>k\<close> times the sample's coordinates.
\<close>

definition accumulated :: "nat \<Rightarrow> state \<Rightarrow> bool" where
  "accumulated k s =
     (calibrationFrames s = k
      \<and> (baselineRightShoulder s = None) = (baselineLeftShoulder s = None)
      \<and> (baselineNose s = None) = (baselineLeftShoulder s = None)
      \<and> p_x (basePoint (baselineNose s)) = sum64 k (round64 (5 / 10))
      \<and> p_y (basePoint (baselineNose s)) = sum64 k (round64 (3 / 10))
      \<and> p_x (basePoint (baselineLeftShoulder s)) = sum64 k (round64 (4 / 10))
      \<and> p_y (basePoint (baselineLeftShoulder s)) = sum64 k (round64 (5 / 10))
      \<and> p_x (basePoint (baselineRightShoulder s)) = sum64 k (round64 (6 / 10))
      \<and> p_y (basePoint (baselineRightShoulder s)) = sum64 k (round64 (5 / 10)))"

text \<open>
  Lines 498-499, the head part of a gesture step, and the value of \<open>isHeadShaking\<close> after
  each sample of a sequence of nose positions and timestamps.
\<close>

definition headStep :: "state \<Rightarrow> landmark \<Rightarrow> int \<Rightarrow> state" where
  "headStep s nose t = detectHeadShake (updateHeadHistory s nose t)"

fun shakeTrace :: "state \<Rightarrow> (landmark \<times> int) list \<Rightarrow> bool list" where
  "shakeTrace s [] = []"
| "shakeTrace s ((nose, t) # rest) =
     (let s1 = headStep s nose t in isHeadShaking s1 # shakeTrace s1 rest)"

definition alternating :: "real \<Rightarrow> real \<Rightarrow> nat \<Rightarrow> real list" where
  "alternating a b n = map (\<lambda>i. if even i then a else b) [0..<n]"

text \<open>
  The shake detector read on the x-coordinates of the window alone (the window of
  x-coordinates and the counter); \<open>shakeTrace_xTrace\<close> below shows it is what
  \<open>shakeTrace\<close> computes.
\<close>

definition shakeCount :: "real list \<Rightarrow> nat \<Rightarrow> nat" where
  "shakeCount w c =
     (if length w < headHistorySize then 0
      else if maxOf w - minOf w > 8 / 100 \<and> calculateVariance w > 1 / 1000 then c + 1 else 0)"

fun xTrace :: "real list \<Rightarrow> nat \<Rightarrow> real list \<Rightarrow> bool list" where
  "xTrace w c [] = []"
| "xTrace w c (x # xs) =
     (shakeCount (pushWindow headHistorySize x w) c \<ge> requiredShakeFrames)
       # xTrace (pushWindow headHistorySize x w) (shakeCount (pushWindow headHistorySize x w) c) xs"

text \<open>
  Hand \<open>h\<close> is held up: its wrist is raised in this sample and was on the last gesture
  step that ran to its end, the other wrist is not raised, and the stability check of
  lines 807-832 passes on the window with this sample in it.
\<close>

definition held :: "hand \<Rightarrow> state \<Rightarrow> frame \<Rightarrow> bool" where
  "held h s f =
     (case (lmAt (poseLandmarks f) 15, lmAt (poseLandmarks f) 16, lmAt (poseLandmarks f) 11,
            lmAt (poseLandmarks f) 12) of
        (Some leftWrist, Some rightWrist, Some leftShoulder, Some rightShoulder) \<Rightarrow>
          (if h = LeftHand
           then isHandUp leftShoulder leftWrist \<and> \<not> isHandUp rightShoulder rightWrist
                \<and> lastLeftHandState s = Up
           else isHandUp rightShoulder rightWrist \<and> \<not> isHandUp leftShoulder leftWrist
                \<and> lastRightHandState s = Up)
          \<and> isHandStable (updateHandHistory s leftWrist rightWrist (now f)) h
      | _ \<Rightarrow> False)"

definition moveOf :: "hand \<Rightarrow> event" where
  "moveOf h = (if h = LeftHand then MovePiece (- 1) 0 else MovePiece 1 0)"

text \<open>
  The fast drop is armed and bound to piece \<open>p\<close>, the piece the engine last saw as the
  game's current one.
\<close>

definition armedFor :: "nat \<Rightarrow> state \<Rightarrow> bool" where
  "armedFor p s =
     (isFastDropTriggered s \<and> fastDropPieceId s = Some p \<and> currentPieceId s = Some p)"

text \<open>
  Whenever the fast drop is armed, it is bound to the piece the engine tracks as the
  current one (an invariant of the engine, \<open>binding_tracked_run\<close> below).
\<close>

definition bindingTracked :: "state \<Rightarrow> bool" where
  "bindingTracked s =
     (isFastDropTriggered s \<longrightarrow>
        (\<exists>p. fastDropPieceId s = Some p \<and> currentPieceId s = Some p))"

text \<open>
  What a cycle shows of the fast drop: its time; whether its gesture step ran to its
  end, so that the fast-drop code of lines 573-634 ran and read the shake status; the
  shake status \<open>isHeadShaking\<close> after it (the gesture step sets it at line 499, before
  that code reads it); and the number of fast-drop steps it made.
\<close>

record observation =
  o_time :: int
  o_ran :: bool
  o_shaking :: bool
  o_drops :: nat

text \<open>
  Since when the confirmed shake has been seen without a break: \<open>q\<close> before a cycle,
  \<open>shakeSince q ob\<close> after the cycle observed as \<open>ob\<close>. A cycle whose gesture step ran to
  its end and saw the shake confirmed starts the count at its time if there was none;
  one that saw it unconfirmed ends the count; any other cycle saw nothing.
\<close>

definition shakeSince :: "int option \<Rightarrow> observation \<Rightarrow> int option" where
  "shakeSince q ob =
     (if o_ran ob
      then if o_shaking ob then (case q of None \<Rightarrow> Some (o_time ob) | Some t \<Rightarrow> Some t) else None
      else q)"

fun ghosts :: "int option \<Rightarrow> observation list \<Rightarrow> int option list" where
  "ghosts q [] = []"
| "ghosts q (ob # obs) = shakeSince q ob # ghosts (shakeSince q ob) obs"



text \<open>
  The state \<open>onResults\<close> hands to \<open>detectHandGestures\<close> on a frame with a pose, once
  calibration is over (lines 251-283, after the timer callback).
\<close>

definition beforeGestures :: "state \<Rightarrow> frame \<Rightarrow> state" where
  "beforeGestures s f =
     (let s0 = (if lastActionTimerFired f then clearLastAction s else s);
          s2 = s0\<lparr>poseDetectionFailureCount := 0, lastSuccessfulDetection := now f,
                   isGestureDetected := True,
                   recentDetectionHistory :=
                     pushWindow detectionHistorySize True (recentDetectionHistory s0)\<rparr>
      in if showCalibrationComplete s2 \<and> now f - calibrationCompleteTime s2 \<ge> 5000
         then s2\<lparr>showCalibrationComplete := False\<rparr> else s2)"


text \<open>What each cycle of a run shows of the fast drop.\<close>

definition observe :: "state \<Rightarrow> frame \<Rightarrow> observation" where
  "observe s f =
     \<lparr>o_time = now f,
      o_ran = (maxCalibrationFrames \<le> calibrationFrames s \<and> runsToEnd s f),
      o_shaking = isHeadShaking (fst (cycle s f)),
      o_drops = dropSteps (snd (cycle s f))\<rparr>"

fun watch :: "state \<Rightarrow> frame list \<Rightarrow> observation list" where
  "watch s [] = []"
| "watch s (f # fs) = observe s f # watch (fst (cycle s f)) fs"

subsection \<open>Concrete samples, frames and states\<close>

text \<open>
  A sample array with the five points the code reads (indices 0, 11, 12, 15, 16) and
  nothing else.
\<close>

definition pose :: "landmark option \<Rightarrow> landmark option \<Rightarrow> landmark option \<Rightarrow> landmark option
    \<Rightarrow> landmark option \<Rightarrow> landmark option list" where
  "pose nose leftShoulder rightShoulder leftWrist rightWrist =
     [nose, None, None, None, None, None, None, None, None, None, None,
      leftShoulder, rightShoulder, None, None, leftWrist, rightWrist]"

definition mkLandmark :: "real \<Rightarrow> real \<Rightarrow> real \<Rightarrow> landmark" where
  "mkLandmark x y v = \<lparr>lm_x = x, lm_y = y, lm_z = 0, visibility = v\<rparr>"

text \<open>
  A full sample at time \<open>t\<close>: nose at (0.5, 0.3), shoulders at (0.4, 0.5) and (0.6, 0.5),
  the wrists at x = 0.3 and x = 0.7 with heights \<open>ly\<close> and \<open>ry\<close> and visibility 0.9;
  the game runs, its piece is number 1 and can move down; the timer of the last action
  has fired.
\<close>

definition poseFrame :: "real \<Rightarrow> real \<Rightarrow> int \<Rightarrow> frame" where
  "poseFrame ly ry t =
     \<lparr>poseLandmarks =
        pose (Some (mkLandmark (5 / 10) (3 / 10) 1))
             (Some (mkLandmark (4 / 10) (5 / 10) 1))
             (Some (mkLandmark (6 / 10) (5 / 10) 1))
             (Some (mkLandmark (3 / 10) ly (9 / 10)))
             (Some (mkLandmark (7 / 10) ry (9 / 10))),
      now = t, gameRunning = True, currentPiece = Some 1, movePieceOk = True,
      lastActionTimerFired = True\<rparr>"

text \<open>A frame without a pose.\<close>

definition noPoseFrame :: "int \<Rightarrow> frame" where
  "noPoseFrame t =
     \<lparr>poseLandmarks = [], now = t, gameRunning = True, currentPiece = Some 1,
      movePieceOk = True, lastActionTimerFired = True\<rparr>"

text \<open>
  A calibration sample at time \<open>t\<close>: the nose and the shoulders at the binary64 values
  of (0.5, 0.3), (0.4, 0.5) and (0.6, 0.5), both wrists down at height 0.8.
\<close>

definition calibFrame :: "int \<Rightarrow> frame" where
  "calibFrame t =
     \<lparr>poseLandmarks =
        pose (Some (mkLandmark (round64 (5 / 10)) (round64 (3 / 10)) 1))
             (Some (mkLandmark (round64 (4 / 10)) (round64 (5 / 10)) 1))
             (Some (mkLandmark (round64 (6 / 10)) (round64 (5 / 10)) 1))
             (Some (mkLandmark (3 / 10) (8 / 10) (9 / 10)))
             (Some (mkLandmark (7 / 10) (8 / 10) (9 / 10))),
      now = t, gameRunning = True, currentPiece = Some 1, movePieceOk = True,
      lastActionTimerFired = False\<rparr>"

text \<open>
  The state calibration ends in: a reset, then 30 such samples, 33 ms apart from time
  1000 on.
\<close>

definition calibrationRun :: "frame list" where
  "calibrationRun = map (\<lambda>i. calibFrame (1000 + 33 * int i)) [0..<30]"

definition afterCalibration :: state where
  "afterCalibration = fst (run (resetCalibration (constructed 0) 0) calibrationRun)"

text \<open>
  A state after a calibration, one counted frame later (so that the next gesture step
  is not one the debug block ends). The gesture step reads of the baselines only that
  they are there; their values here are the decimals of the samples.
\<close>

definition calibrated :: state where
  "calibrated = (constructed 0)
     \<lparr>baselineLeftShoulder := Some \<lparr>p_x = 4 / 10, p_y = 5 / 10, p_z = 0\<rparr>,
      baselineRightShoulder := Some \<lparr>p_x = 6 / 10, p_y = 5 / 10, p_z = 0\<rparr>,
      baselineNose := Some \<lparr>p_x = 5 / 10, p_y = 3 / 10, p_z = 0\<rparr>,
      calibrationFrames := 30,
      calibrationCompletedNotified := True,
      isGestureDetected := True,
      lastGestureDetectionStatus := True,
      frameCounter := 1\<rparr>"

text \<open>
  A window of a hand held at x = 0.3 whose heights are \<open>ys\<close>, sampled every 33 ms
  before time \<open>t\<close>.
\<close>

definition handWindow :: "real list \<Rightarrow> sample list" where
  "handWindow ys = map (\<lambda>y. \<lparr>s_x = 3 / 10, s_y = y, s_timestamp = 0\<rparr>) ys"

text \<open>
  In continuous mode since the left hand was raised at time 10000 and held; the last
  tick was at 10900. The last four heights of the left wrist were 0.04, 0.2, 0.2, 0.2.
\<close>

definition continuousLeft :: state where
  "continuousLeft = calibrated
     \<lparr>leftHandState := Up, lastLeftHandState := Up,
      leftHandHistory := handWindow [2 / 10, 2 / 10, 2 / 10, 2 / 10, 2 / 10, 2 / 10,
                                     4 / 100, 2 / 10, 2 / 10, 2 / 10],
      rightHandHistory := handWindow [8 / 10, 8 / 10, 8 / 10, 8 / 10, 8 / 10, 8 / 10,
                                      8 / 10, 8 / 10, 8 / 10, 8 / 10],
      continuousMoveStartTime := 10000,
      lastContinuousMoveTime := 10900,
      isInContinuousMode := True,
      lastActionTime := 10000\<rparr>"

text \<open>
  The next two frames of that hand: the wrist jerks down to height 0.36 (still raised),
  then is back at 0.2 one frame (33 ms) later.
\<close>

definition jerkFrame :: frame where
  "jerkFrame = poseFrame (36 / 100) (8 / 10) 11000"

definition steadyFrame :: frame where
  "steadyFrame = poseFrame (2 / 10) (8 / 10) 11033"

text \<open>
  Two windows of 20 head positions that alternate between x = 0.4 and x = 0.5: the
  first ends at 0.5, the second at 0.4.
\<close>

definition shakeWindowA :: "real list" where
  "shakeWindowA = alternating (4 / 10) (5 / 10) 20"

definition shakeWindowB :: "real list" where
  "shakeWindowB = alternating (5 / 10) (4 / 10) 20"

text \<open>
  The fast drop armed on piece 7 since a head shake that started at time 9000, its last
  step at 9950, the head still shaking (the window is the first of the two above). And
  a frame at time \<open>t\<close>, both hands down, the nose at \<open>x\<close>, on which the game's current
  piece is number 8.
\<close>

definition shakingOnPiece7 :: state where
  "shakingOnPiece7 = calibrated
     \<lparr>headHistory := map (\<lambda>x. \<lparr>s_x = x, s_y = 3 / 10, s_timestamp = 9900\<rparr>) shakeWindowA,
      isHeadShaking := True, consecutiveShakeFrames := 12,
      isFastDropTriggered := True, fastDropPieceId := Some 7, currentPieceId := Some 7,
      fastDropStartTime := 9000, lastFastDropTime := 9950\<rparr>"

definition shake8Frame :: "real \<Rightarrow> int \<Rightarrow> frame" where
  "shake8Frame x t =
     \<lparr>poseLandmarks =
        pose (Some (mkLandmark x (3 / 10) 1))
             (Some (mkLandmark (4 / 10) (5 / 10) 1))
             (Some (mkLandmark (6 / 10) (5 / 10) 1))
             (Some (mkLandmark (3 / 10) (8 / 10) (9 / 10)))
             (Some (mkLandmark (7 / 10) (8 / 10) (9 / 10))),
      now = t, gameRunning = True, currentPiece = Some 8, movePieceOk = True,
      lastActionTimerFired = True\<rparr>"





text \<open>A sample without the nose (\<open>landmarks[0]\<close> is missing), both shoulders present.\<close>

definition noNoseFrame :: "int \<Rightarrow> frame" where
  "noNoseFrame t =
     \<lparr>poseLandmarks =
        pose None (Some (mkLandmark (4 / 10) (5 / 10) 1)) (Some (mkLandmark (6 / 10) (5 / 10) 1))
             None None,
      now = t, gameRunning = False, currentPiece = None, movePieceOk = False,
      lastActionTimerFired = False\<rparr>"

subsection \<open>Frame lemmas: the fields each part of the code leaves alone\<close>

lemma updateHeadHistory_frame [simp]:
  "isGestureDetected (updateHeadHistory s nose t) = isGestureDetected s"
  "lastGestureDetectionStatus (updateHeadHistory s nose t) = lastGestureDetectionStatus s"
  "calibrationCompletedNotified (updateHeadHistory s nose t) = calibrationCompletedNotified s"
  "lastAction (updateHeadHistory s nose t) = lastAction s"
  "lastActionTime (updateHeadHistory s nose t) = lastActionTime s"
  "leftHandState (updateHeadHistory s nose t) = leftHandState s"
  "rightHandState (updateHeadHistory s nose t) = rightHandState s"
  "lastLeftHandState (updateHeadHistory s nose t) = lastLeftHandState s"
  "lastRightHandState (updateHeadHistory s nose t) = lastRightHandState s"
  "bothHandsVisible (updateHeadHistory s nose t) = bothHandsVisible s"
  "lastBothHandsVisible (updateHeadHistory s nose t) = lastBothHandsVisible s"
  "leftHandHistory (updateHeadHistory s nose t) = leftHandHistory s"
  "rightHandHistory (updateHeadHistory s nose t) = rightHandHistory s"
  "baselineLeftShoulder (updateHeadHistory s nose t) = baselineLeftShoulder s"
  "baselineRightShoulder (updateHeadHistory s nose t) = baselineRightShoulder s"
  "baselineNose (updateHeadHistory s nose t) = baselineNose s"
  "calibrationFrames (updateHeadHistory s nose t) = calibrationFrames s"
  "isHeadShaking (updateHeadHistory s nose t) = isHeadShaking s"
  "consecutiveShakeFrames (updateHeadHistory s nose t) = consecutiveShakeFrames s"
  "fastDropStartTime (updateHeadHistory s nose t) = fastDropStartTime s"
  "lastFastDropTime (updateHeadHistory s nose t) = lastFastDropTime s"
  "isFastDropTriggered (updateHeadHistory s nose t) = isFastDropTriggered s"
  "currentPieceId (updateHeadHistory s nose t) = currentPieceId s"
  "fastDropPieceId (updateHeadHistory s nose t) = fastDropPieceId s"
  "continuousMoveStartTime (updateHeadHistory s nose t) = continuousMoveStartTime s"
  "lastContinuousMoveTime (updateHeadHistory s nose t) = lastContinuousMoveTime s"
  "isInContinuousMode (updateHeadHistory s nose t) = isInContinuousMode s"
  "poseDetectionFailureCount (updateHeadHistory s nose t) = poseDetectionFailureCount s"
  "lastSuccessfulDetection (updateHeadHistory s nose t) = lastSuccessfulDetection s"
  "recentDetectionHistory (updateHeadHistory s nose t) = recentDetectionHistory s"
  "calibrationCompleteTime (updateHeadHistory s nose t) = calibrationCompleteTime s"
  "showCalibrationComplete (updateHeadHistory s nose t) = showCalibrationComplete s"
  "frameCounter (updateHeadHistory s nose t) = frameCounter s"
  by (simp_all add: updateHeadHistory_def)

lemma detectHeadShake_frame [simp]:
  "isGestureDetected (detectHeadShake s) = isGestureDetected s"
  "lastGestureDetectionStatus (detectHeadShake s) = lastGestureDetectionStatus s"
  "calibrationCompletedNotified (detectHeadShake s) = calibrationCompletedNotified s"
  "lastAction (detectHeadShake s) = lastAction s"
  "lastActionTime (detectHeadShake s) = lastActionTime s"
  "leftHandState (detectHeadShake s) = leftHandState s"
  "rightHandState (detectHeadShake s) = rightHandState s"
  "lastLeftHandState (detectHeadShake s) = lastLeftHandState s"
  "lastRightHandState (detectHeadShake s) = lastRightHandState s"
  "bothHandsVisible (detectHeadShake s) = bothHandsVisible s"
  "lastBothHandsVisible (detectHeadShake s) = lastBothHandsVisible s"
  "leftHandHistory (detectHeadShake s) = leftHandHistory s"
  "rightHandHistory (detectHeadShake s) = rightHandHistory s"
  "baselineLeftShoulder (detectHeadShake s) = baselineLeftShoulder s"
  "baselineRightShoulder (detectHeadShake s) = baselineRightShoulder s"
  "baselineNose (detectHeadShake s) = baselineNose s"
  "calibrationFrames (detectHeadShake s) = calibrationFrames s"
  "headHistory (detectHeadShake s) = headHistory s"
  "fastDropStartTime (detectHeadShake s) = fastDropStartTime s"
  "lastFastDropTime (detectHeadShake s) = lastFastDropTime s"
  "isFastDropTriggered (detectHeadShake s) = isFastDropTriggered s"
  "currentPieceId (detectHeadShake s) = currentPieceId s"
  "fastDropPieceId (detectHeadShake s) = fastDropPieceId s"
  "continuousMoveStartTime (detectHeadShake s) = continuousMoveStartTime s"
  "lastContinuousMoveTime (detectHeadShake s) = lastContinuousMoveTime s"
  "isInContinuousMode (detectHeadShake s) = isInContinuousMode s"
  "poseDetectionFailureCount (detectHeadShake s) = poseDetectionFailureCount s"
  "lastSuccessfulDetection (detectHeadShake s) = lastSuccessfulDetection s"
  "recentDetectionHistory (detectHeadShake s) = recentDetectionHistory s"
  "calibrationCompleteTime (detectHeadShake s) = calibrationCompleteTime s"
  "showCalibrationComplete (detectHeadShake s) = showCalibrationComplete s"
  "frameCounter (detectHeadShake s) = frameCounter s"
  by (simp_all add: detectHeadShake_def Let_def)

lemma updateHandHistory_frame [simp]:
  "isGestureDetected (updateHandHistory s lw rw t) = isGestureDetected s"
  "lastGestureDetectionStatus (updateHandHistory s lw rw t) = lastGestureDetectionStatus s"
  "calibrationCompletedNotified (updateHandHistory s lw rw t) = calibrationCompletedNotified s"
  "lastAction (updateHandHistory s lw rw t) = lastAction s"
  "lastActionTime (updateHandHistory s lw rw t) = lastActionTime s"
  "leftHandState (updateHandHistory s lw rw t) = leftHandState s"
  "rightHandState (updateHandHistory s lw rw t) = rightHandState s"
  "lastLeftHandState (updateHandHistory s lw rw t) = lastLeftHandState s"
  "lastRightHandState (updateHandHistory s lw rw t) = lastRightHandState s"
  "bothHandsVisible (updateHandHistory s lw rw t) = bothHandsVisible s"
  "lastBothHandsVisible (updateHandHistory s lw rw t) = lastBothHandsVisible s"
  "baselineLeftShoulder (updateHandHistory s lw rw t) = baselineLeftShoulder s"
  "baselineRightShoulder (updateHandHistory s lw rw t) = baselineRightShoulder s"
  "baselineNose (updateHandHistory s lw rw t) = baselineNose s"
  "calibrationFrames (updateHandHistory s lw rw t) = calibrationFrames s"
  "headHistory (updateHandHistory s lw rw t) = headHistory s"
  "isHeadShaking (updateHandHistory s lw rw t) = isHeadShaking s"
  "consecutiveShakeFrames (updateHandHistory s lw rw t) = consecutiveShakeFrames s"
  "fastDropStartTime (updateHandHistory s lw rw t) = fastDropStartTime s"
  "lastFastDropTime (updateHandHistory s lw rw t) = lastFastDropTime s"
  "isFastDropTriggered (updateHandHistory s lw rw t) = isFastDropTriggered s"
  "currentPieceId (updateHandHistory s lw rw t) = currentPieceId s"
  "fastDropPieceId (updateHandHistory s lw rw t) = fastDropPieceId s"
  "continuousMoveStartTime (updateHandHistory s lw rw t) = continuousMoveStartTime s"
  "lastContinuousMoveTime (updateHandHistory s lw rw t) = lastContinuousMoveTime s"
  "isInContinuousMode (updateHandHistory s lw rw t) = isInContinuousMode s"
  "poseDetectionFailureCount (updateHandHistory s lw rw t) = poseDetectionFailureCount s"
  "lastSuccessfulDetection (updateHandHistory s lw rw t) = lastSuccessfulDetection s"
  "recentDetectionHistory (updateHandHistory s lw rw t) = recentDetectionHistory s"
  "calibrationCompleteTime (updateHandHistory s lw rw t) = calibrationCompleteTime s"
  "showCalibrationComplete (updateHandHistory s lw rw t) = showCalibrationComplete s"
  "frameCounter (updateHandHistory s lw rw t) = frameCounter s"
  by (simp_all add: updateHandHistory_def)

lemma trackPiece_frame [simp]:
  "isGestureDetected (trackPiece s f) = isGestureDetected s"
  "lastGestureDetectionStatus (trackPiece s f) = lastGestureDetectionStatus s"
  "calibrationCompletedNotified (trackPiece s f) = calibrationCompletedNotified s"
  "lastAction (trackPiece s f) = lastAction s"
  "lastActionTime (trackPiece s f) = lastActionTime s"
  "leftHandState (trackPiece s f) = leftHandState s"
  "rightHandState (trackPiece s f) = rightHandState s"
  "lastLeftHandState (trackPiece s f) = lastLeftHandState s"
  "lastRightHandState (trackPiece s f) = lastRightHandState s"
  "bothHandsVisible (trackPiece s f) = bothHandsVisible s"
  "lastBothHandsVisible (trackPiece s f) = lastBothHandsVisible s"
  "leftHandHistory (trackPiece s f) = leftHandHistory s"
  "rightHandHistory (trackPiece s f) = rightHandHistory s"
  "baselineLeftShoulder (trackPiece s f) = baselineLeftShoulder s"
  "baselineRightShoulder (trackPiece s f) = baselineRightShoulder s"
  "baselineNose (trackPiece s f) = baselineNose s"
  "calibrationFrames (trackPiece s f) = calibrationFrames s"
  "headHistory (trackPiece s f) = headHistory s"
  "isHeadShaking (trackPiece s f) = isHeadShaking s"
  "consecutiveShakeFrames (trackPiece s f) = consecutiveShakeFrames s"
  "lastFastDropTime (trackPiece s f) = lastFastDropTime s"
  "continuousMoveStartTime (trackPiece s f) = continuousMoveStartTime s"
  "lastContinuousMoveTime (trackPiece s f) = lastContinuousMoveTime s"
  "isInContinuousMode (trackPiece s f) = isInContinuousMode s"
  "poseDetectionFailureCount (trackPiece s f) = poseDetectionFailureCount s"
  "lastSuccessfulDetection (trackPiece s f) = lastSuccessfulDetection s"
  "recentDetectionHistory (trackPiece s f) = recentDetectionHistory s"
  "calibrationCompleteTime (trackPiece s f) = calibrationCompleteTime s"
  "showCalibrationComplete (trackPiece s f) = showCalibrationComplete s"
  "frameCounter (trackPiece s f) = frameCounter s"
  by (simp_all add: trackPiece_def Let_def split: option.splits)

lemma headShakeFastDrop_frame [simp]:
  "isGestureDetected (headShakeFastDrop s f) = isGestureDetected s"
  "lastGestureDetectionStatus (headShakeFastDrop s f) = lastGestureDetectionStatus s"
  "calibrationCompletedNotified (headShakeFastDrop s f) = calibrationCompletedNotified s"
  "lastAction (headShakeFastDrop s f) = lastAction s"
  "lastActionTime (headShakeFastDrop s f) = lastActionTime s"
  "leftHandState (headShakeFastDrop s f) = leftHandState s"
  "rightHandState (headShakeFastDrop s f) = rightHandState s"
  "lastLeftHandState (headShakeFastDrop s f) = lastLeftHandState s"
  "lastRightHandState (headShakeFastDrop s f) = lastRightHandState s"
  "bothHandsVisible (headShakeFastDrop s f) = bothHandsVisible s"
  "lastBothHandsVisible (headShakeFastDrop s f) = lastBothHandsVisible s"
  "leftHandHistory (headShakeFastDrop s f) = leftHandHistory s"
  "rightHandHistory (headShakeFastDrop s f) = rightHandHistory s"
  "baselineLeftShoulder (headShakeFastDrop s f) = baselineLeftShoulder s"
  "baselineRightShoulder (headShakeFastDrop s f) = baselineRightShoulder s"
  "baselineNose (headShakeFastDrop s f) = baselineNose s"
  "calibrationFrames (headShakeFastDrop s f) = calibrationFrames s"
  "headHistory (headShakeFastDrop s f) = headHistory s"
  "isHeadShaking (headShakeFastDrop s f) = isHeadShaking s"
  "consecutiveShakeFrames (headShakeFastDrop s f) = consecutiveShakeFrames s"
  "currentPieceId (headShakeFastDrop s f) = currentPieceId s"
  "continuousMoveStartTime (headShakeFastDrop s f) = continuousMoveStartTime s"
  "lastContinuousMoveTime (headShakeFastDrop s f) = lastContinuousMoveTime s"
  "isInContinuousMode (headShakeFastDrop s f) = isInContinuousMode s"
  "poseDetectionFailureCount (headShakeFastDrop s f) = poseDetectionFailureCount s"
  "lastSuccessfulDetection (headShakeFastDrop s f) = lastSuccessfulDetection s"
  "recentDetectionHistory (headShakeFastDrop s f) = recentDetectionHistory s"
  "calibrationCompleteTime (headShakeFastDrop s f) = calibrationCompleteTime s"
  "showCalibrationComplete (headShakeFastDrop s f) = showCalibrationComplete s"
  "frameCounter (headShakeFastDrop s f) = frameCounter s"
  by (simp_all add: headShakeFastDrop_def Let_def split: option.splits)

lemma executeFastDrop_frame [simp]:
  "isGestureDetected (fst (executeFastDrop s f)) = isGestureDetected s"
  "lastGestureDetectionStatus (fst (executeFastDrop s f)) = lastGestureDetectionStatus s"
  "calibrationCompletedNotified (fst (executeFastDrop s f)) = calibrationCompletedNotified s"
  "lastAction (fst (executeFastDrop s f)) = lastAction s"
  "lastActionTime (fst (executeFastDrop s f)) = lastActionTime s"
  "leftHandState (fst (executeFastDrop s f)) = leftHandState s"
  "rightHandState (fst (executeFastDrop s f)) = rightHandState s"
  "lastLeftHandState (fst (executeFastDrop s f)) = lastLeftHandState s"
  "lastRightHandState (fst (executeFastDrop s f)) = lastRightHandState s"
  "bothHandsVisible (fst (executeFastDrop s f)) = bothHandsVisible s"
  "lastBothHandsVisible (fst (executeFastDrop s f)) = lastBothHandsVisible s"
  "leftHandHistory (fst (executeFastDrop s f)) = leftHandHistory s"
  "rightHandHistory (fst (executeFastDrop s f)) = rightHandHistory s"
  "baselineLeftShoulder (fst (executeFastDrop s f)) = baselineLeftShoulder s"
  "baselineRightShoulder (fst (executeFastDrop s f)) = baselineRightShoulder s"
  "baselineNose (fst (executeFastDrop s f)) = baselineNose s"
  "calibrationFrames (fst (executeFastDrop s f)) = calibrationFrames s"
  "headHistory (fst (executeFastDrop s f)) = headHistory s"
  "isHeadShaking (fst (executeFastDrop s f)) = isHeadShaking s"
  "consecutiveShakeFrames (fst (executeFastDrop s f)) = consecutiveShakeFrames s"
  "fastDropStartTime (fst (executeFastDrop s f)) = fastDropStartTime s"
  "currentPieceId (fst (executeFastDrop s f)) = currentPieceId s"
  "continuousMoveStartTime (fst (executeFastDrop s f)) = continuousMoveStartTime s"
  "lastContinuousMoveTime (fst (executeFastDrop s f)) = lastContinuousMoveTime s"
  "isInContinuousMode (fst (executeFastDrop s f)) = isInContinuousMode s"
  "poseDetectionFailureCount (fst (executeFastDrop s f)) = poseDetectionFailureCount s"
  "lastSuccessfulDetection (fst (executeFastDrop s f)) = lastSuccessfulDetection s"
  "recentDetectionHistory (fst (executeFastDrop s f)) = recentDetectionHistory s"
  "calibrationCompleteTime (fst (executeFastDrop s f)) = calibrationCompleteTime s"
  "showCalibrationComplete (fst (executeFastDrop s f)) = showCalibrationComplete s"
  "frameCounter (fst (executeFastDrop s f)) = frameCounter s"
  by (simp_all add: executeFastDrop_def)

lemma singleHandMove_frame [simp]:
  "isGestureDetected (fst (singleHandMove s r t a)) = isGestureDetected s"
  "lastGestureDetectionStatus (fst (singleHandMove s r t a)) = lastGestureDetectionStatus s"
  "calibrationCompletedNotified (fst (singleHandMove s r t a)) = calibrationCompletedNotified s"
  "lastAction (fst (singleHandMove s r t a)) = lastAction s"
  "lastActionTime (fst (singleHandMove s r t a)) = lastActionTime s"
  "leftHandState (fst (singleHandMove s r t a)) = leftHandState s"
  "rightHandState (fst (singleHandMove s r t a)) = rightHandState s"
  "lastLeftHandState (fst (singleHandMove s r t a)) = lastLeftHandState s"
  "lastRightHandState (fst (singleHandMove s r t a)) = lastRightHandState s"
  "bothHandsVisible (fst (singleHandMove s r t a)) = bothHandsVisible s"
  "lastBothHandsVisible (fst (singleHandMove s r t a)) = lastBothHandsVisible s"
  "leftHandHistory (fst (singleHandMove s r t a)) = leftHandHistory s"
  "rightHandHistory (fst (singleHandMove s r t a)) = rightHandHistory s"
  "baselineLeftShoulder (fst (singleHandMove s r t a)) = baselineLeftShoulder s"
  "baselineRightShoulder (fst (singleHandMove s r t a)) = baselineRightShoulder s"
  "baselineNose (fst (singleHandMove s r t a)) = baselineNose s"
  "calibrationFrames (fst (singleHandMove s r t a)) = calibrationFrames s"
  "headHistory (fst (singleHandMove s r t a)) = headHistory s"
  "isHeadShaking (fst (singleHandMove s r t a)) = isHeadShaking s"
  "consecutiveShakeFrames (fst (singleHandMove s r t a)) = consecutiveShakeFrames s"
  "fastDropStartTime (fst (singleHandMove s r t a)) = fastDropStartTime s"
  "lastFastDropTime (fst (singleHandMove s r t a)) = lastFastDropTime s"
  "isFastDropTriggered (fst (singleHandMove s r t a)) = isFastDropTriggered s"
  "currentPieceId (fst (singleHandMove s r t a)) = currentPieceId s"
  "fastDropPieceId (fst (singleHandMove s r t a)) = fastDropPieceId s"
  "lastContinuousMoveTime (fst (singleHandMove s r t a)) = lastContinuousMoveTime s"
  "poseDetectionFailureCount (fst (singleHandMove s r t a)) = poseDetectionFailureCount s"
  "lastSuccessfulDetection (fst (singleHandMove s r t a)) = lastSuccessfulDetection s"
  "recentDetectionHistory (fst (singleHandMove s r t a)) = recentDetectionHistory s"
  "calibrationCompleteTime (fst (singleHandMove s r t a)) = calibrationCompleteTime s"
  "showCalibrationComplete (fst (singleHandMove s r t a)) = showCalibrationComplete s"
  "frameCounter (fst (singleHandMove s r t a)) = frameCounter s"
  by (simp_all add: singleHandMove_def)

lemma heldHand_frame [simp]:
  "isGestureDetected (fst (heldHand s h d t a)) = isGestureDetected s"
  "lastGestureDetectionStatus (fst (heldHand s h d t a)) = lastGestureDetectionStatus s"
  "calibrationCompletedNotified (fst (heldHand s h d t a)) = calibrationCompletedNotified s"
  "lastAction (fst (heldHand s h d t a)) = lastAction s"
  "lastActionTime (fst (heldHand s h d t a)) = lastActionTime s"
  "leftHandState (fst (heldHand s h d t a)) = leftHandState s"
  "rightHandState (fst (heldHand s h d t a)) = rightHandState s"
  "lastLeftHandState (fst (heldHand s h d t a)) = lastLeftHandState s"
  "lastRightHandState (fst (heldHand s h d t a)) = lastRightHandState s"
  "bothHandsVisible (fst (heldHand s h d t a)) = bothHandsVisible s"
  "lastBothHandsVisible (fst (heldHand s h d t a)) = lastBothHandsVisible s"
  "leftHandHistory (fst (heldHand s h d t a)) = leftHandHistory s"
  "rightHandHistory (fst (heldHand s h d t a)) = rightHandHistory s"
  "baselineLeftShoulder (fst (heldHand s h d t a)) = baselineLeftShoulder s"
  "baselineRightShoulder (fst (heldHand s h d t a)) = baselineRightShoulder s"
  "baselineNose (fst (heldHand s h d t a)) = baselineNose s"
  "calibrationFrames (fst (heldHand s h d t a)) = calibrationFrames s"
  "headHistory (fst (heldHand s h d t a)) = headHistory s"
  "isHeadShaking (fst (heldHand s h d t a)) = isHeadShaking s"
  "consecutiveShakeFrames (fst (heldHand s h d t a)) = consecutiveShakeFrames s"
  "fastDropStartTime (fst (heldHand s h d t a)) = fastDropStartTime s"
  "lastFastDropTime (fst (heldHand s h d t a)) = lastFastDropTime s"
  "isFastDropTriggered (fst (heldHand s h d t a)) = isFastDropTriggered s"
  "currentPieceId (fst (heldHand s h d t a)) = currentPieceId s"
  "fastDropPieceId (fst (heldHand s h d t a)) = fastDropPieceId s"
  "poseDetectionFailureCount (fst (heldHand s h d t a)) = poseDetectionFailureCount s"
  "lastSuccessfulDetection (fst (heldHand s h d t a)) = lastSuccessfulDetection s"
  "recentDetectionHistory (fst (heldHand s h d t a)) = recentDetectionHistory s"
  "calibrationCompleteTime (fst (heldHand s h d t a)) = calibrationCompleteTime s"
  "showCalibrationComplete (fst (heldHand s h d t a)) = showCalibrationComplete s"
  "frameCounter (fst (heldHand s h d t a)) = frameCounter s"
  by (simp_all add: heldHand_def Let_def)

lemma continuousMove_frame [simp]:
  "isGestureDetected (fst (continuousMove s r t a)) = isGestureDetected s"
  "lastGestureDetectionStatus (fst (continuousMove s r t a)) = lastGestureDetectionStatus s"
  "calibrationCompletedNotified (fst (continuousMove s r t a)) = calibrationCompletedNotified s"
  "lastAction (fst (continuousMove s r t a)) = lastAction s"
  "lastActionTime (fst (continuousMove s r t a)) = lastActionTime s"
  "leftHandState (fst (continuousMove s r t a)) = leftHandState s"
  "rightHandState (fst (continuousMove s r t a)) = rightHandState s"
  "lastLeftHandState (fst (continuousMove s r t a)) = lastLeftHandState s"
  "lastRightHandState (fst (continuousMove s r t a)) = lastRightHandState s"
  "bothHandsVisible (fst (continuousMove s r t a)) = bothHandsVisible s"
  "lastBothHandsVisible (fst (continuousMove s r t a)) = lastBothHandsVisible s"
  "leftHandHistory (fst (continuousMove s r t a)) = leftHandHistory s"
  "rightHandHistory (fst (continuousMove s r t a)) = rightHandHistory s"
  "baselineLeftShoulder (fst (continuousMove s r t a)) = baselineLeftShoulder s"
  "baselineRightShoulder (fst (continuousMove s r t a)) = baselineRightShoulder s"
  "baselineNose (fst (continuousMove s r t a)) = baselineNose s"
  "calibrationFrames (fst (continuousMove s r t a)) = calibrationFrames s"
  "headHistory (fst (continuousMove s r t a)) = headHistory s"
  "isHeadShaking (fst (continuousMove s r t a)) = isHeadShaking s"
  "consecutiveShakeFrames (fst (continuousMove s r t a)) = consecutiveShakeFrames s"
  "fastDropStartTime (fst (continuousMove s r t a)) = fastDropStartTime s"
  "lastFastDropTime (fst (continuousMove s r t a)) = lastFastDropTime s"
  "isFastDropTriggered (fst (continuousMove s r t a)) = isFastDropTriggered s"
  "currentPieceId (fst (continuousMove s r t a)) = currentPieceId s"
  "fastDropPieceId (fst (continuousMove s r t a)) = fastDropPieceId s"
  "poseDetectionFailureCount (fst (continuousMove s r t a)) = poseDetectionFailureCount s"
  "lastSuccessfulDetection (fst (continuousMove s r t a)) = lastSuccessfulDetection s"
  "recentDetectionHistory (fst (continuousMove s r t a)) = recentDetectionHistory s"
  "calibrationCompleteTime (fst (continuousMove s r t a)) = calibrationCompleteTime s"
  "showCalibrationComplete (fst (continuousMove s r t a)) = showCalibrationComplete s"
  "frameCounter (fst (continuousMove s r t a)) = frameCounter s"
  by (simp_all add: continuousMove_def)

lemma performAction_frame [simp]:
  "isGestureDetected (fst (performAction s f a)) = isGestureDetected s"
  "lastGestureDetectionStatus (fst (performAction s f a)) = lastGestureDetectionStatus s"
  "calibrationCompletedNotified (fst (performAction s f a)) = calibrationCompletedNotified s"
  "leftHandState (fst (performAction s f a)) = leftHandState s"
  "rightHandState (fst (performAction s f a)) = rightHandState s"
  "lastLeftHandState (fst (performAction s f a)) = lastLeftHandState s"
  "lastRightHandState (fst (performAction s f a)) = lastRightHandState s"
  "bothHandsVisible (fst (performAction s f a)) = bothHandsVisible s"
  "lastBothHandsVisible (fst (performAction s f a)) = lastBothHandsVisible s"
  "leftHandHistory (fst (performAction s f a)) = leftHandHistory s"
  "rightHandHistory (fst (performAction s f a)) = rightHandHistory s"
  "baselineLeftShoulder (fst (performAction s f a)) = baselineLeftShoulder s"
  "baselineRightShoulder (fst (performAction s f a)) = baselineRightShoulder s"
  "baselineNose (fst (performAction s f a)) = baselineNose s"
  "calibrationFrames (fst (performAction s f a)) = calibrationFrames s"
  "headHistory (fst (performAction s f a)) = headHistory s"
  "isHeadShaking (fst (performAction s f a)) = isHeadShaking s"
  "consecutiveShakeFrames (fst (performAction s f a)) = consecutiveShakeFrames s"
  "fastDropStartTime (fst (performAction s f a)) = fastDropStartTime s"
  "lastFastDropTime (fst (performAction s f a)) = lastFastDropTime s"
  "isFastDropTriggered (fst (performAction s f a)) = isFastDropTriggered s"
  "currentPieceId (fst (performAction s f a)) = currentPieceId s"
  "fastDropPieceId (fst (performAction s f a)) = fastDropPieceId s"
  "continuousMoveStartTime (fst (performAction s f a)) = continuousMoveStartTime s"
  "lastContinuousMoveTime (fst (performAction s f a)) = lastContinuousMoveTime s"
  "isInContinuousMode (fst (performAction s f a)) = isInContinuousMode s"
  "poseDetectionFailureCount (fst (performAction s f a)) = poseDetectionFailureCount s"
  "lastSuccessfulDetection (fst (performAction s f a)) = lastSuccessfulDetection s"
  "recentDetectionHistory (fst (performAction s f a)) = recentDetectionHistory s"
  "calibrationCompleteTime (fst (performAction s f a)) = calibrationCompleteTime s"
  "showCalibrationComplete (fst (performAction s f a)) = showCalibrationComplete s"
  "frameCounter (fst (performAction s f a)) = frameCounter s"
  by (simp_all add: performAction_def Let_def)

lemma notifyStatus_frame [simp]:
  "isGestureDetected (fst (notifyStatus s)) = isGestureDetected s"
  "calibrationCompletedNotified (fst (notifyStatus s)) = calibrationCompletedNotified s"
  "lastAction (fst (notifyStatus s)) = lastAction s"
  "lastActionTime (fst (notifyStatus s)) = lastActionTime s"
  "leftHandState (fst (notifyStatus s)) = leftHandState s"
  "rightHandState (fst (notifyStatus s)) = rightHandState s"
  "lastLeftHandState (fst (notifyStatus s)) = lastLeftHandState s"
  "lastRightHandState (fst (notifyStatus s)) = lastRightHandState s"
  "bothHandsVisible (fst (notifyStatus s)) = bothHandsVisible s"
  "lastBothHandsVisible (fst (notifyStatus s)) = lastBothHandsVisible s"
  "leftHandHistory (fst (notifyStatus s)) = leftHandHistory s"
  "rightHandHistory (fst (notifyStatus s)) = rightHandHistory s"
  "baselineLeftShoulder (fst (notifyStatus s)) = baselineLeftShoulder s"
  "baselineRightShoulder (fst (notifyStatus s)) = baselineRightShoulder s"
  "baselineNose (fst (notifyStatus s)) = baselineNose s"
  "calibrationFrames (fst (notifyStatus s)) = calibrationFrames s"
  "headHistory (fst (notifyStatus s)) = headHistory s"
  "isHeadShaking (fst (notifyStatus s)) = isHeadShaking s"
  "consecutiveShakeFrames (fst (notifyStatus s)) = consecutiveShakeFrames s"
  "fastDropStartTime (fst (notifyStatus s)) = fastDropStartTime s"
  "lastFastDropTime (fst (notifyStatus s)) = lastFastDropTime s"
  "isFastDropTriggered (fst (notifyStatus s)) = isFastDropTriggered s"
  "currentPieceId (fst (notifyStatus s)) = currentPieceId s"
  "fastDropPieceId (fst (notifyStatus s)) = fastDropPieceId s"
  "continuousMoveStartTime (fst (notifyStatus s)) = continuousMoveStartTime s"
  "lastContinuousMoveTime (fst (notifyStatus s)) = lastContinuousMoveTime s"
  "isInContinuousMode (fst (notifyStatus s)) = isInContinuousMode s"
  "poseDetectionFailureCount (fst (notifyStatus s)) = poseDetectionFailureCount s"
  "lastSuccessfulDetection (fst (notifyStatus s)) = lastSuccessfulDetection s"
  "recentDetectionHistory (fst (notifyStatus s)) = recentDetectionHistory s"
  "calibrationCompleteTime (fst (notifyStatus s)) = calibrationCompleteTime s"
  "showCalibrationComplete (fst (notifyStatus s)) = showCalibrationComplete s"
  by (simp_all add: notifyStatus_def Let_def split_beta)

lemma calibrateBaseline_frame [simp]:
  "isGestureDetected (fst (calibrateBaseline s l t)) = isGestureDetected s"
  "lastGestureDetectionStatus (fst (calibrateBaseline s l t)) = lastGestureDetectionStatus s"
  "lastAction (fst (calibrateBaseline s l t)) = lastAction s"
  "lastActionTime (fst (calibrateBaseline s l t)) = lastActionTime s"
  "leftHandState (fst (calibrateBaseline s l t)) = leftHandState s"
  "rightHandState (fst (calibrateBaseline s l t)) = rightHandState s"
  "lastLeftHandState (fst (calibrateBaseline s l t)) = lastLeftHandState s"
  "lastRightHandState (fst (calibrateBaseline s l t)) = lastRightHandState s"
  "bothHandsVisible (fst (calibrateBaseline s l t)) = bothHandsVisible s"
  "lastBothHandsVisible (fst (calibrateBaseline s l t)) = lastBothHandsVisible s"
  "leftHandHistory (fst (calibrateBaseline s l t)) = leftHandHistory s"
  "rightHandHistory (fst (calibrateBaseline s l t)) = rightHandHistory s"
  "calibrationFrames (fst (calibrateBaseline s l t)) = calibrationFrames s"
  "headHistory (fst (calibrateBaseline s l t)) = headHistory s"
  "isHeadShaking (fst (calibrateBaseline s l t)) = isHeadShaking s"
  "consecutiveShakeFrames (fst (calibrateBaseline s l t)) = consecutiveShakeFrames s"
  "fastDropStartTime (fst (calibrateBaseline s l t)) = fastDropStartTime s"
  "lastFastDropTime (fst (calibrateBaseline s l t)) = lastFastDropTime s"
  "isFastDropTriggered (fst (calibrateBaseline s l t)) = isFastDropTriggered s"
  "currentPieceId (fst (calibrateBaseline s l t)) = currentPieceId s"
  "fastDropPieceId (fst (calibrateBaseline s l t)) = fastDropPieceId s"
  "continuousMoveStartTime (fst (calibrateBaseline s l t)) = continuousMoveStartTime s"
  "lastContinuousMoveTime (fst (calibrateBaseline s l t)) = lastContinuousMoveTime s"
  "isInContinuousMode (fst (calibrateBaseline s l t)) = isInContinuousMode s"
  "poseDetectionFailureCount (fst (calibrateBaseline s l t)) = poseDetectionFailureCount s"
  "lastSuccessfulDetection (fst (calibrateBaseline s l t)) = lastSuccessfulDetection s"
  "recentDetectionHistory (fst (calibrateBaseline s l t)) = recentDetectionHistory s"
  "frameCounter (fst (calibrateBaseline s l t)) = frameCounter s"
  by (simp_all add: calibrateBaseline_def Let_def split: option.splits)

lemma clearLastAction_frame [simp]:
  "isGestureDetected (clearLastAction s) = isGestureDetected s"
  "lastGestureDetectionStatus (clearLastAction s) = lastGestureDetectionStatus s"
  "calibrationCompletedNotified (clearLastAction s) = calibrationCompletedNotified s"
  "lastActionTime (clearLastAction s) = lastActionTime s"
  "leftHandState (clearLastAction s) = leftHandState s"
  "rightHandState (clearLastAction s) = rightHandState s"
  "lastLeftHandState (clearLastAction s) = lastLeftHandState s"
  "lastRightHandState (clearLastAction s) = lastRightHandState s"
  "bothHandsVisible (clearLastAction s) = bothHandsVisible s"
  "lastBothHandsVisible (clearLastAction s) = lastBothHandsVisible s"
  "leftHandHistory (clearLastAction s) = leftHandHistory s"
  "rightHandHistory (clearLastAction s) = rightHandHistory s"
  "baselineLeftShoulder (clearLastAction s) = baselineLeftShoulder s"
  "baselineRightShoulder (clearLastAction s) = baselineRightShoulder s"
  "baselineNose (clearLastAction s) = baselineNose s"
  "calibrationFrames (clearLastAction s) = calibrationFrames s"
  "headHistory (clearLastAction s) = headHistory s"
  "isHeadShaking (clearLastAction s) = isHeadShaking s"
  "consecutiveShakeFrames (clearLastAction s) = consecutiveShakeFrames s"
  "fastDropStartTime (clearLastAction s) = fastDropStartTime s"
  "lastFastDropTime (clearLastAction s) = lastFastDropTime s"
  "isFastDropTriggered (clearLastAction s) = isFastDropTriggered s"
  "currentPieceId (clearLastAction s) = currentPieceId s"
  "fastDropPieceId (clearLastAction s) = fastDropPieceId s"
  "continuousMoveStartTime (clearLastAction s) = continuousMoveStartTime s"
  "lastContinuousMoveTime (clearLastAction s) = lastContinuousMoveTime s"
  "isInContinuousMode (clearLastAction s) = isInContinuousMode s"
  "poseDetectionFailureCount (clearLastAction s) = poseDetectionFailureCount s"
  "lastSuccessfulDetection (clearLastAction s) = lastSuccessfulDetection s"
  "recentDetectionHistory (clearLastAction s) = recentDetectionHistory s"
  "calibrationCompleteTime (clearLastAction s) = calibrationCompleteTime s"
  "showCalibrationComplete (clearLastAction s) = showCalibrationComplete s"
  "frameCounter (clearLastAction s) = frameCounter s"
  by (simp_all add: clearLastAction_def)

lemma beforeGestures_frame [simp]:
  "lastGestureDetectionStatus (beforeGestures s f) = lastGestureDetectionStatus s"
  "calibrationCompletedNotified (beforeGestures s f) = calibrationCompletedNotified s"
  "lastActionTime (beforeGestures s f) = lastActionTime s"
  "leftHandState (beforeGestures s f) = leftHandState s"
  "rightHandState (beforeGestures s f) = rightHandState s"
  "lastLeftHandState (beforeGestures s f) = lastLeftHandState s"
  "lastRightHandState (beforeGestures s f) = lastRightHandState s"
  "bothHandsVisible (beforeGestures s f) = bothHandsVisible s"
  "lastBothHandsVisible (beforeGestures s f) = lastBothHandsVisible s"
  "leftHandHistory (beforeGestures s f) = leftHandHistory s"
  "rightHandHistory (beforeGestures s f) = rightHandHistory s"
  "baselineLeftShoulder (beforeGestures s f) = baselineLeftShoulder s"
  "baselineRightShoulder (beforeGestures s f) = baselineRightShoulder s"
  "baselineNose (beforeGestures s f) = baselineNose s"
  "calibrationFrames (beforeGestures s f) = calibrationFrames s"
  "headHistory (beforeGestures s f) = headHistory s"
  "isHeadShaking (beforeGestures s f) = isHeadShaking s"
  "consecutiveShakeFrames (beforeGestures s f) = consecutiveShakeFrames s"
  "fastDropStartTime (beforeGestures s f) = fastDropStartTime s"
  "lastFastDropTime (beforeGestures s f) = lastFastDropTime s"
  "isFastDropTriggered (beforeGestures s f) = isFastDropTriggered s"
  "currentPieceId (beforeGestures s f) = currentPieceId s"
  "fastDropPieceId (beforeGestures s f) = fastDropPieceId s"
  "continuousMoveStartTime (beforeGestures s f) = continuousMoveStartTime s"
  "lastContinuousMoveTime (beforeGestures s f) = lastContinuousMoveTime s"
  "isInContinuousMode (beforeGestures s f) = isInContinuousMode s"
  "calibrationCompleteTime (beforeGestures s f) = calibrationCompleteTime s"
  "frameCounter (beforeGestures s f) = frameCounter s"
  by (simp_all add: beforeGestures_def Let_def)

lemma gestureBody_frame [simp]:
  "isGestureDetected (fst (gestureBody s f lw rw ls rs)) = isGestureDetected s"
  "lastGestureDetectionStatus (fst (gestureBody s f lw rw ls rs)) = lastGestureDetectionStatus s"
  "calibrationCompletedNotified (fst (gestureBody s f lw rw ls rs)) = calibrationCompletedNotified s"
  "baselineLeftShoulder (fst (gestureBody s f lw rw ls rs)) = baselineLeftShoulder s"
  "baselineRightShoulder (fst (gestureBody s f lw rw ls rs)) = baselineRightShoulder s"
  "baselineNose (fst (gestureBody s f lw rw ls rs)) = baselineNose s"
  "calibrationFrames (fst (gestureBody s f lw rw ls rs)) = calibrationFrames s"
  "headHistory (fst (gestureBody s f lw rw ls rs)) = headHistory s"
  "isHeadShaking (fst (gestureBody s f lw rw ls rs)) = isHeadShaking s"
  "consecutiveShakeFrames (fst (gestureBody s f lw rw ls rs)) = consecutiveShakeFrames s"
  "poseDetectionFailureCount (fst (gestureBody s f lw rw ls rs)) = poseDetectionFailureCount s"
  "lastSuccessfulDetection (fst (gestureBody s f lw rw ls rs)) = lastSuccessfulDetection s"
  "recentDetectionHistory (fst (gestureBody s f lw rw ls rs)) = recentDetectionHistory s"
  "calibrationCompleteTime (fst (gestureBody s f lw rw ls rs)) = calibrationCompleteTime s"
  "showCalibrationComplete (fst (gestureBody s f lw rw ls rs)) = showCalibrationComplete s"
  "frameCounter (fst (gestureBody s f lw rw ls rs)) = frameCounter s"
  by (simp_all add: gestureBody_def Let_def split_beta)

lemma detectHandGestures_frame [simp]:
  "isGestureDetected (fst (detectHandGestures s f)) = isGestureDetected s"
  "lastGestureDetectionStatus (fst (detectHandGestures s f)) = lastGestureDetectionStatus s"
  "calibrationCompletedNotified (fst (detectHandGestures s f)) = calibrationCompletedNotified s"
  "baselineLeftShoulder (fst (detectHandGestures s f)) = baselineLeftShoulder s"
  "baselineRightShoulder (fst (detectHandGestures s f)) = baselineRightShoulder s"
  "baselineNose (fst (detectHandGestures s f)) = baselineNose s"
  "calibrationFrames (fst (detectHandGestures s f)) = calibrationFrames s"
  "poseDetectionFailureCount (fst (detectHandGestures s f)) = poseDetectionFailureCount s"
  "lastSuccessfulDetection (fst (detectHandGestures s f)) = lastSuccessfulDetection s"
  "recentDetectionHistory (fst (detectHandGestures s f)) = recentDetectionHistory s"
  "calibrationCompleteTime (fst (detectHandGestures s f)) = calibrationCompleteTime s"
  "showCalibrationComplete (fst (detectHandGestures s f)) = showCalibrationComplete s"
  "frameCounter (fst (detectHandGestures s f)) = frameCounter s"
  by (simp_all add: detectHandGestures_def Let_def split: option.splits)

subsection \<open>Evaluating the concrete samples\<close>

lemma lmAt_pose [simp]:
  "lmAt (pose n ls rs lw rw) 0 = n"
  "lmAt (pose n ls rs lw rw) 11 = ls"
  "lmAt (pose n ls rs lw rw) 12 = rs"
  "lmAt (pose n ls rs lw rw) 15 = lw"
  "lmAt (pose n ls rs lw rw) 16 = rw"
  by (simp_all add: lmAt_def pose_def)

lemma pose_not_Nil [simp]: "pose n ls rs lw rw \<noteq> []"
  by (simp add: pose_def)

lemma poseFrame_sel [simp]:
  "now (poseFrame ly ry t) = t"
  "gameRunning (poseFrame ly ry t)"
  "currentPiece (poseFrame ly ry t) = Some 1"
  "movePieceOk (poseFrame ly ry t)"
  "lastActionTimerFired (poseFrame ly ry t)"
  "poseLandmarks (poseFrame ly ry t) \<noteq> []"
  "lmAt (poseLandmarks (poseFrame ly ry t)) 0 = Some (mkLandmark (5 / 10) (3 / 10) 1)"
  "lmAt (poseLandmarks (poseFrame ly ry t)) 11 = Some (mkLandmark (4 / 10) (5 / 10) 1)"
  "lmAt (poseLandmarks (poseFrame ly ry t)) 12 = Some (mkLandmark (6 / 10) (5 / 10) 1)"
  "lmAt (poseLandmarks (poseFrame ly ry t)) 15 = Some (mkLandmark (3 / 10) ly (9 / 10))"
  "lmAt (poseLandmarks (poseFrame ly ry t)) 16 = Some (mkLandmark (7 / 10) ry (9 / 10))"
  by (simp_all add: poseFrame_def)

lemma poseFrame_upd_sel [simp]:
  "poseLandmarks (f\<lparr>gameRunning := g\<rparr>) = poseLandmarks f"
  "poseLandmarks (f\<lparr>currentPiece := p\<rparr>) = poseLandmarks f"
  "poseLandmarks (f\<lparr>movePieceOk := m\<rparr>) = poseLandmarks f"
  by simp_all

lemma bothHandsUp_poseFrame [simp]:
  "bothHandsUp (poseFrame ly ry t) =
     (5 / 100 < ly \<and> ly < 38 / 100 \<and> 5 / 100 < ry \<and> ry < 38 / 100)"
  by (auto simp add: bothHandsUp_def handVisibleInFrame_def isHandUp_def mkLandmark_def params)

lemma calibFrame_sel [simp]:
  "now (calibFrame t) = t"
  "gameRunning (calibFrame t)"
  "poseLandmarks (calibFrame t) \<noteq> []"
  "calibSample (calibFrame t)"
  by (simp_all add: calibFrame_def calibSample_def mkLandmark_def)

lemma calibrated_sel [simp]:
  "calibrationFrames calibrated = 30"
  "frameCounter calibrated = 1"
  "lastActionTime calibrated = 0"
  "lastAction calibrated = NoAction"
  "\<not> bothHandsVisible calibrated"
  "isGestureDetected calibrated"
  "poseDetectionFailureCount calibrated = 0"
  "recentDetectionHistory calibrated = []"
  "baselineLeftShoulder calibrated \<noteq> None"
  "baselineRightShoulder calibrated \<noteq> None"
  "baselineNose calibrated \<noteq> None"
  "\<not> isFastDropTriggered calibrated"
  "\<not> isInContinuousMode calibrated"
  by (simp_all add: calibrated_def constructed_def)

lemma runsToEnd_calibrated [simp]:
  "runsToEnd calibrated (poseFrame ly ry t) = (150 \<le> t)"
  by (simp add: runsToEnd_def actionCooldown_def)

subsection \<open>The branches of \<open>onResults\<close> and of \<open>detectHandGestures\<close>\<close>

lemma length_pushWindow: "length h \<le> n \<Longrightarrow> length (pushWindow n e h) \<le> n"
  by (simp add: pushWindow_def Let_def)

lemma map_pushWindow: "map g (pushWindow n e h) = pushWindow n (g e) (map g h)"
  by (simp add: pushWindow_def Let_def map_tl)

lemma run_append:
  "run s (fs @ gs) = (fst (run (fst (run s fs)) gs), snd (run s fs) @ snd (run (fst (run s fs)) gs))"
  by (induction fs arbitrary: s) (simp_all add: split_beta)

lemma length_run [simp]: "length (snd (run s fs)) = length fs"
  by (induction fs arbitrary: s) (simp_all add: split_beta)

lemma onResults_cases:
  obtains (missed) "poseLandmarks f = []" "onResults s f =
      notifyStatus
        (let s2 = s\<lparr>poseDetectionFailureCount := poseDetectionFailureCount s + 1,
                      recentDetectionHistory :=
                        pushWindow detectionHistorySize False (recentDetectionHistory s)\<rparr>
         in if poseDetectionFailureCount s2 \<ge> maxFailureCount
               \<and> recentSuccessRate (recentDetectionHistory s2) < 2 / 10
            then s2\<lparr>isGestureDetected := False\<rparr> else s2)"
  | (calibrating) s2 where "poseLandmarks f \<noteq> []" "calibrationFrames s < maxCalibrationFrames"
      "s2 = s\<lparr>poseDetectionFailureCount := 0, lastSuccessfulDetection := now f,
                 isGestureDetected := True,
                 recentDetectionHistory :=
                   pushWindow detectionHistorySize True (recentDetectionHistory s)\<rparr>"
      "onResults s f =
         ((fst (calibrateBaseline s2 (poseLandmarks f) (now f)))
            \<lparr>calibrationFrames :=
               calibrationFrames (fst (calibrateBaseline s2 (poseLandmarks f) (now f))) + 1\<rparr>,
          snd (calibrateBaseline s2 (poseLandmarks f) (now f)))"
  | (detecting) s2 s3 where "poseLandmarks f \<noteq> []" "maxCalibrationFrames \<le> calibrationFrames s"
      "s2 = s\<lparr>poseDetectionFailureCount := 0, lastSuccessfulDetection := now f,
                 isGestureDetected := True,
                 recentDetectionHistory :=
                   pushWindow detectionHistorySize True (recentDetectionHistory s)\<rparr>"
      "s3 = (if showCalibrationComplete s2 \<and> now f - calibrationCompleteTime s2 \<ge> 5000
             then s2\<lparr>showCalibrationComplete := False\<rparr> else s2)"
      "onResults s f =
         (fst (notifyStatus (fst (detectHandGestures s3 f))),
          snd (detectHandGestures s3 f) @ snd (notifyStatus (fst (detectHandGestures s3 f))))"
proof (cases "poseLandmarks f = []")
  case True
  then show ?thesis by (intro missed) (simp_all add: onResults_def Let_def)
next
  case False
  show ?thesis
  proof (cases "calibrationFrames s < maxCalibrationFrames")
    case True
    with False show ?thesis
      by (intro calibrating [OF _ _ refl]) (simp_all add: onResults_def Let_def split_beta)
  next
    case nc: False
    with False show ?thesis
      by (intro detecting [OF _ _ refl refl]) (simp_all add: onResults_def Let_def split_beta)
  qed
qed

lemma runsToEnd_detect:
  assumes "runsToEnd s f"
  obtains lw rw ls rs nose where
    "lmAt (poseLandmarks f) 15 = Some lw" "lmAt (poseLandmarks f) 16 = Some rw"
    "lmAt (poseLandmarks f) 11 = Some ls" "lmAt (poseLandmarks f) 12 = Some rs"
    "lmAt (poseLandmarks f) 0 = Some nose"
    "detectHandGestures s f =
       gestureBody (detectHeadShake (updateHeadHistory s nose (now f))) f lw rw ls rs"
  using assms by (auto simp add: runsToEnd_def detectHandGestures_def Let_def)

lemma runsToEnd_health [simp]:
  "runsToEnd (s\<lparr>poseDetectionFailureCount := a\<rparr>) f = runsToEnd s f"
  "runsToEnd (s\<lparr>lastSuccessfulDetection := b\<rparr>) f = runsToEnd s f"
  "runsToEnd (s\<lparr>isGestureDetected := c\<rparr>) f = runsToEnd s f"
  "runsToEnd (s\<lparr>recentDetectionHistory := d\<rparr>) f = runsToEnd s f"
  "runsToEnd (s\<lparr>showCalibrationComplete := e\<rparr>) f = runsToEnd s f"
  "runsToEnd (clearLastAction s) f = runsToEnd s f"
  by (simp_all add: runsToEnd_def)

lemma detectHandGestures_cooldown:
  "now f - lastActionTime s < actionCooldown \<Longrightarrow> detectHandGestures s f = (s, [])"
  by (simp add: detectHandGestures_def)

subsection \<open>Which calls a part of the code can make\<close>

lemma rotations_simps [simp]:
  "rotations [] = 0"
  "rotations (RotatePiece # evs) = Suc (rotations evs)"
  "rotations (MovePiece dx dy # evs) = rotations evs"
  "rotations (CalibrationComplete # evs) = rotations evs"
  "rotations (GestureStatusChange b # evs) = rotations evs"
  "rotations (evs @ evs') = rotations evs + rotations evs'"
  by (simp_all add: rotations_def)

lemma notifyStatus_no_command: "filter isGameCommand (snd (notifyStatus s)) = []"
  by (simp add: notifyStatus_def Let_def isGameCommand_def split_beta)

lemma calibrateBaseline_no_command: "filter isGameCommand (snd (calibrateBaseline s l t)) = []"
  by (simp add: calibrateBaseline_def Let_def isGameCommand_def split: option.splits)

lemma rotations_notifyStatus [simp]: "rotations (snd (notifyStatus s)) = 0"
  by (simp add: notifyStatus_def Let_def split_beta)

lemma rotations_calibrateBaseline [simp]: "rotations (snd (calibrateBaseline s l t)) = 0"
  by (simp add: calibrateBaseline_def Let_def split: option.splits)

lemma dropSteps_simps [simp]:
  "dropSteps [] = 0"
  "dropSteps (MovePiece 0 1 # evs) = Suc (dropSteps evs)"
  "dropSteps (RotatePiece # evs) = dropSteps evs"
  "dropSteps (GestureStatusChange b # evs) = dropSteps evs"
  "dropSteps (CalibrationComplete # evs) = dropSteps evs"
  "dropSteps (evs @ evs') = dropSteps evs + dropSteps evs'"
  by (simp_all add: dropSteps_def)

lemma dropSteps_performAction [simp]: "dropSteps (snd (performAction s f a)) = 0"
  by (cases a) (simp_all add: performAction_def executeAction_def Let_def dropSteps_def)

lemma dropSteps_notifyStatus [simp]: "dropSteps (snd (notifyStatus s)) = 0"
  by (simp add: notifyStatus_def Let_def split_beta)

lemma dropSteps_calibrateBaseline [simp]: "dropSteps (snd (calibrateBaseline s l t)) = 0"
  by (simp add: calibrateBaseline_def Let_def split: option.splits)

text \<open>Every event of the gesture step is a call on the game.\<close>

lemma executeFastDrop_commands: "list_all isGameCommand (snd (executeFastDrop s f))"
  by (simp add: executeFastDrop_def isGameCommand_def)

lemma performAction_commands: "list_all isGameCommand (snd (performAction s f a))"
  by (cases a) (simp_all add: performAction_def executeAction_def Let_def isGameCommand_def)

lemma gestureBody_commands: "list_all isGameCommand (snd (gestureBody s f lw rw ls rs))"
  by (simp add: gestureBody_def Let_def split_beta executeFastDrop_commands
      performAction_commands)

lemma detectHandGestures_commands: "list_all isGameCommand (snd (detectHandGestures s f))"
  by (simp add: detectHandGestures_def Let_def gestureBody_commands split: option.splits)

subsection \<open>A cycle after calibration\<close>

lemma runsToEnd_valid: "runsToEnd s f \<Longrightarrow> poseLandmarks f \<noteq> []"
  by (auto simp add: runsToEnd_def lmAt_def split: if_splits)

lemma cycle_detecting:
  assumes "poseLandmarks f \<noteq> []" "maxCalibrationFrames \<le> calibrationFrames s"
  shows "cycle s f =
     (fst (notifyStatus (fst (detectHandGestures (beforeGestures s f) f))),
      snd (detectHandGestures (beforeGestures s f) f)
        @ snd (notifyStatus (fst (detectHandGestures (beforeGestures s f) f))))"
  using assms
  by (simp add: cycle_def onResults_def beforeGestures_def Let_def split_beta)

lemma runsToEnd_beforeGestures [simp]:
  "runsToEnd (beforeGestures s f) f = runsToEnd s f"
  by (simp add: beforeGestures_def Let_def)

lemma detect_runsToEnd:
  "runsToEnd s f \<Longrightarrow>
   detectHandGestures s f =
     gestureBody (detectHeadShake (updateHeadHistory s (the (lmAt (poseLandmarks f) 0)) (now f))) f
       (the (lmAt (poseLandmarks f) 15)) (the (lmAt (poseLandmarks f) 16))
       (the (lmAt (poseLandmarks f) 11)) (the (lmAt (poseLandmarks f) 12))"
  by (erule runsToEnd_detect) simp

lemma frameCounter_cycle:
  "poseLandmarks f \<noteq> [] \<Longrightarrow> maxCalibrationFrames \<le> calibrationFrames s
     \<Longrightarrow> frameCounter (fst (cycle s f)) = frameCounter s + 1"
  by (simp add: cycle_detecting notifyStatus_def Let_def split_beta)

lemma calibrated_cycle:
  assumes "maxCalibrationFrames \<le> calibrationFrames s"
  shows "calibrationFrames (fst (cycle s f)) = calibrationFrames s"
    and "CalibrationComplete \<notin> set (snd (cycle s f))"
proof -
  have c: "\<And>evs. list_all isGameCommand evs \<Longrightarrow> CalibrationComplete \<notin> set evs"
    by (auto simp add: list_all_iff isGameCommand_def)
  have n: "CalibrationComplete \<notin> set (snd (notifyStatus s'))" for s'
    by (simp add: notifyStatus_def Let_def split_beta)
  show "calibrationFrames (fst (cycle s f)) = calibrationFrames s"
    using assms
    by (cases "poseLandmarks f = []")
       (simp_all add: cycle_detecting, simp add: cycle_def onResults_def Let_def)
  show "CalibrationComplete \<notin> set (snd (cycle s f))"
    using assms c [OF detectHandGestures_commands] n
    by (cases "poseLandmarks f = []")
       (simp_all add: cycle_detecting, simp add: cycle_def onResults_def Let_def)
qed


section \<open>Rotation is edge-triggered\<close>

lemma singleHandMove_action:
  "snd (singleHandMove s True t a) = a"
  "a \<noteq> ActRotate \<Longrightarrow> snd (singleHandMove s r t a) \<noteq> ActRotate"
  by (simp_all add: singleHandMove_def)

lemma continuousMove_action:
  "snd (continuousMove s True t a) = a"
  "a \<noteq> ActRotate \<Longrightarrow> snd (continuousMove s r t a) \<noteq> ActRotate"
  by (simp_all add: continuousMove_def heldHand_def Let_def)

lemma rotations_performAction:
  "rotations (snd (performAction s f a)) = (if a = ActRotate \<and> gameRunning f then 1 else 0)"
  by (cases a) (simp_all add: performAction_def executeAction_def Let_def)

lemma rotations_executeFastDrop: "rotations (snd (executeFastDrop s f)) = 0"
  by (simp add: executeFastDrop_def)

lemma rotations_gestureBody:
  "rotations (snd (gestureBody s f lw rw ls rs)) =
     (if handVisibleInFrame lw \<and> handVisibleInFrame rw \<and> isHandUp ls lw \<and> isHandUp rs rw
         \<and> \<not> bothHandsVisible s \<and> gameRunning f
      then 1 else 0)"
proof (cases "handVisibleInFrame lw \<and> handVisibleInFrame rw \<and> isHandUp ls lw \<and> isHandUp rs rw")
  case True
  then show ?thesis
    by (simp add: gestureBody_def Let_def split_beta rotations_performAction
        rotations_executeFastDrop singleHandMove_action continuousMove_action)
next
  case False
  then show ?thesis
    by (auto simp add: gestureBody_def Let_def split_beta rotations_performAction
        rotations_executeFastDrop singleHandMove_action continuousMove_action)
qed

lemma bothHandsVisible_gestureBody:
  "bothHandsVisible (fst (gestureBody s f lw rw ls rs)) =
     (handVisibleInFrame lw \<and> handVisibleInFrame rw \<and> isHandUp ls lw \<and> isHandUp rs rw)"
  by (simp add: gestureBody_def Let_def split_beta)

lemma not_runsToEnd_detect:
  assumes "\<not> runsToEnd s f"
  shows "snd (detectHandGestures s f) = []"
    and "bothHandsVisible (fst (detectHandGestures s f)) = bothHandsVisible s"
  using assms
  by (auto simp add: runsToEnd_def detectHandGestures_def Let_def split: option.splits)

lemma rotations_detect:
  "rotations (snd (detectHandGestures s f)) =
     (if runsToEnd s f \<and> bothHandsUp f \<and> \<not> bothHandsVisible s \<and> gameRunning f then 1 else 0)"
proof (cases "runsToEnd s f")
  case True
  then obtain lw rw ls rs nose where
    "lmAt (poseLandmarks f) 15 = Some lw" "lmAt (poseLandmarks f) 16 = Some rw"
    "lmAt (poseLandmarks f) 11 = Some ls" "lmAt (poseLandmarks f) 12 = Some rs"
    "lmAt (poseLandmarks f) 0 = Some nose"
    "detectHandGestures s f =
       gestureBody (detectHeadShake (updateHeadHistory s nose (now f))) f lw rw ls rs"
    by (rule runsToEnd_detect)
  with True show ?thesis
    by (simp add: rotations_gestureBody bothHandsUp_def)
next
  case False
  then show ?thesis by (simp add: not_runsToEnd_detect)
qed

lemma bothHandsVisible_detect:
  "bothHandsVisible (fst (detectHandGestures s f)) =
     (if runsToEnd s f then bothHandsUp f else bothHandsVisible s)"
proof (cases "runsToEnd s f")
  case True
  then obtain lw rw ls rs nose where
    "lmAt (poseLandmarks f) 15 = Some lw" "lmAt (poseLandmarks f) 16 = Some rw"
    "lmAt (poseLandmarks f) 11 = Some ls" "lmAt (poseLandmarks f) 12 = Some rs"
    "lmAt (poseLandmarks f) 0 = Some nose"
    "detectHandGestures s f =
       gestureBody (detectHeadShake (updateHeadHistory s nose (now f))) f lw rw ls rs"
    by (rule runsToEnd_detect)
  with True show ?thesis
    by (simp add: bothHandsVisible_gestureBody bothHandsUp_def)
next
  case False
  then show ?thesis by (simp add: not_runsToEnd_detect)
qed

lemma bothHandsUp_valid: "bothHandsUp f \<Longrightarrow> poseLandmarks f \<noteq> []"
  by (auto simp add: bothHandsUp_def lmAt_def split: option.splits if_splits)

lemma rotations_onResults:
  "rotations (snd (onResults s f)) =
     (if poseLandmarks f \<noteq> [] \<and> maxCalibrationFrames \<le> calibrationFrames s \<and> runsToEnd s f
         \<and> bothHandsUp f \<and> \<not> bothHandsVisible s \<and> gameRunning f
      then 1 else 0)"
  by (cases f s rule: onResults_cases) (simp_all add: Let_def rotations_detect)

lemma bothHandsVisible_onResults:
  "bothHandsVisible (fst (onResults s f)) =
     (if poseLandmarks f \<noteq> [] \<and> maxCalibrationFrames \<le> calibrationFrames s \<and> runsToEnd s f
      then bothHandsUp f else bothHandsVisible s)"
  by (cases f s rule: onResults_cases) (simp_all add: Let_def bothHandsVisible_detect)

lemma rotations_cycle:
  "rotations (snd (cycle s f)) =
     (if poseLandmarks f \<noteq> [] \<and> maxCalibrationFrames \<le> calibrationFrames s \<and> runsToEnd s f
         \<and> bothHandsUp f \<and> \<not> bothHandsVisible s \<and> gameRunning f
      then 1 else 0)"
  by (auto simp add: cycle_def rotations_onResults)

lemma bothHandsVisible_cycle:
  "bothHandsVisible (fst (cycle s f)) =
     (if poseLandmarks f \<noteq> [] \<and> maxCalibrationFrames \<le> calibrationFrames s \<and> runsToEnd s f
      then bothHandsUp f else bothHandsVisible s)"
  by (auto simp add: cycle_def bothHandsVisible_onResults)

lemma held_hands_no_rotation:
  assumes "bothHandsVisible s" "\<forall>f \<in> set fs. bothHandsUp f"
  shows "bothHandsVisible (fst (run s fs)) \<and> map rotations (snd (run s fs)) = replicate (length fs) 0"
  using assms
proof (induction fs arbitrary: s)
  case Nil
  then show ?case by simp
next
  case (Cons f fs)
  have "bothHandsVisible (fst (cycle s f))" and "rotations (snd (cycle s f)) = 0"
    using Cons.prems by (simp_all add: bothHandsVisible_cycle rotations_cycle)
  moreover from this Cons.prems
  have "bothHandsVisible (fst (run (fst (cycle s f)) fs))
        \<and> map rotations (snd (run (fst (cycle s f)) fs)) = replicate (length fs) 0"
    by (intro Cons.IH) simp_all
  ultimately show ?case by (simp add: split_beta)
qed

text \<open>
  When the gesture step of the first cycle of a run of Both-Hands-Up frames runs to its
  end and the game is running, that cycle calls \<open>rotatePiece\<close> once and no later cycle
  of the run calls it.
\<close>

lemma rotation_edge_once:
  assumes "maxCalibrationFrames \<le> calibrationFrames s" and "\<not> bothHandsVisible s"
    and "runsToEnd s f" and "gameRunning f"
    and "\<forall>g \<in> set (f # fs). bothHandsUp g"
  shows "map rotations (snd (run s (f # fs))) = 1 # replicate (length fs) 0"
proof -
  have v: "poseLandmarks f \<noteq> []" using assms(5) by (simp add: bothHandsUp_valid)
  have r: "rotations (snd (cycle s f)) = 1" and b: "bothHandsVisible (fst (cycle s f))"
    using assms v by (simp_all add: rotations_cycle bothHandsVisible_cycle)
  have "map rotations (snd (run (fst (cycle s f)) fs)) = replicate (length fs) 0"
    using held_hands_no_rotation [OF b, of fs] assms(5) by simp
  with r show ?thesis by (simp add: split_beta)
qed

lemma bothHandsUp_landmarks:
  assumes "bothHandsUp f"
  shows "lmAt (poseLandmarks f) 15 \<noteq> None" "lmAt (poseLandmarks f) 16 \<noteq> None"
    "lmAt (poseLandmarks f) 11 \<noteq> None" "lmAt (poseLandmarks f) 12 \<noteq> None"
    "lmAt (poseLandmarks f) 0 \<noteq> None"
  using assms by (auto simp add: bothHandsUp_def split: option.splits)

lemma lastActionTime_not_runsToEnd:
  "\<not> runsToEnd s f \<Longrightarrow> lastActionTime (fst (detectHandGestures s f)) = lastActionTime s"
  by (auto simp add: runsToEnd_def detectHandGestures_def Let_def split: option.splits)

text \<open>
  A cycle after calibration whose gesture step does not run to its end leaves the
  baselines, \<open>bothHandsVisible\<close> and the time of the last action, and counts the frame.
\<close>

lemma cycle_not_runsToEnd:
  assumes "maxCalibrationFrames \<le> calibrationFrames s" "poseLandmarks f \<noteq> []" "\<not> runsToEnd s f"
  shows "rotations (snd (cycle s f)) = 0"
    and "bothHandsVisible (fst (cycle s f)) = bothHandsVisible s"
    and "lastActionTime (fst (cycle s f)) = lastActionTime s"
    and "frameCounter (fst (cycle s f)) = frameCounter s + 1"
    and "calibrationFrames (fst (cycle s f)) = calibrationFrames s"
    and "baselineLeftShoulder (fst (cycle s f)) = baselineLeftShoulder s"
    and "baselineRightShoulder (fst (cycle s f)) = baselineRightShoulder s"
    and "baselineNose (fst (cycle s f)) = baselineNose s"
proof -
  have n: "\<not> runsToEnd (beforeGestures s f) f" using assms(3) by simp
  show "rotations (snd (cycle s f)) = 0"
    and "bothHandsVisible (fst (cycle s f)) = bothHandsVisible s"
    using assms by (simp_all add: rotations_cycle bothHandsVisible_cycle)
  show "lastActionTime (fst (cycle s f)) = lastActionTime s"
    using assms(1,2) by (simp add: cycle_detecting lastActionTime_not_runsToEnd [OF n])
  show "frameCounter (fst (cycle s f)) = frameCounter s + 1"
    by (rule frameCounter_cycle [OF assms(2,1)])
  show "calibrationFrames (fst (cycle s f)) = calibrationFrames s"
    by (rule calibrated_cycle [OF assms(1)])
  show "baselineLeftShoulder (fst (cycle s f)) = baselineLeftShoulder s"
    and "baselineRightShoulder (fst (cycle s f)) = baselineRightShoulder s"
    and "baselineNose (fst (cycle s f)) = baselineNose s"
    using assms(1,2) by (simp_all add: cycle_detecting)
qed

section \<open>Detection health\<close>

lemma onResults_valid_health:
  assumes "poseLandmarks f \<noteq> []"
  shows "poseDetectionFailureCount (fst (onResults s f)) = 0"
    and "isGestureDetected (fst (onResults s f))"
    and "recentDetectionHistory (fst (onResults s f))
           = pushWindow detectionHistorySize True (recentDetectionHistory s)"
  using assms by (simp_all add: onResults_def Let_def split_beta)

lemma onResults_missed_health:
  assumes "poseLandmarks f = []"
  shows "poseDetectionFailureCount (fst (onResults s f)) = poseDetectionFailureCount s + 1"
    and "recentDetectionHistory (fst (onResults s f))
           = pushWindow detectionHistorySize False (recentDetectionHistory s)"
    and "isGestureDetected (fst (onResults s f)) =
           (isGestureDetected s \<and>
            \<not> (maxFailureCount \<le> poseDetectionFailureCount s + 1
               \<and> recentSuccessRate (pushWindow detectionHistorySize False (recentDetectionHistory s))
                   < 2 / 10))"
  using assms by (simp_all add: onResults_def Let_def split_beta)

text \<open>
  Claim C7. On a frame without a pose the detected status after \<open>onResults\<close> is the old
  status unless the failure counter has reached 30 and the success rate of the window
  of recent outcomes is below 20 percent, and then it is false; so the status is set to
  false only there. A frame with a pose sets the failure counter to zero and the status
  to true, whatever they were. A missed frame right after a success (failure counter
  zero) leaves the status as it was. The window of recent outcomes stays within its
  capacity of 10.
\<close>

theorem detection_hysteresis:
  "(poseLandmarks f = [] \<longrightarrow>
      isGestureDetected (fst (onResults s f)) =
        (isGestureDetected s \<and>
         \<not> (maxFailureCount \<le> poseDetectionFailureCount (fst (onResults s f))
            \<and> recentSuccessRate (recentDetectionHistory (fst (onResults s f))) < 2 / 10)))
   \<and> (poseLandmarks f \<noteq> [] \<longrightarrow>
        poseDetectionFailureCount (fst (onResults s f)) = 0
        \<and> isGestureDetected (fst (onResults s f)))
   \<and> (poseLandmarks f = [] \<and> poseDetectionFailureCount s = 0 \<longrightarrow>
        isGestureDetected (fst (onResults s f)) = isGestureDetected s)
   \<and> (length (recentDetectionHistory s) \<le> detectionHistorySize \<longrightarrow>
        length (recentDetectionHistory (fst (onResults s f))) \<le> detectionHistorySize)"
proof (intro conjI impI)
  assume "poseLandmarks f = []"
  then show "isGestureDetected (fst (onResults s f)) =
        (isGestureDetected s \<and>
         \<not> (maxFailureCount \<le> poseDetectionFailureCount (fst (onResults s f))
            \<and> recentSuccessRate (recentDetectionHistory (fst (onResults s f))) < 2 / 10))"
    by (simp add: onResults_missed_health)
next
  assume "poseLandmarks f \<noteq> []"
  then show "poseDetectionFailureCount (fst (onResults s f)) = 0"
    and "isGestureDetected (fst (onResults s f))"
    by (simp_all add: onResults_valid_health)
next
  assume "poseLandmarks f = [] \<and> poseDetectionFailureCount s = 0"
  then show "isGestureDetected (fst (onResults s f)) = isGestureDetected s"
    by (simp add: onResults_missed_health maxFailureCount_def)
next
  assume "length (recentDetectionHistory s) \<le> detectionHistorySize"
  then show "length (recentDetectionHistory (fst (onResults s f))) \<le> detectionHistorySize"
    by (cases "poseLandmarks f = []")
       (simp_all add: onResults_missed_health onResults_valid_health length_pushWindow)
qed

text \<open>
  The witness: after 29 misses with a window of ten failures the thirtieth miss declares
  the detection lost; one frame with a pose brings it back; a single miss right after a
  success changes nothing.
\<close>

theorem detection_hysteresis_witness:
  "poseLandmarks (noPoseFrame 5000) = []
   \<and> isGestureDetected
        (calibrated\<lparr>poseDetectionFailureCount := 29, recentDetectionHistory := replicate 10 False\<rparr>)
   \<and> \<not> isGestureDetected (fst (onResults
        (calibrated\<lparr>poseDetectionFailureCount := 29, recentDetectionHistory := replicate 10 False\<rparr>)
        (noPoseFrame 5000)))
   \<and> poseDetectionFailureCount (fst (onResults
        (calibrated\<lparr>poseDetectionFailureCount := 29, recentDetectionHistory := replicate 10 False\<rparr>)
        (noPoseFrame 5000))) = 30
   \<and> length (recentDetectionHistory (fst (onResults
        (calibrated\<lparr>poseDetectionFailureCount := 29, recentDetectionHistory := replicate 10 False\<rparr>)
        (noPoseFrame 5000)))) \<le> detectionHistorySize
   \<and> poseLandmarks (poseFrame (8 / 10) (8 / 10) 5033) \<noteq> []
   \<and> isGestureDetected (fst (onResults
        (calibrated\<lparr>poseDetectionFailureCount := 30, isGestureDetected := False\<rparr>)
        (poseFrame (8 / 10) (8 / 10) 5033)))
   \<and> poseDetectionFailureCount (fst (onResults
        (calibrated\<lparr>poseDetectionFailureCount := 30, isGestureDetected := False\<rparr>)
        (poseFrame (8 / 10) (8 / 10) 5033))) = 0
   \<and> poseDetectionFailureCount calibrated = 0
   \<and> isGestureDetected (fst (onResults calibrated (noPoseFrame 5000)))"
  using
    detection_hysteresis [of "noPoseFrame 5000"
      "calibrated\<lparr>poseDetectionFailureCount := 29, recentDetectionHistory := replicate 10 False\<rparr>"]
    detection_hysteresis [of "poseFrame (8 / 10) (8 / 10) 5033"
      "calibrated\<lparr>poseDetectionFailureCount := 30, isGestureDetected := False\<rparr>"]
    detection_hysteresis [of "noPoseFrame 5000" calibrated]
  by (simp add: noPoseFrame_def onResults_missed_health pushWindow_def recentSuccessRate_def
      maxFailureCount_def detectionHistorySize_def)


section \<open>Calibration\<close>

lemma basePoint_simps [simp]: "basePoint None = zeroPoint" "basePoint (Some p) = p"
  by (simp_all add: basePoint_def)

lemma calibSample_valid: "calibSample f \<Longrightarrow> poseLandmarks f \<noteq> []"
  by (auto simp add: calibSample_def lmAt_def split: option.splits if_splits)

lemma accumulated_reset: "accumulated 0 (resetCalibration s t)"
  by (simp add: accumulated_def resetCalibration_def zeroPoint_def)

lemma accumulated_clear: "accumulated k s \<Longrightarrow> accumulated k (clearLastAction s)"
  by (simp add: accumulated_def)

text \<open>What \<open>calibrateBaseline\<close> does with a sample that has the three points.\<close>

lemma calibrateBaseline_sample:
  assumes "lmAt l 0 = Some n" "lmAt l 11 = Some ls" "lmAt l 12 = Some rs"
    and "(baselineRightShoulder s = None) = (baselineLeftShoulder s = None)"
    and "(baselineNose s = None) = (baselineLeftShoulder s = None)"
  shows "calibrateBaseline s l t =
     (if calibrationFrames s = maxCalibrationFrames - 1
      then (s\<lparr>baselineLeftShoulder :=
                 Some (divPoint (addPoint (basePoint (baselineLeftShoulder s)) ls) (real maxCalibrationFrames)),
               baselineRightShoulder :=
                 Some (divPoint (addPoint (basePoint (baselineRightShoulder s)) rs) (real maxCalibrationFrames)),
               baselineNose :=
                 Some (divPoint (addPoint (basePoint (baselineNose s)) n) (real maxCalibrationFrames)),
               calibrationCompleteTime := t,
               showCalibrationComplete := True,
               calibrationCompletedNotified := True\<rparr>, [CalibrationComplete])
      else (s\<lparr>baselineLeftShoulder := Some (addPoint (basePoint (baselineLeftShoulder s)) ls),
               baselineRightShoulder := Some (addPoint (basePoint (baselineRightShoulder s)) rs),
               baselineNose := Some (addPoint (basePoint (baselineNose s)) n)\<rparr>, []))"
proof (cases "baselineLeftShoulder s")
  case None
  with assms show ?thesis
    by (simp add: calibrateBaseline_def)
next
  case (Some bl)
  with assms obtain br bn where "baselineRightShoulder s = Some br" "baselineNose s = Some bn"
    by auto
  with Some assms show ?thesis
    by (simp add: calibrateBaseline_def)
qed

lemma calibSampleE:
  assumes "calibSample f"
  obtains n ls rs where "lmAt (poseLandmarks f) 0 = Some n" "lmAt (poseLandmarks f) 11 = Some ls"
    "lmAt (poseLandmarks f) 12 = Some rs"
    "lm_x n = round64 (5 / 10)" "lm_y n = round64 (3 / 10)"
    "lm_x ls = round64 (4 / 10)" "lm_y ls = round64 (5 / 10)"
    "lm_x rs = round64 (6 / 10)" "lm_y rs = round64 (5 / 10)"
  using assms by (auto simp add: calibSample_def split: option.splits)

subsection \<open>Thirty rounded additions and the division\<close>

lemma sum64_numeral: "sum64 (numeral k) v = add64 (sum64 (pred_numeral k) v) v"
  by (simp add: numeral_eq_Suc)

lemmas eval64 = round64_def ulp_def binade_def rne_def add64_def div64_def sum64_numeral

text \<open>The decimals 0.5, 0.3, 0.4 and 0.6 as the simplifier writes them.\<close>

lemma round64_decimals:
  "round64 (1 / 2) = 1 / 2"
  "round64 (3 / 10) = 5404319552844595 / 2 ^ 54"
  "round64 (2 / 5) = 7205759403792794 / 2 ^ 54"
  "round64 (3 / 5) = 10808639105689190 / 2 ^ 54"
  by (simp_all add: eval64)

lemma average64:
  "div64 (add64 (sum64 29 (round64 (1 / 2))) (round64 (1 / 2))) 30 = round64 (1 / 2)"
  "div64 (add64 (sum64 29 (round64 (3 / 10))) (round64 (3 / 10))) 30 = round64 (3 / 10)"
  "div64 (add64 (sum64 29 (round64 (2 / 5))) (round64 (2 / 5))) 30
     = round64 (2 / 5) + 3 / 2 ^ 54"
  "div64 (add64 (sum64 29 (round64 (3 / 5))) (round64 (3 / 5))) 30 = round64 (3 / 5)"
  by (simp_all add: eval64)

subsection \<open>A run of calibration samples\<close>

lemma calibrate_accumulates:
  assumes "calibSample f" "accumulated k s" "Suc k < maxCalibrationFrames"
  shows "accumulated (Suc k) (fst (onResults s f)) \<and> snd (onResults s f) = []"
proof -
  from assms(1) obtain n ls rs where lm: "lmAt (poseLandmarks f) 0 = Some n"
    "lmAt (poseLandmarks f) 11 = Some ls" "lmAt (poseLandmarks f) 12 = Some rs"
    and v: "lm_x n = round64 (5 / 10)" "lm_y n = round64 (3 / 10)"
    "lm_x ls = round64 (4 / 10)" "lm_y ls = round64 (5 / 10)"
    "lm_x rs = round64 (6 / 10)" "lm_y rs = round64 (5 / 10)"
    by (rule calibSampleE)
  have ne: "poseLandmarks f \<noteq> []" using assms(1) by (rule calibSample_valid)
  from assms(2,3) ne lm v show ?thesis
    by (simp add: accumulated_def onResults_def Let_def split_beta calibrateBaseline_sample
        addPoint_def maxCalibrationFrames_def)
qed

lemma calibrate_completes:
  assumes "calibSample f" "accumulated k s" "Suc k = maxCalibrationFrames"
  shows "xy (baselineNose (fst (onResults s f))) = Some (round64 (5 / 10), round64 (3 / 10))
    \<and> xy (baselineLeftShoulder (fst (onResults s f)))
        = Some (round64 (4 / 10) + 3 / 2 ^ 54, round64 (5 / 10))
    \<and> xy (baselineRightShoulder (fst (onResults s f))) = Some (round64 (6 / 10), round64 (5 / 10))
    \<and> calibrationFrames (fst (onResults s f)) = maxCalibrationFrames
    \<and> snd (onResults s f) = [CalibrationComplete]"
proof -
  from assms(1) obtain n ls rs where lm: "lmAt (poseLandmarks f) 0 = Some n"
    "lmAt (poseLandmarks f) 11 = Some ls" "lmAt (poseLandmarks f) 12 = Some rs"
    and v: "lm_x n = round64 (5 / 10)" "lm_y n = round64 (3 / 10)"
    "lm_x ls = round64 (4 / 10)" "lm_y ls = round64 (5 / 10)"
    "lm_x rs = round64 (6 / 10)" "lm_y rs = round64 (5 / 10)"
    by (rule calibSampleE)
  have ne: "poseLandmarks f \<noteq> []" using assms(1) by (rule calibSample_valid)
  have k: "k = 29" using assms(3) by (simp add: maxCalibrationFrames_def)
  from assms(2) ne lm v show ?thesis
    unfolding k
    by (simp add: accumulated_def onResults_def Let_def split_beta calibrateBaseline_sample
        addPoint_def divPoint_def xy_def maxCalibrationFrames_def average64)
qed

lemma calibration_run_below:
  assumes "\<forall>f \<in> set fs. calibSample f" "accumulated k s" "k + length fs < maxCalibrationFrames"
  shows "accumulated (k + length fs) (fst (run s fs)) \<and> concat (snd (run s fs)) = []"
  using assms
proof (induction fs arbitrary: k s)
  case Nil
  then show ?case by simp
next
  case (Cons f fs)
  let ?s0 = "if lastActionTimerFired f then clearLastAction s else s"
  have a0: "accumulated k ?s0" using Cons.prems(2) by (simp add: accumulated_clear)
  have "calibSample f" using Cons.prems(1) by simp
  moreover have "Suc k < maxCalibrationFrames" using Cons.prems(3) by simp
  ultimately have step: "accumulated (Suc k) (fst (cycle s f))" "snd (cycle s f) = []"
    using calibrate_accumulates [OF _ a0] by (simp_all add: cycle_def)
  have "accumulated (Suc k + length fs) (fst (run (fst (cycle s f)) fs))
        \<and> concat (snd (run (fst (cycle s f)) fs)) = []"
    using Cons.prems(1,3) by (intro Cons.IH [OF _ step(1)]) simp_all
  then show ?case using step(2) by (simp add: split_beta)
qed

lemma calibration_run_complete:
  assumes "\<forall>f \<in> set fs. calibSample f" and len: "length fs = maxCalibrationFrames"
  shows "xy (baselineNose (fst (run (resetCalibration s0 t0) fs)))
           = Some (round64 (5 / 10), round64 (3 / 10))"
    and "xy (baselineLeftShoulder (fst (run (resetCalibration s0 t0) fs)))
           = Some (round64 (4 / 10) + 3 / 2 ^ 54, round64 (5 / 10))"
    and "xy (baselineRightShoulder (fst (run (resetCalibration s0 t0) fs)))
           = Some (round64 (6 / 10), round64 (5 / 10))"
    and "calibrationFrames (fst (run (resetCalibration s0 t0) fs)) = maxCalibrationFrames"
    and "concat (snd (run (resetCalibration s0 t0) fs)) = [CalibrationComplete]"
    and "last (snd (run (resetCalibration s0 t0) fs)) = [CalibrationComplete]"
proof -
  from len obtain gs g where fs: "fs = gs @ [g]"
    by (cases fs rule: rev_cases) (simp_all add: maxCalibrationFrames_def)
  let ?r = "resetCalibration s0 t0"
  let ?s = "fst (run ?r gs)"
  let ?s1 = "if lastActionTimerFired g then clearLastAction ?s else ?s"
  have gs: "\<forall>f \<in> set gs. calibSample f" and g: "calibSample g" using assms fs by simp_all
  have lg: "Suc (length gs) = maxCalibrationFrames" using len fs by simp
  then have "0 + length gs < maxCalibrationFrames" by simp
  from calibration_run_below [OF gs accumulated_reset this]
  have acc: "accumulated (length gs) ?s" and quiet: "concat (snd (run ?r gs)) = []" by simp_all
  have acc1: "accumulated (length gs) ?s1" using acc by (simp add: accumulated_clear)
  note fin = calibrate_completes [OF g acc1 lg]
  have r: "run ?r fs = (fst (onResults ?s1 g), snd (run ?r gs) @ [snd (onResults ?s1 g)])"
    by (simp add: fs run_append cycle_def split_beta)
  show "xy (baselineNose (fst (run ?r fs))) = Some (round64 (5 / 10), round64 (3 / 10))"
    and "xy (baselineLeftShoulder (fst (run ?r fs)))
           = Some (round64 (4 / 10) + 3 / 2 ^ 54, round64 (5 / 10))"
    and "xy (baselineRightShoulder (fst (run ?r fs))) = Some (round64 (6 / 10), round64 (5 / 10))"
    and "calibrationFrames (fst (run ?r fs)) = maxCalibrationFrames"
    and "concat (snd (run ?r fs)) = [CalibrationComplete]"
    and "last (snd (run ?r fs)) = [CalibrationComplete]"
    using fin quiet by (simp_all add: r)
qed

lemma calibrationRun_samples [simp]:
  "length calibrationRun = 30"
  "\<forall>f \<in> set calibrationRun. calibSample f"
  "\<forall>f \<in> set (take n calibrationRun). calibSample f"
  by (auto simp add: calibrationRun_def dest!: in_set_takeD)

text \<open>
  Claim C5, as the code has it. From a reset, a run of frames that all have the nose at
  (0.5, 0.3) and the shoulders at (0.4, 0.5) and (0.6, 0.5), these decimals being the
  binary64 values they denote. When there are exactly 30 of them, the calibration
  counter is 30, the completion event is fired once, by the last frame, and each
  baseline coordinate is what thirty rounded additions and one rounded division by 30
  give: the sample's own value for the nose, for the right shoulder and for the height
  of the left shoulder, and for the x-coordinate of the left shoulder the value 0.4 plus
  3 units of 2 to the power -54, which prints as 0.4000000000000002 (the sum is
  12.000000000000005 instead of 12). When there are fewer than 30 frames, no event is
  fired, the counter is their number, and the baselines still hold the undivided sums
  (\<open>accumulated\<close>).
\<close>

theorem calibration_average_rounded:
  assumes "\<forall>f \<in> set fs. calibSample f"
  shows "(length fs = maxCalibrationFrames \<longrightarrow>
            xy (baselineNose (fst (run (resetCalibration s0 t0) fs)))
              = Some (round64 (5 / 10), round64 (3 / 10))
          \<and> xy (baselineLeftShoulder (fst (run (resetCalibration s0 t0) fs)))
              = Some (round64 (4 / 10) + 3 / 2 ^ 54, round64 (5 / 10))
          \<and> xy (baselineRightShoulder (fst (run (resetCalibration s0 t0) fs)))
              = Some (round64 (6 / 10), round64 (5 / 10))
          \<and> calibrationFrames (fst (run (resetCalibration s0 t0) fs)) = maxCalibrationFrames
          \<and> concat (snd (run (resetCalibration s0 t0) fs)) = [CalibrationComplete]
          \<and> last (snd (run (resetCalibration s0 t0) fs)) = [CalibrationComplete])
       \<and> (length fs < maxCalibrationFrames \<longrightarrow>
            accumulated (length fs) (fst (run (resetCalibration s0 t0) fs))
          \<and> concat (snd (run (resetCalibration s0 t0) fs)) = [])"
proof (intro conjI impI)
  assume len: "length fs < maxCalibrationFrames"
  show "accumulated (length fs) (fst (run (resetCalibration s0 t0) fs))"
    and "concat (snd (run (resetCalibration s0 t0) fs)) = []"
    using calibration_run_below [OF assms accumulated_reset, of s0 t0] len by simp_all
next
  assume len: "length fs = maxCalibrationFrames"
  note c = calibration_run_complete [OF assms len, of s0 t0]
  show "xy (baselineNose (fst (run (resetCalibration s0 t0) fs)))
          = Some (round64 (5 / 10), round64 (3 / 10))"
    and "xy (baselineLeftShoulder (fst (run (resetCalibration s0 t0) fs)))
          = Some (round64 (4 / 10) + 3 / 2 ^ 54, round64 (5 / 10))"
    and "xy (baselineRightShoulder (fst (run (resetCalibration s0 t0) fs)))
          = Some (round64 (6 / 10), round64 (5 / 10))"
    and "calibrationFrames (fst (run (resetCalibration s0 t0) fs)) = maxCalibrationFrames"
    and "concat (snd (run (resetCalibration s0 t0) fs)) = [CalibrationComplete]"
    and "last (snd (run (resetCalibration s0 t0) fs)) = [CalibrationComplete]"
    by (rule c)+
qed

text \<open>
  The witness: the 30 samples of \<open>calibrationRun\<close>, and the first 29 of them. The left
  shoulder's x ends within 2 parts in 10 to the power 16 of 0.4.
\<close>

theorem calibration_average_rounded_witness:
  "list_all calibSample calibrationRun
   \<and> length calibrationRun = maxCalibrationFrames
   \<and> xy (baselineNose (fst (run (resetCalibration (constructed 0) 0) calibrationRun)))
       = Some (1 / 2, 5404319552844595 / 2 ^ 54)
   \<and> xy (baselineLeftShoulder (fst (run (resetCalibration (constructed 0) 0) calibrationRun)))
       = Some (7205759403792797 / 2 ^ 54, 1 / 2)
   \<and> xy (baselineRightShoulder (fst (run (resetCalibration (constructed 0) 0) calibrationRun)))
       = Some (10808639105689190 / 2 ^ 54, 1 / 2)
   \<and> \<bar>7205759403792797 / 2 ^ 54 - 4 / 10\<bar> < (2 / 10 ^ 16 :: real)
   \<and> concat (snd (run (resetCalibration (constructed 0) 0) calibrationRun))
       = [CalibrationComplete]
   \<and> list_all calibSample (take 29 calibrationRun)
   \<and> length (take 29 calibrationRun) < maxCalibrationFrames
   \<and> calibrationFrames (fst (run (resetCalibration (constructed 0) 0) (take 29 calibrationRun)))
       = 29
   \<and> concat (snd (run (resetCalibration (constructed 0) 0) (take 29 calibrationRun))) = []"
  using
    calibration_average_rounded [of calibrationRun "constructed 0" 0]
    calibration_average_rounded [of "take 29 calibrationRun" "constructed 0" 0]
  by (simp add: maxCalibrationFrames_def accumulated_def list_all_iff round64_decimals)

text \<open>
  Claim C5 as stated fails: after the 30 samples the x-coordinate of the left shoulder's
  baseline is not the sample's value (the binary64 value of 0.4), nor the real number
  0.4.
\<close>

theorem calibration_left_shoulder_not_exact:
  "list_all calibSample calibrationRun
   \<and> length calibrationRun = maxCalibrationFrames
   \<and> map_option fst
       (xy (baselineLeftShoulder (fst (run (resetCalibration (constructed 0) 0) calibrationRun))))
       = Some (7205759403792797 / 2 ^ 54)
   \<and> round64 (4 / 10) = 7205759403792794 / 2 ^ 54
   \<and> (7205759403792797 / 2 ^ 54 :: real) \<noteq> 7205759403792794 / 2 ^ 54
   \<and> (7205759403792797 / 2 ^ 54 :: real) \<noteq> 4 / 10"
  using calibration_run_complete(2) [of calibrationRun "constructed 0" 0]
  by (simp add: maxCalibrationFrames_def list_all_iff round64_decimals)

lemma no_completion_after_calibration:
  "maxCalibrationFrames \<le> calibrationFrames s
     \<Longrightarrow> CalibrationComplete \<notin> set (concat (snd (run s fs)))"
proof (induction fs arbitrary: s)
  case Nil
  show ?case by simp
next
  case (Cons f fs)
  have "maxCalibrationFrames \<le> calibrationFrames (fst (cycle s f))"
    using Cons.prems by (simp add: calibrated_cycle)
  from Cons.IH [OF this] calibrated_cycle(2) [OF Cons.prems, of f]
  show ?case by (simp add: split_beta)
qed

text \<open>
  Claim C6, where the code departs from it. On a frame during calibration whose sample
  lacks one of the three points, \<open>calibrateBaseline\<close> returns at once and the sums are
  unchanged, as the claim says; but \<open>onResults\<close> increments \<open>calibrationFrames\<close> after
  the call whatever it did (line 270), so the frame does count toward the 30. When the
  frame that brings the counter to 30 is such a frame, the division and the completion
  event are skipped for good.
\<close>

theorem calibration_counts_skipped_frame:
  "poseLandmarks f \<noteq> [] \<and> calibrationFrames s < maxCalibrationFrames
     \<and> (lmAt (poseLandmarks f) 0 = None \<or> lmAt (poseLandmarks f) 11 = None
          \<or> lmAt (poseLandmarks f) 12 = None) \<longrightarrow>
   baselineNose (fst (onResults s f)) = baselineNose s
   \<and> baselineLeftShoulder (fst (onResults s f)) = baselineLeftShoulder s
   \<and> baselineRightShoulder (fst (onResults s f)) = baselineRightShoulder s
   \<and> calibrationFrames (fst (onResults s f)) = calibrationFrames s + 1
   \<and> snd (onResults s f) = []
   \<and> (calibrationFrames s = maxCalibrationFrames - 1 \<longrightarrow>
        CalibrationComplete \<notin> set (concat (snd (run (fst (onResults s f)) fs))))"
proof (intro impI)
  assume a: "poseLandmarks f \<noteq> [] \<and> calibrationFrames s < maxCalibrationFrames
     \<and> (lmAt (poseLandmarks f) 0 = None \<or> lmAt (poseLandmarks f) 11 = None
          \<or> lmAt (poseLandmarks f) 12 = None)"
  let ?s2 = "s\<lparr>poseDetectionFailureCount := 0, lastSuccessfulDetection := now f,
                 isGestureDetected := True,
                 recentDetectionHistory :=
                   pushWindow detectionHistorySize True (recentDetectionHistory s)\<rparr>"
  have skip: "calibrateBaseline ?s2 (poseLandmarks f) (now f) = (?s2, [])"
    using a by (auto simp add: calibrateBaseline_def split: option.splits)
  have r: "onResults s f = (?s2\<lparr>calibrationFrames := calibrationFrames s + 1\<rparr>, [])"
    using a by (simp add: onResults_def Let_def skip)
  note never = no_completion_after_calibration
  have "calibrationFrames s = maxCalibrationFrames - 1 \<longrightarrow>
        CalibrationComplete \<notin> set (concat (snd (run (fst (onResults s f)) fs)))"
    by (intro impI never) (simp add: r maxCalibrationFrames_def)
  then show "baselineNose (fst (onResults s f)) = baselineNose s
   \<and> baselineLeftShoulder (fst (onResults s f)) = baselineLeftShoulder s
   \<and> baselineRightShoulder (fst (onResults s f)) = baselineRightShoulder s
   \<and> calibrationFrames (fst (onResults s f)) = calibrationFrames s + 1
   \<and> snd (onResults s f) = []
   \<and> (calibrationFrames s = maxCalibrationFrames - 1 \<longrightarrow>
        CalibrationComplete \<notin> set (concat (snd (run (fst (onResults s f)) fs))))"
    by (simp add: r)
qed

text \<open>
  The failing input: the first frame after a reset has no nose. The baselines stay
  null and the counter is 1. And when it is the 30th frame that has no nose, no
  completion event follows, whatever comes after (here two full samples).
\<close>

theorem calibration_counts_skipped_frame_witness:
  "poseLandmarks (noNoseFrame 1000) \<noteq> []
   \<and> calibrationFrames (resetCalibration (constructed 0) 0) < maxCalibrationFrames
   \<and> lmAt (poseLandmarks (noNoseFrame 1000)) 0 = None
   \<and> baselineNose (fst (onResults (resetCalibration (constructed 0) 0) (noNoseFrame 1000))) = None
   \<and> calibrationFrames (fst (onResults (resetCalibration (constructed 0) 0) (noNoseFrame 1000))) = 1
   \<and> calibrationFrames ((resetCalibration (constructed 0) 0)\<lparr>calibrationFrames := 29\<rparr>)
       = maxCalibrationFrames - 1
   \<and> CalibrationComplete \<notin> set (concat (snd (run
        (fst (onResults ((resetCalibration (constructed 0) 0)\<lparr>calibrationFrames := 29\<rparr>)
           (noNoseFrame 1000)))
        [poseFrame (8 / 10) (8 / 10) 1033, poseFrame (8 / 10) (8 / 10) 1066])))"
  using
    calibration_counts_skipped_frame [of "noNoseFrame 1000" "resetCalibration (constructed 0) 0" "[]"]
    calibration_counts_skipped_frame [of "noNoseFrame 1000"
      "(resetCalibration (constructed 0) 0)\<lparr>calibrationFrames := 29\<rparr>"
      "[poseFrame (8 / 10) (8 / 10) 1033, poseFrame (8 / 10) (8 / 10) 1066]"]
  by (simp add: noNoseFrame_def resetCalibration_def maxCalibrationFrames_def)


section \<open>The running flag and the cooldown gate\<close>

lemma executeFastDrop_not_running:
  "\<not> gameRunning f \<Longrightarrow> executeFastDrop s f = (s, [])"
  by (simp add: executeFastDrop_def)

lemma performAction_not_running:
  "\<not> gameRunning f \<Longrightarrow> snd (performAction s f a) = []"
  by (simp add: performAction_def executeAction_def Let_def)

lemma gestureBody_not_running:
  "\<not> gameRunning f \<Longrightarrow> snd (gestureBody s f lw rw ls rs) = []"
  by (simp add: gestureBody_def Let_def executeFastDrop_not_running performAction_not_running
      split_beta)

lemma detectHandGestures_not_running:
  "\<not> gameRunning f \<Longrightarrow> snd (detectHandGestures s f) = []"
  by (simp add: detectHandGestures_def Let_def gestureBody_not_running split: option.splits)

lemma onResults_not_running:
  "\<not> gameRunning f \<Longrightarrow> filter isGameCommand (snd (onResults s f)) = []"
  by (simp add: onResults_def Let_def notifyStatus_no_command calibrateBaseline_no_command
      detectHandGestures_not_running split_beta)

text \<open>
  Claim C9. On a frame during which the game reports not running, \<open>onResults\<close> makes no
  call of \<open>movePiece\<close> (neither a directional move nor a fast-drop step) and no call of
  \<open>rotatePiece\<close>, whatever the sample and the state; nor does the cycle as a whole,
  with the timer callback before it. (Both reads of the flag, lines 617 and 890, see
  the same value: nothing is called on the game between them when the first is false.)
\<close>

theorem no_command_while_not_running:
  "\<not> gameRunning f \<Longrightarrow>
     filter isGameCommand (snd (onResults s f)) = []
     \<and> filter isGameCommand (snd (cycle s f)) = []"
  by (simp add: cycle_def onResults_not_running)

theorem no_command_while_not_running_witness:
  "\<not> gameRunning ((poseFrame (2 / 10) (2 / 10) 10000)\<lparr>gameRunning := False\<rparr>)
   \<and> filter isGameCommand
        (snd (onResults calibrated ((poseFrame (2 / 10) (2 / 10) 10000)\<lparr>gameRunning := False\<rparr>))) = []
   \<and> filter isGameCommand
        (snd (cycle calibrated ((poseFrame (2 / 10) (2 / 10) 10000)\<lparr>gameRunning := False\<rparr>))) = []"
  using no_command_while_not_running
    [of "(poseFrame (2 / 10) (2 / 10) 10000)\<lparr>gameRunning := False\<rparr>" calibrated]
  by simp

text \<open>
  Claim C10. On a frame less than 150 ms after \<open>lastActionTime\<close> (the time of the last
  action that was not a continuous tick) the gesture step returns at once: the state
  is unchanged and nothing is emitted. For \<open>onResults\<close> on such a frame with a sample:
  every field the gesture step works on (the three windows, the hand states and their
  previous values, the shake flag and counter, the fast-drop and continuous-move
  timers, flags and binding, the last action and its time) keeps its value, and no
  call is made on the game.
\<close>

theorem cooldown_gate:
  "now f - lastActionTime s < actionCooldown \<longrightarrow>
     detectHandGestures s f = (s, []) \<and>
     (poseLandmarks f \<noteq> [] \<longrightarrow>
        gestureFields (fst (onResults s f)) = gestureFields s
        \<and> filter isGameCommand (snd (onResults s f)) = [])"
proof (intro impI conjI)
  assume c: "now f - lastActionTime s < actionCooldown"
  show "detectHandGestures s f = (s, [])"
    using c by (rule detectHandGestures_cooldown)
  assume v: "poseLandmarks f \<noteq> []"
  show "gestureFields (fst (onResults s f)) = gestureFields s"
    using c v
    by (simp add: onResults_def Let_def split_beta gestureFields_def detectHandGestures_cooldown)
  show "filter isGameCommand (snd (onResults s f)) = []"
    using c v
    by (simp add: onResults_def Let_def split_beta detectHandGestures_cooldown
        notifyStatus_no_command calibrateBaseline_no_command)
qed

theorem cooldown_gate_witness:
  "now (poseFrame (2 / 10) (2 / 10) 10000) - lastActionTime (calibrated\<lparr>lastActionTime := 9900\<rparr>)
     < actionCooldown
   \<and> detectHandGestures (calibrated\<lparr>lastActionTime := 9900\<rparr>) (poseFrame (2 / 10) (2 / 10) 10000)
       = (calibrated\<lparr>lastActionTime := 9900\<rparr>, [])
   \<and> poseLandmarks (poseFrame (2 / 10) (2 / 10) 10000) \<noteq> []
   \<and> gestureFields (fst (onResults (calibrated\<lparr>lastActionTime := 9900\<rparr>)
        (poseFrame (2 / 10) (2 / 10) 10000)))
       = gestureFields (calibrated\<lparr>lastActionTime := 9900\<rparr>)
   \<and> filter isGameCommand (snd (onResults (calibrated\<lparr>lastActionTime := 9900\<rparr>)
        (poseFrame (2 / 10) (2 / 10) 10000))) = []"
  using cooldown_gate [of "poseFrame (2 / 10) (2 / 10) 10000" "calibrated\<lparr>lastActionTime := 9900\<rparr>"]
  by (simp add: actionCooldown_def)


section \<open>The first gesture step after calibration\<close>

text \<open>
  A cycle of the calibration phase (a frame with a pose while fewer than 30 frames are
  counted) returns at line 274: it counts a calibration frame and leaves the frame
  counter, \<open>bothHandsVisible\<close> and the time of the last action as they are.
\<close>

lemma calibrating_cycle_fields:
  assumes "poseLandmarks f \<noteq> []" "calibrationFrames s < maxCalibrationFrames"
  shows "frameCounter (fst (cycle s f)) = frameCounter s"
    and "bothHandsVisible (fst (cycle s f)) = bothHandsVisible s"
    and "lastActionTime (fst (cycle s f)) = lastActionTime s"
    and "calibrationFrames (fst (cycle s f)) = calibrationFrames s + 1"
  using assms by (simp_all add: cycle_def onResults_def Let_def split_beta)

lemma calibrating_run_fields:
  assumes "\<forall>f \<in> set fs. poseLandmarks f \<noteq> []"
    and "calibrationFrames s + length fs \<le> maxCalibrationFrames"
  shows "frameCounter (fst (run s fs)) = frameCounter s
       \<and> bothHandsVisible (fst (run s fs)) = bothHandsVisible s
       \<and> lastActionTime (fst (run s fs)) = lastActionTime s"
  using assms
proof (induction fs arbitrary: s)
  case Nil
  show ?case by simp
next
  case (Cons f fs)
  have f: "poseLandmarks f \<noteq> []" "calibrationFrames s < maxCalibrationFrames"
    using Cons.prems by simp_all
  note c = calibrating_cycle_fields [OF f]
  have "frameCounter (fst (run (fst (cycle s f)) fs)) = frameCounter (fst (cycle s f))
       \<and> bothHandsVisible (fst (run (fst (cycle s f)) fs)) = bothHandsVisible (fst (cycle s f))
       \<and> lastActionTime (fst (run (fst (cycle s f)) fs)) = lastActionTime (fst (cycle s f))"
    using Cons.prems c(4) by (intro Cons.IH) simp_all
  then show ?case by (simp add: split_beta c)
qed

lemma afterCalibration_sel [simp]:
  "calibrationFrames afterCalibration = 30"
  "frameCounter afterCalibration = 0"
  "lastActionTime afterCalibration = 0"
  "\<not> bothHandsVisible afterCalibration"
  "baselineLeftShoulder afterCalibration \<noteq> None"
  "baselineRightShoulder afterCalibration \<noteq> None"
  "baselineNose afterCalibration \<noteq> None"
proof -
  have s: "\<forall>f \<in> set calibrationRun. calibSample f"
    and l: "length calibrationRun = maxCalibrationFrames"
    by (simp_all add: maxCalibrationFrames_def)
  note c = calibration_run_complete [OF s l, of "constructed 0" 0]
  have v: "\<forall>f \<in> set calibrationRun. poseLandmarks f \<noteq> []"
    using s by (simp add: calibSample_valid)
  have "calibrationFrames (resetCalibration (constructed 0) 0) + length calibrationRun
          \<le> maxCalibrationFrames"
    by (simp add: resetCalibration_def maxCalibrationFrames_def)
  note r = calibrating_run_fields [OF v this]
  show "calibrationFrames afterCalibration = 30"
    using c(4) by (simp add: afterCalibration_def maxCalibrationFrames_def)
  show "frameCounter afterCalibration = 0" "lastActionTime afterCalibration = 0"
    "\<not> bothHandsVisible afterCalibration"
    using r by (simp_all add: afterCalibration_def resetCalibration_def)
  show "baselineLeftShoulder afterCalibration \<noteq> None"
    "baselineRightShoulder afterCalibration \<noteq> None"
    "baselineNose afterCalibration \<noteq> None"
    using c(1,2,3) by (auto simp add: afterCalibration_def xy_def)
qed

text \<open>
  Claim C1, where the code departs from it. Calibration is over, the baselines are
  there, Both-Hands-Up did not hold on the last gesture step that ran to its end
  (\<open>bothHandsVisible\<close> is false), and the condition holds on every frame of a run
  \<open>f # f2 # fs\<close> of any length (100 in the claim); the cooldown has elapsed and the game
  is running on the first two. Then \<open>rotatePiece\<close> is called exactly once in the run. It
  is called by the first cycle, as the claim says, unless the frame counter is a
  multiple of 30 on that cycle: then the debug block of lines 518-524 throws before the
  hands are looked at (line 522 reads \<open>areBothHandsUp\<close>, declared at line 545), the first
  cycle calls nothing, and the call is made by the second cycle. The frame counter is
  0 on the first gesture step after every calibration, the calibration frames
  returning before line 351 counts them.
\<close>

theorem rotate_once_late_after_debug_block:
  assumes "maxCalibrationFrames \<le> calibrationFrames s" and "\<not> bothHandsVisible s"
    and "baselineLeftShoulder s \<noteq> None" and "baselineRightShoulder s \<noteq> None"
    and "baselineNose s \<noteq> None"
    and "actionCooldown \<le> now f - lastActionTime s"
    and "actionCooldown \<le> now f2 - lastActionTime s"
    and "gameRunning f" and "gameRunning f2"
    and "\<forall>g \<in> set (f # f2 # fs). bothHandsUp g"
  shows "map rotations (snd (run s (f # f2 # fs))) =
           (if frameCounter s mod 30 = 0 then 0 # 1 # replicate (length fs) 0
            else 1 # 0 # replicate (length fs) 0)"
proof (cases "frameCounter s mod 30 = 0")
  case False
  have "bothHandsUp f" using assms(10) by simp
  from bothHandsUp_landmarks [OF this] assms(3,4,5,6) False
  have "runsToEnd s f" by (simp add: runsToEnd_def)
  from rotation_edge_once [OF assms(1,2) this assms(8,10)] False
  show ?thesis by simp
next
  case True
  let ?s1 = "fst (cycle s f)"
  have up: "bothHandsUp f" "bothHandsUp f2" using assms(10) by simp_all
  have v: "poseLandmarks f \<noteq> []" using up(1) by (rule bothHandsUp_valid)
  have n: "\<not> runsToEnd s f" using True by (simp add: runsToEnd_def)
  note c = cycle_not_runsToEnd [OF assms(1) v n]
  have "frameCounter ?s1 mod 30 \<noteq> 0" using True c(4) by presburger
  with bothHandsUp_landmarks [OF up(2)] assms(3,4,5,7) c
  have r: "runsToEnd ?s1 f2" by (simp add: runsToEnd_def)
  have "map rotations (snd (run ?s1 (f2 # fs))) = 1 # replicate (length fs) 0"
    using assms(1,2,9,10) c r by (intro rotation_edge_once) simp_all
  with True c(1) show ?thesis by (simp add: split_beta)
qed

text \<open>
  The failing run: a reset, the 30 calibration samples of \<open>calibrationRun\<close>, then three
  frames with both hands up, at times 2000, 2033 and 2066, the game running. The first
  of them calls nothing, the second rotates.
\<close>

theorem rotate_once_late_after_debug_block_witness:
  "maxCalibrationFrames \<le> calibrationFrames afterCalibration
   \<and> \<not> bothHandsVisible afterCalibration
   \<and> baselineLeftShoulder afterCalibration \<noteq> None
   \<and> baselineRightShoulder afterCalibration \<noteq> None
   \<and> baselineNose afterCalibration \<noteq> None
   \<and> actionCooldown \<le> now (poseFrame (2 / 10) (2 / 10) 2000) - lastActionTime afterCalibration
   \<and> actionCooldown \<le> now (poseFrame (2 / 10) (2 / 10) 2033) - lastActionTime afterCalibration
   \<and> gameRunning (poseFrame (2 / 10) (2 / 10) 2000)
   \<and> gameRunning (poseFrame (2 / 10) (2 / 10) 2033)
   \<and> list_all bothHandsUp
        [poseFrame (2 / 10) (2 / 10) 2000, poseFrame (2 / 10) (2 / 10) 2033,
         poseFrame (2 / 10) (2 / 10) 2066]
   \<and> frameCounter afterCalibration = 0
   \<and> map rotations
        (snd (run afterCalibration
           [poseFrame (2 / 10) (2 / 10) 2000, poseFrame (2 / 10) (2 / 10) 2033,
            poseFrame (2 / 10) (2 / 10) 2066])) = [0, 1, 0]"
  using rotate_once_late_after_debug_block [of afterCalibration
      "poseFrame (2 / 10) (2 / 10) 2000" "poseFrame (2 / 10) (2 / 10) 2033"
      "[poseFrame (2 / 10) (2 / 10) 2066]"]
  by (simp add: maxCalibrationFrames_def actionCooldown_def)


section \<open>Head-shake confirmation\<close>

lemma headStep_x:
  "map s_x (headHistory (headStep s nose t))
     = pushWindow headHistorySize (lm_x nose) (map s_x (headHistory s))"
  "consecutiveShakeFrames (headStep s nose t)
     = shakeCount (pushWindow headHistorySize (lm_x nose) (map s_x (headHistory s)))
         (consecutiveShakeFrames s)"
  "isHeadShaking (headStep s nose t)
     = (requiredShakeFrames
          \<le> shakeCount (pushWindow headHistorySize (lm_x nose) (map s_x (headHistory s)))
              (consecutiveShakeFrames s))"
proof -
  have m: "map s_x (headHistory (updateHeadHistory s nose t))
      = pushWindow headHistorySize (lm_x nose) (map s_x (headHistory s))"
    by (simp add: updateHeadHistory_def map_pushWindow)
  have l: "length (headHistory (updateHeadHistory s nose t))
      = length (pushWindow headHistorySize (lm_x nose) (map s_x (headHistory s)))"
    by (simp add: m [symmetric])
  show "map s_x (headHistory (headStep s nose t))
     = pushWindow headHistorySize (lm_x nose) (map s_x (headHistory s))"
    using m by (simp add: headStep_def detectHeadShake_def Let_def)
  show "consecutiveShakeFrames (headStep s nose t)
     = shakeCount (pushWindow headHistorySize (lm_x nose) (map s_x (headHistory s)))
         (consecutiveShakeFrames s)"
    using m l by (simp add: headStep_def detectHeadShake_def Let_def shakeCount_def)
  show "isHeadShaking (headStep s nose t)
     = (requiredShakeFrames
          \<le> shakeCount (pushWindow headHistorySize (lm_x nose) (map s_x (headHistory s)))
              (consecutiveShakeFrames s))"
    using m l
    by (simp add: headStep_def detectHeadShake_def Let_def shakeCount_def requiredShakeFrames_def)
qed

lemma shakeTrace_xTrace:
  "shakeTrace s ns
     = xTrace (map s_x (headHistory s)) (consecutiveShakeFrames s) (map (\<lambda>p. lm_x (fst p)) ns)"
  by (induction s ns rule: shakeTrace.induct) (simp_all add: Let_def headStep_x)

lemma alternating_32:
  "alternating a b 32 =
     [a, b, a, b, a, b, a, b, a, b, a, b, a, b, a, b, a, b, a, b, a, b, a, b, a, b, a, b, a, b, a, b]"
  by (simp add: alternating_def upt_conv_Cons)

lemma alternating_31:
  "alternating a b 31 =
     [a, b, a, b, a, b, a, b, a, b, a, b, a, b, a, b, a, b, a, b, a, b, a, b, a, b, a, b, a, b, a]"
  by (simp add: alternating_def upt_conv_Cons)

lemma thirty_false:
  "replicate 30 False =
     [False, False, False, False, False, False, False, False, False, False,
      False, False, False, False, False, False, False, False, False, False,
      False, False, False, False, False, False, False, False, False, False]"
  by (simp add: numeral_eq_Suc)

lemmas shake_eval = Let_def pushWindow_def shakeCount_def headHistorySize_def
  requiredShakeFrames_def calculateVariance_def power2_eq_square

lemma xTrace_oscillation:
  "xTrace [] c (alternating (2 / 5) (1 / 2) 32) = replicate 30 False @ [True, True]"
  "xTrace [] c (alternating (1 / 2) (2 / 5) 32) = replicate 30 False @ [True, True]"
  "xTrace [] c (alternating (2 / 5) (1 / 2) 31) = replicate 30 False @ [True]"
  unfolding alternating_32 alternating_31 thirty_false
  by (simp_all add: shake_eval)

lemma map_x_mkLandmark [simp]:
  "map ((\<lambda>p. lm_x (fst p)) \<circ> (\<lambda>x. (mkLandmark x y v, t))) xs = xs"
  by (induction xs) (simp_all add: mkLandmark_def)

text \<open>
  Claim C3, as the code has it. From an empty head window, on nose positions whose
  x-coordinates alternate between 0.40 and 0.50 (starting with either), whatever the
  other coordinates and the timestamps: \<open>isHeadShaking\<close> is false after each of the
  first 30 samples and true after the 31st (and the 32nd). The 20th sample fills the
  window and is already the first that counts, so the counter reaches 12 at sample 31.
\<close>

theorem head_shake_confirmed_at_sample_31:
  assumes "headHistory s = []"
    and "map (\<lambda>p. lm_x (fst p)) ns = alternating (4 / 10) (5 / 10) 32
         \<or> map (\<lambda>p. lm_x (fst p)) ns = alternating (5 / 10) (4 / 10) 32"
  shows "shakeTrace s ns = replicate 30 False @ [True, True]"
  using assms by (auto simp add: shakeTrace_xTrace xTrace_oscillation)

theorem head_shake_confirmed_at_sample_31_witness:
  "headHistory (constructed 0) = []
   \<and> map (\<lambda>p. lm_x (fst p))
        (map (\<lambda>x. (mkLandmark x (3 / 10) 1, 0)) (alternating (4 / 10) (5 / 10) 32))
       = alternating (4 / 10) (5 / 10) 32
   \<and> shakeTrace (constructed 0)
        (map (\<lambda>x. (mkLandmark x (3 / 10) 1, 0)) (alternating (4 / 10) (5 / 10) 32))
       = replicate 30 False @ [True, True]"
  using head_shake_confirmed_at_sample_31 [of "constructed 0"
      "map (\<lambda>x. (mkLandmark x (3 / 10) 1, 0)) (alternating (4 / 10) (5 / 10) 32)"]
  by (simp add: constructed_def)

text \<open>
  Claim C3 as stated (not before frame 32) fails: after 31 samples, the first at
  x = 0.40, the shake is confirmed.
\<close>

theorem head_shake_confirmed_before_frame_32:
  "length (map (\<lambda>x. (mkLandmark x (3 / 10) 1, 0 :: int)) (alternating (4 / 10) (5 / 10) 31)) = 31
   \<and> headHistory (constructed 0) = []
   \<and> last (shakeTrace (constructed 0)
        (map (\<lambda>x. (mkLandmark x (3 / 10) 1, 0)) (alternating (4 / 10) (5 / 10) 31)))"
proof -
  have "shakeTrace (constructed 0)
          (map (\<lambda>x. (mkLandmark x (3 / 10) 1, 0)) (alternating (4 / 10) (5 / 10) 31))
        = replicate 30 False @ [True]"
    by (simp add: shakeTrace_xTrace xTrace_oscillation constructed_def)
  then show ?thesis by (simp add: constructed_def alternating_def)
qed


section \<open>Fast drop and the change of piece\<close>






subsection \<open>An armed fast drop is bound to the tracked piece\<close>

lemma bindingTracked_fields:
  "isFastDropTriggered s = isFastDropTriggered s' \<Longrightarrow> fastDropPieceId s = fastDropPieceId s'
     \<Longrightarrow> currentPieceId s = currentPieceId s' \<Longrightarrow> bindingTracked s = bindingTracked s'"
  by (simp add: bindingTracked_def)

lemma trackPiece_bindingTracked:
  assumes "bindingTracked s"
  shows "bindingTracked (trackPiece s f)"
    and "currentPiece f = Some pid \<Longrightarrow> currentPieceId (trackPiece s f) = Some pid"
  using assms
  by (auto simp add: bindingTracked_def trackPiece_def Let_def split: option.splits if_splits)

lemma headShakeFastDrop_bindingTracked:
  assumes "bindingTracked s"
    and "\<And>pid. currentPiece f = Some pid \<Longrightarrow> currentPieceId s = Some pid"
  shows "bindingTracked (headShakeFastDrop s f)"
proof (cases "currentPiece f")
  case None
  with assms(1) show ?thesis
    by (simp add: bindingTracked_def headShakeFastDrop_def Let_def)
next
  case (Some pid)
  with assms(1) assms(2) [OF Some] show ?thesis
    by (simp add: bindingTracked_def headShakeFastDrop_def Let_def)
qed

lemma executeFastDrop_bindingTracked:
  assumes "bindingTracked s"
  shows "bindingTracked (fst (executeFastDrop s f))"
  using assms by (simp add: bindingTracked_def executeFastDrop_def)

lemma fastDrop_bindingTracked:
  assumes "bindingTracked s"
  shows "bindingTracked (fst (executeFastDrop (headShakeFastDrop (trackPiece s f) f) f))"
  by (intro executeFastDrop_bindingTracked headShakeFastDrop_bindingTracked
      trackPiece_bindingTracked assms)

lemma gestureBody_bindingTracked:
  assumes "bindingTracked s"
  shows "bindingTracked (fst (gestureBody s f lw rw ls rs))"
proof -
  let ?s4 = "(updateHandHistory s lw rw (now f))
      \<lparr>leftHandState := (if isHandUp ls lw then Up else Down),
        rightHandState := (if isHandUp rs rw then Up else Down),
        bothHandsVisible := (handVisibleInFrame lw \<and> handVisibleInFrame rw)
                              \<and> isHandUp ls lw \<and> isHandUp rs rw\<rparr>"
  let ?p = "executeFastDrop (headShakeFastDrop (trackPiece ?s4 f) f) f"
  have "bindingTracked ?s4 = bindingTracked s" by (rule bindingTracked_fields) simp_all
  then have "bindingTracked (fst ?p)" using assms by (simp add: fastDrop_bindingTracked)
  moreover have "bindingTracked (fst (gestureBody s f lw rw ls rs)) = bindingTracked (fst ?p)"
    by (rule bindingTracked_fields) (simp_all add: gestureBody_def Let_def split_beta)
  ultimately show ?thesis by simp
qed

lemma detect_bindingTracked:
  assumes "bindingTracked s"
  shows "bindingTracked (fst (detectHandGestures s f))"
proof (cases "runsToEnd s f")
  case True
  then obtain lw rw ls rs nose where
    d: "detectHandGestures s f =
       gestureBody (detectHeadShake (updateHeadHistory s nose (now f))) f lw rw ls rs"
    by (rule runsToEnd_detect)
  let ?s1 = "detectHeadShake (updateHeadHistory s nose (now f))"
  have "bindingTracked ?s1 = bindingTracked s" by (rule bindingTracked_fields) simp_all
  then show ?thesis using assms by (simp add: d gestureBody_bindingTracked)
next
  case False
  have "bindingTracked (fst (detectHandGestures s f)) = bindingTracked s"
    using False
    by (intro bindingTracked_fields)
       (auto simp add: runsToEnd_def detectHandGestures_def Let_def split: option.splits)
  then show ?thesis using assms by simp
qed

lemma cycle_bindingTracked:
  assumes "bindingTracked s"
  shows "bindingTracked (fst (cycle s f))"
proof -
  let ?s0 = "if lastActionTimerFired f then clearLastAction s else s"
  have b0: "bindingTracked ?s0"
    using assms bindingTracked_fields [of "clearLastAction s" s] by simp
  show ?thesis
  proof (cases f ?s0 rule: onResults_cases)
    case missed
    have "bindingTracked (fst (onResults ?s0 f)) = bindingTracked ?s0"
      by (rule bindingTracked_fields) (simp_all add: missed Let_def)
    then show ?thesis using b0 by (simp add: cycle_def)
  next
    case (calibrating s2)
    have "bindingTracked (fst (onResults ?s0 f)) = bindingTracked ?s0"
      by (rule bindingTracked_fields) (simp_all add: calibrating)
    then show ?thesis using b0 by (simp add: cycle_def)
  next
    case (detecting s2 s3)
    have "bindingTracked s3 = bindingTracked ?s0"
      by (rule bindingTracked_fields) (simp_all add: detecting)
    then have "bindingTracked (fst (detectHandGestures s3 f))"
      using b0 by (simp add: detect_bindingTracked)
    moreover have "bindingTracked (fst (onResults ?s0 f))
        = bindingTracked (fst (detectHandGestures s3 f))"
      by (rule bindingTracked_fields) (simp_all add: detecting)
    ultimately show ?thesis by (simp add: cycle_def)
  qed
qed

lemma binding_tracked_start:
  "bindingTracked (constructed t)"
  "bindingTracked (resetCalibration s t)"
  "bindingTracked (resetDropSpeed s)"
  by (simp_all add: bindingTracked_def constructed_def resetCalibration_def resetDropSpeed_def)

lemma binding_tracked_run:
  "bindingTracked s \<Longrightarrow> bindingTracked (fst (run s fs))"
  by (induction fs arbitrary: s) (simp_all add: split_beta cycle_bindingTracked)

lemma armed_is_armedFor:
  "bindingTracked s \<Longrightarrow> isFastDropTriggered s \<Longrightarrow> \<exists>p. armedFor p s"
  by (auto simp add: bindingTracked_def armedFor_def)

subsection \<open>The qualification after a change of piece\<close>













lemma watch_sel [simp]:
  "length (watch s fs) = length fs"
  "i < length fs \<Longrightarrow> o_time (watch s fs ! i) = now (fs ! i)"
proof -
  show "length (watch s fs) = length fs"
    by (induction fs arbitrary: s) simp_all
  show "i < length fs \<Longrightarrow> o_time (watch s fs ! i) = now (fs ! i)"
  proof (induction fs arbitrary: s i)
    case Nil
    then show ?case by simp
  next
    case (Cons f fs)
    then show ?case by (cases i) (simp_all add: observe_def)
  qed
qed

lemma ghosts_length [simp]: "length (ghosts q obs) = length obs"
  by (induction obs arbitrary: q) simp_all



subsection \<open>A cycle whose gesture step runs to its end, on the fast-drop fields\<close>









subsection \<open>The run in which the fast drop qualifies again\<close>

lemma shake8Frame_sel [simp]:
  "now (shake8Frame x t) = t"
  "gameRunning (shake8Frame x t)"
  "currentPiece (shake8Frame x t) = Some 8"
  "movePieceOk (shake8Frame x t)"
  "lmAt (poseLandmarks (shake8Frame x t)) 0 = Some (mkLandmark x (3 / 10) 1)"
  "lmAt (poseLandmarks (shake8Frame x t)) 11 = Some (mkLandmark (4 / 10) (5 / 10) 1)"
  "lmAt (poseLandmarks (shake8Frame x t)) 12 = Some (mkLandmark (6 / 10) (5 / 10) 1)"
  "lmAt (poseLandmarks (shake8Frame x t)) 15 = Some (mkLandmark (3 / 10) (8 / 10) (9 / 10))"
  "lmAt (poseLandmarks (shake8Frame x t)) 16 = Some (mkLandmark (7 / 10) (8 / 10) (9 / 10))"
  by (simp_all add: shake8Frame_def)




lemma shakeWindows:
  "shakeWindowA = [2 / 5, 1 / 2, 2 / 5, 1 / 2, 2 / 5, 1 / 2, 2 / 5, 1 / 2, 2 / 5, 1 / 2,
                   2 / 5, 1 / 2, 2 / 5, 1 / 2, 2 / 5, 1 / 2, 2 / 5, 1 / 2, 2 / 5, 1 / 2]"
  "shakeWindowB = [1 / 2, 2 / 5, 1 / 2, 2 / 5, 1 / 2, 2 / 5, 1 / 2, 2 / 5, 1 / 2, 2 / 5,
                   1 / 2, 2 / 5, 1 / 2, 2 / 5, 1 / 2, 2 / 5, 1 / 2, 2 / 5, 1 / 2, 2 / 5]"
  by (simp_all add: shakeWindowA_def shakeWindowB_def alternating_def upt_conv_Cons)

lemma shakeWindow_step [simp]:
  "pushWindow headHistorySize (2 / 5) shakeWindowA = shakeWindowB"
  "pushWindow headHistorySize (1 / 2) shakeWindowB = shakeWindowA"
  "shakeCount shakeWindowA c = c + 1"
  "shakeCount shakeWindowB c = c + 1"
  unfolding shakeWindows by (simp_all add: shake_eval)

lemma shakingOnPiece7_sel [simp]:
  "armedFor 7 shakingOnPiece7"
  "calibrationFrames shakingOnPiece7 = 30"
  "frameCounter shakingOnPiece7 = 1"
  "lastActionTime shakingOnPiece7 = 0"
  "baselineLeftShoulder shakingOnPiece7 \<noteq> None"
  "baselineRightShoulder shakingOnPiece7 \<noteq> None"
  "baselineNose shakingOnPiece7 \<noteq> None"
  "map s_x (headHistory shakingOnPiece7) = shakeWindowA"
  "consecutiveShakeFrames shakingOnPiece7 = 12"
  "fastDropStartTime shakingOnPiece7 = 9000"
  "isFastDropTriggered shakingOnPiece7"
  "fastDropPieceId shakingOnPiece7 = Some 7"
  "currentPieceId shakingOnPiece7 = Some 7"
  "lastFastDropTime shakingOnPiece7 = 9950"
  by (simp_all add: shakingOnPiece7_def armedFor_def calibrated_def constructed_def comp_def
      map_idI)









section \<open>Continuous movement\<close>

lemma isHandStable_frame [simp]:
  "isHandStable (trackPiece s f) h = isHandStable s h"
  "isHandStable (headShakeFastDrop s f) h = isHandStable s h"
  "isHandStable (fst (executeFastDrop s f)) h = isHandStable s h"
  "isHandStable (fst (singleHandMove s r t a)) h = isHandStable s h"
  "isHandStable (detectHeadShake s) h = isHandStable s h"
  "isHandStable (updateHeadHistory s n t) h = isHandStable s h"
  "isHandStable (clearLastAction s) h = isHandStable s h"
  "isHandStable (s\<lparr>leftHandState := x\<rparr>) h = isHandStable s h"
  "isHandStable (s\<lparr>rightHandState := y\<rparr>) h = isHandStable s h"
  "isHandStable (s\<lparr>bothHandsVisible := b\<rparr>) h = isHandStable s h"
  "isHandStable (s\<lparr>poseDetectionFailureCount := c\<rparr>) h = isHandStable s h"
  "isHandStable (s\<lparr>lastSuccessfulDetection := d\<rparr>) h = isHandStable s h"
  "isHandStable (s\<lparr>isGestureDetected := e\<rparr>) h = isHandStable s h"
  "isHandStable (s\<lparr>recentDetectionHistory := g\<rparr>) h = isHandStable s h"
  "isHandStable (s\<lparr>showCalibrationComplete := i\<rparr>) h = isHandStable s h"
  by (simp_all add: isHandStable_def)

lemma updateHandHistory_commute [simp]:
  "updateHandHistory (detectHeadShake s) lw rw t = detectHeadShake (updateHandHistory s lw rw t)"
  "updateHandHistory (updateHeadHistory s n t') lw rw t
     = updateHeadHistory (updateHandHistory s lw rw t) n t'"
  "updateHandHistory (clearLastAction s) lw rw t = clearLastAction (updateHandHistory s lw rw t)"
  "updateHandHistory (s\<lparr>poseDetectionFailureCount := c\<rparr>) lw rw t
     = (updateHandHistory s lw rw t)\<lparr>poseDetectionFailureCount := c\<rparr>"
  "updateHandHistory (s\<lparr>lastSuccessfulDetection := d\<rparr>) lw rw t
     = (updateHandHistory s lw rw t)\<lparr>lastSuccessfulDetection := d\<rparr>"
  "updateHandHistory (s\<lparr>isGestureDetected := e\<rparr>) lw rw t
     = (updateHandHistory s lw rw t)\<lparr>isGestureDetected := e\<rparr>"
  "updateHandHistory (s\<lparr>recentDetectionHistory := g\<rparr>) lw rw t
     = (updateHandHistory s lw rw t)\<lparr>recentDetectionHistory := g\<rparr>"
  "updateHandHistory (s\<lparr>showCalibrationComplete := i\<rparr>) lw rw t
     = (updateHandHistory s lw rw t)\<lparr>showCalibrationComplete := i\<rparr>"
  by (simp_all add: updateHandHistory_def detectHeadShake_def updateHeadHistory_def
      clearLastAction_def Let_def)

lemma held_health [simp]:
  "held h (s\<lparr>poseDetectionFailureCount := c\<rparr>) f = held h s f"
  "held h (s\<lparr>lastSuccessfulDetection := d\<rparr>) f = held h s f"
  "held h (s\<lparr>isGestureDetected := e\<rparr>) f = held h s f"
  "held h (s\<lparr>recentDetectionHistory := g\<rparr>) f = held h s f"
  "held h (s\<lparr>showCalibrationComplete := i\<rparr>) f = held h s f"
  "held h (clearLastAction s) f = held h s f"
  by (simp_all add: held_def split: option.splits)


lemma gestureBody_enter:
  assumes "if h = LeftHand
           then isHandUp ls lw \<and> \<not> isHandUp rs rw \<and> lastLeftHandState s = Up
           else isHandUp rs rw \<and> \<not> isHandUp ls lw \<and> lastRightHandState s = Up"
    and "isHandStable (updateHandHistory s lw rw (now f)) h"
    and "\<not> isInContinuousMode s" "now f - continuousMoveStartTime s \<ge> continuousMoveThreshold"
    and "gameRunning f"
  shows "moveOf h \<in> set (snd (gestureBody s f lw rw ls rs))
         \<and> isInContinuousMode (fst (gestureBody s f lw rw ls rs))"
  using assms
  by (cases h)
     (simp_all add: gestureBody_def Let_def split_beta singleHandMove_def continuousMove_def
       heldHand_def performAction_def executeAction_def moveOf_def)

lemma heldE:
  assumes "held h s f"
  obtains lw rw ls rs where
    "lmAt (poseLandmarks f) 15 = Some lw" "lmAt (poseLandmarks f) 16 = Some rw"
    "lmAt (poseLandmarks f) 11 = Some ls" "lmAt (poseLandmarks f) 12 = Some rs"
    "if h = LeftHand
     then isHandUp ls lw \<and> \<not> isHandUp rs rw \<and> lastLeftHandState s = Up
     else isHandUp rs rw \<and> \<not> isHandUp ls lw \<and> lastRightHandState s = Up"
    "isHandStable (updateHandHistory s lw rw (now f)) h"
  using assms by (auto simp add: held_def split: option.splits)


lemma detect_enter:
  assumes "runsToEnd s f" "held h s f" "\<not> isInContinuousMode s"
    and "now f - continuousMoveStartTime s \<ge> continuousMoveThreshold" "gameRunning f"
  shows "moveOf h \<in> set (snd (detectHandGestures s f))
         \<and> isInContinuousMode (fst (detectHandGestures s f))"
proof -
  from assms(2) obtain lw rw ls rs where lm:
    "lmAt (poseLandmarks f) 15 = Some lw" "lmAt (poseLandmarks f) 16 = Some rw"
    "lmAt (poseLandmarks f) 11 = Some ls" "lmAt (poseLandmarks f) 12 = Some rs"
    and up: "if h = LeftHand
     then isHandUp ls lw \<and> \<not> isHandUp rs rw \<and> lastLeftHandState s = Up
     else isHandUp rs rw \<and> \<not> isHandUp ls lw \<and> lastRightHandState s = Up"
    and st: "isHandStable (updateHandHistory s lw rw (now f)) h"
    by (rule heldE)
  from assms(1) obtain lw' rw' ls' rs' nose where lm':
    "lmAt (poseLandmarks f) 15 = Some lw'" "lmAt (poseLandmarks f) 16 = Some rw'"
    "lmAt (poseLandmarks f) 11 = Some ls'" "lmAt (poseLandmarks f) 12 = Some rs'"
    and d: "detectHandGestures s f =
       gestureBody (detectHeadShake (updateHeadHistory s nose (now f))) f lw' rw' ls' rs'"
    by (rule runsToEnd_detect)
  let ?s1 = "detectHeadShake (updateHeadHistory s nose (now f))"
  have d': "detectHandGestures s f = gestureBody ?s1 f lw rw ls rs"
    using d lm lm' by simp
  have "moveOf h \<in> set (snd (gestureBody ?s1 f lw rw ls rs))
         \<and> isInContinuousMode (fst (gestureBody ?s1 f lw rw ls rs))"
    using up st assms(3,4,5) by (intro gestureBody_enter) simp_all
  then show ?thesis by (simp add: d')
qed

lemma held_beforeGestures [simp]:
  "held h (beforeGestures s f) f = held h s f"
  by (simp add: beforeGestures_def Let_def)

lemma cycle_enter:
  assumes "maxCalibrationFrames \<le> calibrationFrames s" "runsToEnd s f" "held h s f"
    and "gameRunning f" "\<not> isInContinuousMode s"
    and "now f - continuousMoveStartTime s \<ge> continuousMoveThreshold"
  shows "isInContinuousMode (fst (cycle s f)) \<and> moveOf h \<in> set (snd (cycle s f))"
proof -
  have "moveOf h \<in> set (snd (detectHandGestures (beforeGestures s f) f))
         \<and> isInContinuousMode (fst (detectHandGestures (beforeGestures s f) f))"
    using assms by (intro detect_enter) simp_all
  then show ?thesis
    using assms(1,2) by (simp add: cycle_detecting runsToEnd_valid)
qed

text \<open>
  The three exits of continuous mode clear the flag and the start time (both are set
  to \<open>false\<close> and \<open>0\<close>): the held hand becomes unstable; both hands are down; both hands
  are up and visible.
\<close>

lemma gestureBody_exit_unstable:
  assumes "if h = LeftHand
           then isHandUp ls lw \<and> \<not> isHandUp rs rw \<and> lastLeftHandState s = Up
           else isHandUp rs rw \<and> \<not> isHandUp ls lw \<and> lastRightHandState s = Up"
    and "\<not> isHandStable (updateHandHistory s lw rw (now f)) h"
    and "isInContinuousMode s"
  shows "\<not> isInContinuousMode (fst (gestureBody s f lw rw ls rs))
         \<and> continuousMoveStartTime (fst (gestureBody s f lw rw ls rs)) = 0
         \<and> lastActionTime (fst (gestureBody s f lw rw ls rs)) = lastActionTime s"
  using assms
  by (cases h)
     (simp_all add: gestureBody_def Let_def split_beta singleHandMove_def continuousMove_def
       heldHand_def performAction_def executeAction_def)

lemma gestureBody_exit_lowered:
  assumes "\<not> isHandUp ls lw" "\<not> isHandUp rs rw"
  shows "\<not> isInContinuousMode (fst (gestureBody s f lw rw ls rs))
         \<and> continuousMoveStartTime (fst (gestureBody s f lw rw ls rs)) = 0"
  using assms
  by (simp add: gestureBody_def Let_def split_beta singleHandMove_def continuousMove_def)

lemma gestureBody_exit_both_up:
  assumes "handVisibleInFrame lw" "handVisibleInFrame rw" "isHandUp ls lw" "isHandUp rs rw"
    and "isInContinuousMode s"
  shows "\<not> isInContinuousMode (fst (gestureBody s f lw rw ls rs))
         \<and> continuousMoveStartTime (fst (gestureBody s f lw rw ls rs)) = 0"
  using assms
  by (simp add: gestureBody_def Let_def split_beta singleHandMove_def continuousMove_def)

lemma gestureBody_hands:
  "leftHandHistory (fst (gestureBody s f lw rw ls rs))
     = leftHandHistory (updateHandHistory s lw rw (now f))"
  "rightHandHistory (fst (gestureBody s f lw rw ls rs))
     = rightHandHistory (updateHandHistory s lw rw (now f))"
  "lastLeftHandState (fst (gestureBody s f lw rw ls rs)) = (if isHandUp ls lw then Up else Down)"
  "lastRightHandState (fst (gestureBody s f lw rw ls rs)) = (if isHandUp rs rw then Up else Down)"
  by (simp_all add: gestureBody_def Let_def split_beta)

subsection \<open>A held hand that jerks once\<close>

lemma isHandStable_beforeGestures [simp]:
  "isHandStable (updateHandHistory (beforeGestures s f) lw rw t) h
     = isHandStable (updateHandHistory s lw rw t) h"
  by (simp add: beforeGestures_def Let_def)

lemma continuousLeft_sel [simp]:
  "calibrationFrames continuousLeft = 30"
  "frameCounter continuousLeft = 1"
  "lastActionTime continuousLeft = 10000"
  "baselineLeftShoulder continuousLeft \<noteq> None"
  "baselineRightShoulder continuousLeft \<noteq> None"
  "baselineNose continuousLeft \<noteq> None"
  "lastLeftHandState continuousLeft = Up"
  "isInContinuousMode continuousLeft"
  "continuousMoveStartTime continuousLeft = 10000"
  "lastContinuousMoveTime continuousLeft = 10900"
  "leftHandHistory continuousLeft
     = handWindow [2 / 10, 2 / 10, 2 / 10, 2 / 10, 2 / 10, 2 / 10, 4 / 100, 2 / 10, 2 / 10, 2 / 10]"
  "rightHandHistory continuousLeft
     = handWindow [8 / 10, 8 / 10, 8 / 10, 8 / 10, 8 / 10, 8 / 10, 8 / 10, 8 / 10, 8 / 10, 8 / 10]"
  by (simp_all add: continuousLeft_def calibrated_def constructed_def)

lemma scenario_frames [simp]:
  "now jerkFrame = 11000" "now steadyFrame = 11033"
  "gameRunning jerkFrame" "gameRunning steadyFrame"
  "lastActionTimerFired jerkFrame" "lastActionTimerFired steadyFrame"
  "poseLandmarks jerkFrame \<noteq> []" "poseLandmarks steadyFrame \<noteq> []"
  "lmAt (poseLandmarks jerkFrame) 0 = Some (mkLandmark (5 / 10) (3 / 10) 1)"
  "lmAt (poseLandmarks jerkFrame) 11 = Some (mkLandmark (4 / 10) (5 / 10) 1)"
  "lmAt (poseLandmarks jerkFrame) 12 = Some (mkLandmark (6 / 10) (5 / 10) 1)"
  "lmAt (poseLandmarks jerkFrame) 15 = Some (mkLandmark (3 / 10) (36 / 100) (9 / 10))"
  "lmAt (poseLandmarks jerkFrame) 16 = Some (mkLandmark (7 / 10) (8 / 10) (9 / 10))"
  "lmAt (poseLandmarks steadyFrame) 0 = Some (mkLandmark (5 / 10) (3 / 10) 1)"
  "lmAt (poseLandmarks steadyFrame) 11 = Some (mkLandmark (4 / 10) (5 / 10) 1)"
  "lmAt (poseLandmarks steadyFrame) 12 = Some (mkLandmark (6 / 10) (5 / 10) 1)"
  "lmAt (poseLandmarks steadyFrame) 15 = Some (mkLandmark (3 / 10) (2 / 10) (9 / 10))"
  "lmAt (poseLandmarks steadyFrame) 16 = Some (mkLandmark (7 / 10) (8 / 10) (9 / 10))"
  "runsToEnd continuousLeft jerkFrame"
  "runsToEnd continuousLeft steadyFrame"
  by (simp_all add: jerkFrame_def steadyFrame_def runsToEnd_def actionCooldown_def)

lemmas stable_eval = isHandStable_def updateHandHistory_def pushWindow_def handWindow_def
  calculateVariance_def mkLandmark_def isHandUp_def power2_eq_square params

lemma jerk_unstable:
  "\<not> isHandStable (updateHandHistory continuousLeft (mkLandmark (3 / 10) (36 / 100) (9 / 10))
        (mkLandmark (7 / 10) (8 / 10) (9 / 10)) 11000) LeftHand"
  by (simp add: stable_eval Let_def)

lemma after_jerk:
  "\<not> isInContinuousMode (fst (cycle continuousLeft jerkFrame))"
  "continuousMoveStartTime (fst (cycle continuousLeft jerkFrame)) = 0"
  "lastActionTime (fst (cycle continuousLeft jerkFrame)) = 10000"
  "lastLeftHandState (fst (cycle continuousLeft jerkFrame)) = Up"
proof -
  let ?s1 = "detectHeadShake (updateHeadHistory (beforeGestures continuousLeft jerkFrame)
               (mkLandmark (5 / 10) (3 / 10) 1) 11000)"
  let ?lw = "mkLandmark (3 / 10) (36 / 100) (9 / 10)"
  let ?rw = "mkLandmark (7 / 10) (8 / 10) (9 / 10)"
  let ?ls = "mkLandmark (4 / 10) (5 / 10) 1"
  let ?rs = "mkLandmark (6 / 10) (5 / 10) 1"
  have c: "cycle continuousLeft jerkFrame =
     (fst (notifyStatus (fst (gestureBody ?s1 jerkFrame ?lw ?rw ?ls ?rs))),
      snd (gestureBody ?s1 jerkFrame ?lw ?rw ?ls ?rs)
        @ snd (notifyStatus (fst (gestureBody ?s1 jerkFrame ?lw ?rw ?ls ?rs))))"
    by (simp add: cycle_detecting detect_runsToEnd maxCalibrationFrames_def)
  have up: "isHandUp ?ls ?lw" "\<not> isHandUp ?rs ?rw"
    by (simp_all add: isHandUp_def mkLandmark_def params)
  have "\<not> isInContinuousMode (fst (gestureBody ?s1 jerkFrame ?lw ?rw ?ls ?rs))
         \<and> continuousMoveStartTime (fst (gestureBody ?s1 jerkFrame ?lw ?rw ?ls ?rs)) = 0
         \<and> lastActionTime (fst (gestureBody ?s1 jerkFrame ?lw ?rw ?ls ?rs)) = lastActionTime ?s1"
    using up jerk_unstable by (intro gestureBody_exit_unstable [where h = LeftHand]) simp_all
  then show "\<not> isInContinuousMode (fst (cycle continuousLeft jerkFrame))"
    "continuousMoveStartTime (fst (cycle continuousLeft jerkFrame)) = 0"
    "lastActionTime (fst (cycle continuousLeft jerkFrame)) = 10000"
    "lastLeftHandState (fst (cycle continuousLeft jerkFrame)) = Up"
    using up unfolding c by (simp_all add: gestureBody_hands)
qed

lemma after_jerk_rest:
  "leftHandHistory (fst (cycle continuousLeft jerkFrame))
     = leftHandHistory (updateHandHistory continuousLeft (mkLandmark (3 / 10) (36 / 100) (9 / 10))
         (mkLandmark (7 / 10) (8 / 10) (9 / 10)) 11000)"
  "rightHandHistory (fst (cycle continuousLeft jerkFrame))
     = rightHandHistory (updateHandHistory continuousLeft (mkLandmark (3 / 10) (36 / 100) (9 / 10))
         (mkLandmark (7 / 10) (8 / 10) (9 / 10)) 11000)"
  "calibrationFrames (fst (cycle continuousLeft jerkFrame)) = 30"
  "baselineLeftShoulder (fst (cycle continuousLeft jerkFrame)) \<noteq> None"
  "baselineRightShoulder (fst (cycle continuousLeft jerkFrame)) \<noteq> None"
  "baselineNose (fst (cycle continuousLeft jerkFrame)) \<noteq> None"
  by (simp_all add: cycle_detecting detect_runsToEnd maxCalibrationFrames_def gestureBody_hands
       updateHandHistory_def)

lemma after_jerk_counter: "frameCounter (fst (cycle continuousLeft jerkFrame)) = 2"
  by (simp add: frameCounter_cycle maxCalibrationFrames_def)

lemma steady_stable:
  "isHandStable
     (updateHandHistory (fst (cycle continuousLeft jerkFrame))
        (mkLandmark (3 / 10) (2 / 10) (9 / 10)) (mkLandmark (7 / 10) (8 / 10) (9 / 10)) 11033)
     LeftHand"
  by (simp add: isHandStable_def updateHandHistory_def [of "fst (cycle _ _)"] after_jerk_rest)
     (simp add: stable_eval Let_def)

lemma steady_held:
  "held LeftHand (fst (cycle continuousLeft jerkFrame)) steadyFrame"
  using steady_stable
  by (simp add: held_def after_jerk isHandUp_def mkLandmark_def params)

lemma steady_runsToEnd:
  "runsToEnd (fst (cycle continuousLeft jerkFrame)) steadyFrame"
  by (simp add: runsToEnd_def after_jerk_rest after_jerk after_jerk_counter actionCooldown_def)

text \<open>
  Claim C8, where the code departs from it. In a state as an exit through instability
  or through Both-Hands-Up leaves it (continuous flag false, start time 0), with hand
  \<open>h\<close> still held up and stable on a frame whose gesture step runs to its end: line 671
  computes the hold time from the cleared start time, \<open>now - 0\<close>, which is at least 800
  for every timestamp from 800 on, so continuous mode is entered on that very cycle and
  the move is dispatched, however short the time since the exit. (The fast-drop timer
  tests its start time against 0 before it computes the elapsed time, line 577; the
  continuous-move timer does not.)
\<close>

theorem continuous_mode_reentered_without_fresh_hold:
  assumes "maxCalibrationFrames \<le> calibrationFrames s" and "runsToEnd s f" and "held h s f"
    and "gameRunning f"
    and "\<not> isInContinuousMode s" and "continuousMoveStartTime s = 0"
    and "continuousMoveThreshold \<le> now f"
  shows "isInContinuousMode (fst (cycle s f)) \<and> moveOf h \<in> set (snd (cycle s f))"
  using assms by (intro cycle_enter) simp_all

text \<open>
  The failing run: the left hand has been held up since time 10000 and continuous mode
  is on. At 11000 the wrist jerks (still raised): the stability check fails, the flag
  and the start time are cleared. At 11033, one frame later, the wrist is steady again:
  continuous mode is back on and \<open>movePiece(-1, 0)\<close> is called, 33 ms after the exit.
\<close>

theorem continuous_mode_reentered_without_fresh_hold_witness:
  "isInContinuousMode continuousLeft
   \<and> \<not> isInContinuousMode (fst (cycle continuousLeft jerkFrame))
   \<and> continuousMoveStartTime (fst (cycle continuousLeft jerkFrame)) = 0
   \<and> now steadyFrame - now jerkFrame = 33
   \<and> maxCalibrationFrames \<le> calibrationFrames (fst (cycle continuousLeft jerkFrame))
   \<and> runsToEnd (fst (cycle continuousLeft jerkFrame)) steadyFrame
   \<and> held LeftHand (fst (cycle continuousLeft jerkFrame)) steadyFrame
   \<and> gameRunning steadyFrame
   \<and> continuousMoveThreshold \<le> now steadyFrame
   \<and> isInContinuousMode (fst (cycle (fst (cycle continuousLeft jerkFrame)) steadyFrame))
   \<and> MovePiece (- 1) 0 \<in> set (snd (cycle (fst (cycle continuousLeft jerkFrame)) steadyFrame))"
  using continuous_mode_reentered_without_fresh_hold
    [of "fst (cycle continuousLeft jerkFrame)" steadyFrame LeftHand]
    steady_held steady_runsToEnd
  by (simp add: after_jerk after_jerk_rest maxCalibrationFrames_def continuousMoveThreshold_def
      moveOf_def)


section \<open>What the cooldown blocks and what bypasses the repeated-action check\<close>

lemma lastAction_irrelevant [simp]:
  "runsToEnd (s\<lparr>lastAction := a\<rparr>) f = runsToEnd s f"
  "held h (s\<lparr>lastAction := a\<rparr>) f = held h s f"
  by (simp_all add: runsToEnd_def held_def updateHandHistory_def isHandStable_def
      split: option.splits)






section \<open>The debug block of the gesture step\<close>

text \<open>
  Beyond the claims: when the frame counter is a multiple of 30 and the gates of the
  gesture step are passed, the debug block of lines 518-524 throws before the hands
  are looked at. The step then only updates the head window and the shake detector
  and dispatches nothing; in particular a false-to-true edge of Both-Hands-Up on such
  a cycle calls no \<open>rotatePiece\<close> and leaves \<open>bothHandsVisible\<close> false, so that the rotate
  is dispatched by the next cycle that runs to its end.
\<close>

theorem debug_block_ends_gesture_step:
  assumes "baselineLeftShoulder s \<noteq> None" "baselineRightShoulder s \<noteq> None"
    and "baselineNose s \<noteq> None"
    and "actionCooldown \<le> now f - lastActionTime s"
    and "lmAt (poseLandmarks f) 15 \<noteq> None" "lmAt (poseLandmarks f) 16 \<noteq> None"
    and "lmAt (poseLandmarks f) 11 \<noteq> None" "lmAt (poseLandmarks f) 12 \<noteq> None"
    and "lmAt (poseLandmarks f) 0 = Some nose"
    and "frameCounter s mod 30 = 0"
  shows "detectHandGestures s f = (detectHeadShake (updateHeadHistory s nose (now f)), [])"
  using assms by (auto simp add: detectHandGestures_def Let_def)

theorem debug_block_ends_gesture_step_witness:
  "baselineLeftShoulder (calibrated\<lparr>frameCounter := 0\<rparr>) \<noteq> None
   \<and> baselineRightShoulder (calibrated\<lparr>frameCounter := 0\<rparr>) \<noteq> None
   \<and> baselineNose (calibrated\<lparr>frameCounter := 0\<rparr>) \<noteq> None
   \<and> actionCooldown
       \<le> now (poseFrame (2 / 10) (2 / 10) 10000) - lastActionTime (calibrated\<lparr>frameCounter := 0\<rparr>)
   \<and> lmAt (poseLandmarks (poseFrame (2 / 10) (2 / 10) 10000)) 0
       = Some (mkLandmark (5 / 10) (3 / 10) 1)
   \<and> frameCounter (calibrated\<lparr>frameCounter := 0\<rparr>) mod 30 = 0
   \<and> bothHandsUp (poseFrame (2 / 10) (2 / 10) 10000)
   \<and> gameRunning (poseFrame (2 / 10) (2 / 10) 10000)
   \<and> snd (detectHandGestures (calibrated\<lparr>frameCounter := 0\<rparr>) (poseFrame (2 / 10) (2 / 10) 10000))
       = []
   \<and> \<not> bothHandsVisible
         (fst (detectHandGestures (calibrated\<lparr>frameCounter := 0\<rparr>)
            (poseFrame (2 / 10) (2 / 10) 10000)))"
  using debug_block_ends_gesture_step
    [of "calibrated\<lparr>frameCounter := 0\<rparr>" "poseFrame (2 / 10) (2 / 10) 10000"
        "mkLandmark (5 / 10) (3 / 10) 1"]
  by (simp add: actionCooldown_def)


end
